theory Spec2Isabelle
  imports Complex_Main
begin

section \<open>Numbers, tolerances and angles\<close>

text \<open>
  The entity file \<^verbatim>\<open>rs_ellipse.cpp\<close> computes in C++ \<^verbatim>\<open>double\<close>. Here a double is a
  real number: every arithmetic operation is exact, there is no rounding, no infinity and
  no NaN. \<^verbatim>\<open>isnormal(x)\<close> therefore reads \<open>x \<noteq> 0\<close>, and \<^verbatim>\<open>static_cast<int>\<close> truncates
  towards zero without overflow. The tolerances are the macros of \<^verbatim>\<open>rs.h\<close>.
\<close>

definition RS_MAXDOUBLE :: real where
  "RS_MAXDOUBLE = 10 ^ 10"

definition RS_TOLERANCE :: real where
  "RS_TOLERANCE = 1 / 10 ^ 10"

definition RS_TOLERANCE15 :: real where
  "RS_TOLERANCE15 = 15 / 10 ^ 16"

definition RS_TOLERANCE2 :: real where
  "RS_TOLERANCE2 = 1 / 10 ^ 20"

definition RS_TOLERANCE_ANGLE :: real where
  "RS_TOLERANCE_ANGLE = 1 / 10 ^ 8"

text \<open>\<^verbatim>\<open>std::hypot\<close>, \<^verbatim>\<open>std::atan2\<close>, \<^verbatim>\<open>static_cast<int>\<close> and \<^verbatim>\<open>std::fmod\<close> on reals.\<close>

definition hypot :: "real \<Rightarrow> real \<Rightarrow> real" where
  "hypot a b = sqrt (a * a + b * b)"

definition atan2 :: "real \<Rightarrow> real \<Rightarrow> real" where
  "atan2 b a =
     (if 0 < a then arctan (b / a)
      else if a < 0 then (if 0 \<le> b then arctan (b / a) + pi else arctan (b / a) - pi)
      else if 0 < b then pi / 2
      else if b < 0 then - (pi / 2)
      else 0)"

definition to_int :: "real \<Rightarrow> int" where
  "to_int a = (if 0 \<le> a then \<lfloor>a\<rfloor> else \<lceil>a\<rceil>)"

definition fmod :: "real \<Rightarrow> real \<Rightarrow> real" where
  "fmod a m = a - of_int (to_int (a / m)) * m"

text \<open>
  Modelled from the spec: \<^verbatim>\<open>RS_Math\<close> is not part of the entity file. Its
  \<^verbatim>\<open>correctAngle\<close> is the canonical-range correction of an angle into \<open>[0, 2\<pi>)\<close>, and
  \<^verbatim>\<open>rad2deg\<close> converts radians to degrees.
\<close>

definition correctAngle :: "real \<Rightarrow> real" where
  "correctAngle a = a - 2 * pi * of_int \<lfloor>a / (2 * pi)\<rfloor>"

definition rad2deg :: "real \<Rightarrow> real" where
  "rad2deg a = a * 180 / pi"

section \<open>The 2D vector\<close>

text \<open>
  Modelled from the spec: \<^verbatim>\<open>RS_Vector\<close> is the host's 2D point type with translation,
  rotation by an angle, anisotropic scaling, dot product, magnitude, planar angle and an
  invalid sentinel state. A vector built from coordinates or from an angle is valid; the
  operations that change a vector in place keep its flag.
\<close>

record RS_Vector =
  vx :: real
  vy :: real
  valid :: bool

definition vec :: "real \<Rightarrow> real \<Rightarrow> RS_Vector" where
  "vec a b = \<lparr>vx = a, vy = b, valid = True\<rparr>"

definition invalid_vector :: RS_Vector where
  "invalid_vector = \<lparr>vx = 0, vy = 0, valid = False\<rparr>"

definition polar :: "real \<Rightarrow> RS_Vector" where
  "polar a = vec (cos a) (sin a)"

definition vplus :: "RS_Vector \<Rightarrow> RS_Vector \<Rightarrow> RS_Vector" where
  "vplus p q = vec (vx p + vx q) (vy p + vy q)"

definition vminus :: "RS_Vector \<Rightarrow> RS_Vector \<Rightarrow> RS_Vector" where
  "vminus p q = vec (vx p - vx q) (vy p - vy q)"

definition vneg :: "RS_Vector \<Rightarrow> RS_Vector" where
  "vneg p = vec (- vx p) (- vy p)"

definition vtimes :: "RS_Vector \<Rightarrow> real \<Rightarrow> RS_Vector" where
  "vtimes p s = vec (vx p * s) (vy p * s)"

definition vdiv :: "RS_Vector \<Rightarrow> real \<Rightarrow> RS_Vector" where
  "vdiv p s = vec (vx p / s) (vy p / s)"

definition move :: "RS_Vector \<Rightarrow> RS_Vector \<Rightarrow> RS_Vector" where
  "move p offset = p\<lparr>vx := vx p + vx offset, vy := vy p + vy offset\<rparr>"

definition rotate_vec :: "RS_Vector \<Rightarrow> real \<Rightarrow> RS_Vector" where
  "rotate_vec p a = p\<lparr>vx := vx p * cos a - vy p * sin a, vy := vx p * sin a + vy p * cos a\<rparr>"

definition scale :: "RS_Vector \<Rightarrow> RS_Vector \<Rightarrow> RS_Vector" where
  "scale p f = p\<lparr>vx := vx p * vx f, vy := vy p * vy f\<rparr>"

definition squared :: "RS_Vector \<Rightarrow> real" where
  "squared p = vx p * vx p + vy p * vy p"

definition magnitude :: "RS_Vector \<Rightarrow> real" where
  "magnitude p = sqrt (vx p * vx p + vy p * vy p)"

definition dotP :: "RS_Vector \<Rightarrow> RS_Vector \<Rightarrow> real" where
  "dotP p q = vx p * vx q + vy p * vy q"

definition angle :: "RS_Vector \<Rightarrow> real" where
  "angle p = correctAngle (atan2 (vy p) (vx p))"

section \<open>The ellipse\<close>

text \<open>
  \<^verbatim>\<open>RS_EllipseData\<close> with the cached fields of the entity (\<^verbatim>\<open>minV\<close>, \<^verbatim>\<open>maxV\<close>,
  \<^verbatim>\<open>cachedLength\<close>) in one record.
\<close>

record RS_Ellipse =
  center :: RS_Vector
  majorP :: RS_Vector
  ratio :: real
  angle1 :: real
  angle2 :: real
  reversed :: bool
  isArc :: bool
  angleDegrees :: real
  startAngleDegrees :: real
  otherAngleDegrees :: real
  angularLength :: real
  minV :: RS_Vector
  maxV :: RS_Vector
  cachedLength :: real

definition getAngle :: "RS_Ellipse \<Rightarrow> real" where
  "getAngle e = angle (majorP e)"

definition getMajorRadius :: "RS_Ellipse \<Rightarrow> real" where
  "getMajorRadius e = magnitude (majorP e)"

definition getMinorRadius :: "RS_Ellipse \<Rightarrow> real" where
  "getMinorRadius e = magnitude (majorP e) * ratio e"

definition getMajorPoint :: "RS_Ellipse \<Rightarrow> RS_Vector" where
  "getMajorPoint e = vplus (center e) (majorP e)"

definition getMinorPoint :: "RS_Ellipse \<Rightarrow> RS_Vector" where
  "getMinorPoint e = vplus (center e) (vtimes (vec (- vy (majorP e)) (vx (majorP e))) (ratio e))"

definition isEllipticArc :: "RS_Ellipse \<Rightarrow> bool" where
  "isEllipticArc e = isArc e"

definition getEllipsePoint :: "RS_Ellipse \<Rightarrow> real \<Rightarrow> RS_Vector" where
  "getEllipsePoint e a =
     (let ra = getMajorRadius e
      in move (rotate_vec (scale (polar a) (vec ra (ra * ratio e))) (getAngle e)) (center e))"

definition getStartpoint :: "RS_Ellipse \<Rightarrow> RS_Vector" where
  "getStartpoint e = (if isEllipticArc e then getEllipsePoint e (angle1 e) else invalid_vector)"

definition getEndpoint :: "RS_Ellipse \<Rightarrow> RS_Vector" where
  "getEndpoint e = (if isEllipticArc e then getEllipsePoint e (angle2 e) else invalid_vector)"

definition getEllipseAngle :: "RS_Ellipse \<Rightarrow> RS_Vector \<Rightarrow> real" where
  "getEllipseAngle e pos =
     (let m = rotate_vec (vminus pos (center e)) (- angle (majorP e));
          m = m\<lparr>vx := vx m * ratio e\<rparr>
      in angle m)"

text \<open>\<^verbatim>\<open>setAngle2\<close> writes the field and refreshes no cache.\<close>

definition setAngle2 :: "RS_Ellipse \<Rightarrow> real \<Rightarrow> RS_Ellipse" where
  "setAngle2 e a2 = e\<lparr>angle2 := a2\<rparr>"

text \<open>
  \<^verbatim>\<open>std::remainder\<close> on reals subtracts the multiple of \<open>y\<close> nearest to \<open>x\<close>, the even one at
  a tie. \<^verbatim>\<open>getAngleLength\<close> is the angular length of the kept curve, from the start angle
  in the direction of drawing; it is the whole turn when the bounds coincide up to the
  angular tolerance.
\<close>

definition nearestWhole :: "real \<Rightarrow> int" where
  "nearestWhole q =
     (let n = \<lfloor>q\<rfloor>;
          f = q - of_int n
      in if f < 1 / 2 then n else if 1 / 2 < f then n + 1 else if even n then n else n + 1)"

definition remainder :: "real \<Rightarrow> real \<Rightarrow> real" where
  "remainder x y = x - of_int (nearestWhole (x / y)) * y"

definition getAngleLength :: "RS_Ellipse \<Rightarrow> real" where
  "getAngleLength e =
     (let a = (if reversed e then angle2 e else angle1 e);
          b = (if reversed e then angle1 e else angle2 e);
          ret = correctAngle (b - a)
      in if \<bar>remainder ret (2 * pi)\<bar> < RS_TOLERANCE_ANGLE then 2 * pi else ret)"

subsection \<open>Construction from a quadratic form\<close>

text \<open>
  \<^verbatim>\<open>createFromQuadratic(dn)\<close> for \<open>dn[0] x\<^sup>2 + dn[1] xy + dn[2] y\<^sup>2 = 1\<close>. The result is the
  returned flag with the ellipse after the call.
\<close>

definition createFromQuadratic :: "real list \<Rightarrow> RS_Ellipse \<Rightarrow> bool \<times> RS_Ellipse" where
  "createFromQuadratic dn e =
     (if length dn \<noteq> 3 then (False, e)
      else
        let a = dn ! 0; c = dn ! 1; b = dn ! 2;
            d = a - b;
            s = hypot d c
        in if a + b \<le> s then (False, e)
           else
             let e = (if b \<le> a
                      then e\<lparr>majorP := vdiv (polar (atan2 (d + s) (- c))) (sqrt (0.5 * (a + b - s)))\<rparr>
                      else e\<lparr>majorP := vdiv (polar (atan2 (- c) (s - d))) (sqrt (0.5 * (a + b - s)))\<rparr>);
                 e = e\<lparr>ratio := sqrt ((a + b - s) / (a + b + s))\<rparr>;
                 e = e\<lparr>angle1 := 0\<rparr>;
                 e = e\<lparr>angle2 := 0\<rparr>
             in (True, e))"

subsection \<open>Collaborators that the entity file calls and does not define\<close>

text \<open>
  Modelled from the spec: an angle-domain helper offering the signed angular difference
  honoring an orientation flag and the test whether an angle lies between two bounds
  honoring orientation. Bounds that coincide up to the angular tolerance span the full
  turn, which is how a whole ellipse (both angles zero) keeps every direction.
\<close>

definition getAngleDifference :: "real \<Rightarrow> real \<Rightarrow> bool \<Rightarrow> real" where
  "getAngleDifference a1 a2 rvd = (if rvd then correctAngle (a1 - a2) else correctAngle (a2 - a1))"

definition isAngleBetween :: "real \<Rightarrow> real \<Rightarrow> real \<Rightarrow> bool \<Rightarrow> bool" where
  "isAngleBetween a a1 a2 rvd =
     (let b1 = (if rvd then a2 else a1);
          b2 = (if rvd then a1 else a2);
          span = correctAngle (b2 - b1)
      in if span < RS_TOLERANCE_ANGLE \<or> 2 * pi - span < RS_TOLERANCE_ANGLE then True
         else correctAngle (a - b1) \<le> span + RS_TOLERANCE_ANGLE / 2
              \<or> correctAngle (b2 - a) \<le> span + RS_TOLERANCE_ANGLE / 2)"

text \<open>
  Modelled from the spec: \<^verbatim>\<open>LC_Rect\<close> is the host's axis-aligned rectangle, built from
  two corner points and merged with a point. The empty box has invalid corners, and
  merging a point into it gives the box of that point alone.
\<close>

record LC_Rect =
  minP :: RS_Vector
  maxP :: RS_Vector

definition emptyRect :: LC_Rect where
  "emptyRect = \<lparr>minP = invalid_vector, maxP = invalid_vector\<rparr>"

definition cornerRect :: "RS_Vector \<Rightarrow> RS_Vector \<Rightarrow> LC_Rect" where
  "cornerRect p q =
     \<lparr>minP = vec (min (vx p) (vx q)) (min (vy p) (vy q)),
      maxP = vec (max (vx p) (vx q)) (max (vy p) (vy q))\<rparr>"

definition merge :: "LC_Rect \<Rightarrow> RS_Vector \<Rightarrow> LC_Rect" where
  "merge box p =
     (if valid (minP box)
      then \<lparr>minP = vec (min (vx (minP box)) (vx p)) (min (vy (minP box)) (vy p)),
            maxP = vec (max (vx (maxP box)) (vx p)) (max (vy (maxP box)) (vy p))\<rparr>
      else cornerRect p p)"

text \<open>
  Modelled from the spec: the delegate line entity \<^verbatim>\<open>RS_Line\<close> is a segment with a start
  and an end point, and \<^verbatim>\<open>LC_Quadratic\<close> is the quadratic form that the quadratic-functional
  fitter reads through its accessors: whether it is quadratic at all, the entries
  \<open>(0,0)\<close>, \<open>(0,1)\<close> and \<open>(1,1)\<close> of its symmetric matrix, the two linear coefficients and
  the constant term.
\<close>

record RS_Line =
  lineStart :: RS_Vector
  lineEnd :: RS_Vector

record LC_Quadratic =
  isQuadratic :: bool
  quad00 :: real
  quad01 :: real
  quad11 :: real
  linear0 :: real
  linear1 :: real
  constTerm :: real

text \<open>
  The numeric primitives and delegates of the host are parameters of the model: the
  complete and the incomplete elliptic integral of the second kind, the period counter of
  the angle helper, the linear-system solver (\<open>None\<close> when it reports failure), the
  quartic root solver, the Halley root iteration of the numerics library, the line
  entity's nearest-point-by-distance query on the line through two points, and the base
  entity's \<^verbatim>\<open>scaleBorders\<close> and \<^verbatim>\<open>moveBorders\<close>, which map the pair of box corners under
  a scaling and under a translation. Further parameters are the mirror image of a point
  across the line through two points and the shear of a point; the empty quadratic form,
  the form built from six coefficients, and its rotation, translation and shear; the
  vertices of the quadrilateral of four lines, the two line intersection queries, and the
  middle point, the length, the distance to a point and the direction angle of a line. A
  \<^verbatim>\<open>double*\<close> output parameter is a \<open>real option\<close>: \<open>None\<close> is the null pointer,
  \<open>Some v\<close> a pointer to a cell holding \<open>v\<close>; the function returns the cell after the call.
\<close>

record host =
  ellint_2 :: "real \<Rightarrow> real"
  ellipticIntegral_2 :: "real \<Rightarrow> real \<Rightarrow> real"
  getPeriodsCount :: "real \<Rightarrow> real \<Rightarrow> bool \<Rightarrow> int"
  linearSolver :: "real list list \<Rightarrow> real list option"
  quarticSolver :: "real list \<Rightarrow> real list"
  halley_iterate :: "(real \<Rightarrow> real \<times> real \<times> real) \<Rightarrow> real \<Rightarrow> real \<Rightarrow> real \<Rightarrow> nat \<Rightarrow> real"
  line_getNearestDist ::
    "RS_Vector \<Rightarrow> RS_Vector \<Rightarrow> real \<Rightarrow> RS_Vector \<Rightarrow> real option \<Rightarrow> RS_Vector \<times> real option"
  scaleBorders :: "RS_Vector \<Rightarrow> RS_Vector \<Rightarrow> RS_Vector \<times> RS_Vector \<Rightarrow> RS_Vector \<times> RS_Vector"
  moveBorders :: "RS_Vector \<Rightarrow> RS_Vector \<times> RS_Vector \<Rightarrow> RS_Vector \<times> RS_Vector"
  mirrorPoint :: "RS_Vector \<Rightarrow> RS_Vector \<Rightarrow> RS_Vector \<Rightarrow> RS_Vector"
  shearPoint :: "RS_Vector \<Rightarrow> real \<Rightarrow> RS_Vector"
  quadratic_default :: LC_Quadratic
  quadratic_new :: "real list \<Rightarrow> LC_Quadratic"
  quadratic_rotate :: "LC_Quadratic \<Rightarrow> real \<Rightarrow> LC_Quadratic"
  quadratic_move :: "LC_Quadratic \<Rightarrow> RS_Vector \<Rightarrow> LC_Quadratic"
  quadratic_shear :: "LC_Quadratic \<Rightarrow> real \<Rightarrow> LC_Quadratic"
  createQuadrilateral :: "RS_Line list \<Rightarrow> RS_Vector list"
  getIntersectionLineLine :: "RS_Line \<Rightarrow> RS_Line \<Rightarrow> RS_Vector list"
  getIntersection :: "RS_Line \<Rightarrow> RS_Line \<Rightarrow> bool \<Rightarrow> RS_Vector list"
  line_getMiddlePoint :: "RS_Line \<Rightarrow> RS_Vector"
  line_getLength :: "RS_Line \<Rightarrow> real"
  line_getDistanceToPoint :: "RS_Line \<Rightarrow> RS_Vector \<Rightarrow> real"
  line_getAngle1 :: "RS_Line \<Rightarrow> real"

subsection \<open>Arc length\<close>

definition getEllipseLength :: "host \<Rightarrow> RS_Ellipse \<Rightarrow> real \<Rightarrow> real \<Rightarrow> real" where
  "getEllipseLength h e x1 x2 =
     (let a = getMajorRadius e;
          k = ratio e;
          k = sqrt (1 - k * k);
          x1 = correctAngle x1;
          x2 = correctAngle x2;
          x2 = (if x2 < x1 + RS_TOLERANCE_ANGLE then x2 + 2 * pi else x2);
          ret = (if pi \<le> x2
                 then of_int ((to_int ((x2 + RS_TOLERANCE_ANGLE) / pi)
                               - to_int ((x1 + RS_TOLERANCE_ANGLE) / pi)) * 2) * ellint_2 h k
                 else 0);
          x1 = fmod x1 pi;
          x2 = fmod x2 pi;
          ret = (if RS_TOLERANCE_ANGLE < \<bar>x2 - x1\<bar>
                 then ret + (ellipticIntegral_2 h k x2 - ellipticIntegral_2 h k x1)
                 else ret)
      in a * ret)"

text \<open>
  \<^verbatim>\<open>switchMajorMinor\<close> ends with the virtual \<^verbatim>\<open>calculateBorders()\<close>; the model takes that
  method as its first argument, so that the copy of class \<^verbatim>\<open>EllipseBorderHelper\<close> in
  \<^verbatim>\<open>updateLength\<close> runs it with the no-op override.
\<close>

definition switchMajorMinor :: "(RS_Ellipse \<Rightarrow> RS_Ellipse) \<Rightarrow> RS_Ellipse \<Rightarrow> bool \<times> RS_Ellipse" where
  "switchMajorMinor borders e =
     (if \<bar>ratio e\<bar> < RS_TOLERANCE then (False, e)
      else
        let vp_start = getStartpoint e;
            vp_end = getEndpoint e;
            vp = majorP e;
            e = e\<lparr>majorP := vec (- ratio e * vy vp) (ratio e * vx vp)\<rparr>;
            e = e\<lparr>ratio := 1 / ratio e\<rparr>;
            e = (if isEllipticArc e
                 then (let e = e\<lparr>angle1 := getEllipseAngle e vp_start\<rparr>
                       in e\<lparr>angle2 := getEllipseAngle e vp_end\<rparr>)
                 else e)
        in (True, borders e))"

text \<open>\<^verbatim>\<open>updateLength\<close>: the copy with ratio at most one and not reversed, then its length.\<close>

definition normalizedCopy :: "RS_Ellipse \<Rightarrow> RS_Ellipse" where
  "normalizedCopy this =
     (let e = this;
          e = (if 1 < ratio e then snd (switchMajorMinor (\<lambda>e. e) e) else e)
      in if reversed e
         then e\<lparr>angle1 := angle2 e, angle2 := angle1 e, reversed := False\<rparr>
         else e)"

definition updateLength :: "host \<Rightarrow> RS_Ellipse \<Rightarrow> RS_Ellipse" where
  "updateLength h this =
     (let e = normalizedCopy this
      in this\<lparr>cachedLength := getEllipseLength h e (angle1 e) (angle2 e)\<rparr>)"

subsection \<open>Bounding box\<close>

definition mergeBoundingBox :: "RS_Ellipse \<Rightarrow> LC_Rect \<Rightarrow> RS_Vector \<Rightarrow> LC_Rect" where
  "mergeBoundingBox e boundingBox direction =
     (let a0 = angle direction
      in fold (\<lambda>a box. if isAngleBetween a (angle1 e) (angle2 e) (reversed e)
                         then merge box (getEllipsePoint e a) else box)
           [a0, a0 + pi] boundingBox)"

text \<open>\<^verbatim>\<open>calculateBorders\<close> in its four steps: the angles and the arc flag, the box
  (\<open>boundingBoxOf\<close> is the local \<^verbatim>\<open>boundingBox\<close> after both merges), the degree mirrors, and
  the cached length.\<close>

definition bordersAngles :: "RS_Ellipse \<Rightarrow> RS_Ellipse" where
  "bordersAngles e =
     (let e = (if \<bar>angle1 e\<bar> < RS_TOLERANCE_ANGLE \<and> \<bar>angle2 e\<bar> < RS_TOLERANCE_ANGLE
               then e\<lparr>angle1 := 0, angle2 := 0\<rparr> else e)
      in e\<lparr>isArc := (angle1 e \<noteq> 0 \<or> angle2 e \<noteq> 0)\<rparr>)"

definition boundingBoxOf :: "RS_Ellipse \<Rightarrow> LC_Rect" where
  "boundingBoxOf e =
     (let boundingBox = (if isEllipticArc e then cornerRect (getStartpoint e) (getEndpoint e)
                         else emptyRect);
          vpx = vec (vx (majorP e)) (- ratio e * vy (majorP e));
          boundingBox = mergeBoundingBox e boundingBox vpx;
          vpy = vec (vy (majorP e)) (ratio e * vx (majorP e))
      in mergeBoundingBox e boundingBox vpy)"

definition bordersBox :: "RS_Ellipse \<Rightarrow> RS_Ellipse" where
  "bordersBox e =
     (let boundingBox = boundingBoxOf e
      in e\<lparr>minV := minP boundingBox, maxV := maxP boundingBox\<rparr>)"

definition bordersDegrees :: "host \<Rightarrow> RS_Ellipse \<Rightarrow> RS_Ellipse" where
  "bordersDegrees h e =
     (let e = e\<lparr>angleDegrees := rad2deg (getAngle e)\<rparr>;
          e = e\<lparr>startAngleDegrees := rad2deg (if reversed e then angle2 e else angle1 e)\<rparr>;
          e = e\<lparr>otherAngleDegrees := rad2deg (if reversed e then angle1 e else angle2 e)\<rparr>;
          e = e\<lparr>angularLength := rad2deg (getAngleDifference (angle1 e) (angle2 e) (reversed e))\<rparr>
      in if \<bar>angularLength e\<bar> < RS_TOLERANCE_ANGLE
            \<and> getPeriodsCount h (angle1 e) (angle2 e) (reversed e) \<noteq> 0
         then e\<lparr>angularLength := 360\<rparr> else e)"

definition calculateBorders :: "host \<Rightarrow> RS_Ellipse \<Rightarrow> RS_Ellipse" where
  "calculateBorders h e = updateLength h (bordersDegrees h (bordersBox (bordersAngles e)))"

text \<open>A point lies in the box with the corners \<open>lo\<close> and \<open>hi\<close>, borders included; a
  rectangle covers a point when it is not empty and the point lies in it.\<close>

definition inBox :: "RS_Vector \<Rightarrow> RS_Vector \<Rightarrow> RS_Vector \<Rightarrow> bool" where
  "inBox p lo hi = (vx lo \<le> vx p \<and> vx p \<le> vx hi \<and> vy lo \<le> vy p \<and> vy p \<le> vy hi)"

definition covers :: "LC_Rect \<Rightarrow> RS_Vector \<Rightarrow> bool" where
  "covers box p = (valid (minP box) \<and> inBox p (minP box) (maxP box))"

subsection \<open>Foci, end points and direction\<close>

definition getFoci :: "host \<Rightarrow> RS_Ellipse \<Rightarrow> RS_Vector list" where
  "getFoci h this =
     (let e = (if 1 < ratio this then snd (switchMajorMinor (calculateBorders h) this) else this);
          vp = vtimes (majorP e) (sqrt (1 - ratio e * ratio e))
      in [vplus (center this) vp, vminus (center this) vp])"

definition getNearestEndpoint :: "RS_Ellipse \<Rightarrow> RS_Vector \<Rightarrow> real option \<Rightarrow> RS_Vector \<times> real option" where
  "getNearestEndpoint e coord dst =
     (if \<not> isEllipticArc e then (invalid_vector, dst)
      else
        let startpoint = getStartpoint e;
            endpoint = getEndpoint e;
            dist1 = squared (vminus startpoint coord);
            dist2 = squared (vminus endpoint coord)
        in if dist2 < dist1 then (endpoint, map_option (\<lambda>_. sqrt dist2) dst)
           else (startpoint, map_option (\<lambda>_. sqrt dist1) dst))"

definition revertDirection :: "host \<Rightarrow> RS_Ellipse \<Rightarrow> RS_Ellipse" where
  "revertDirection h e =
     (if isArc e
      then calculateBorders h (e\<lparr>angle1 := angle2 e, angle2 := angle1 e, reversed := \<not> reversed e\<rparr>)
      else e)"

subsection \<open>Nearest point by arc length from the start\<close>


definition distanceTo :: "RS_Vector \<Rightarrow> RS_Vector \<Rightarrow> real" where
  "distanceTo p q = magnitude (vminus p q)"






subsection \<open>Nearest point on the curve\<close>

text \<open>\<^verbatim>\<open>ClosestEllipticPoint::getTheta\<close>: at most 16 Newton steps from \<open>atan2 y x\<close>.\<close>

definition ds2D1 :: "real \<Rightarrow> real \<Rightarrow> real \<Rightarrow> real \<Rightarrow> real" where
  "ds2D1 c2 ax2 by2 t = c2 * sin (2 * t) + ax2 * sin t - by2 * cos t"

definition ds2D2 :: "real \<Rightarrow> real \<Rightarrow> real \<Rightarrow> real \<Rightarrow> real" where
  "ds2D2 c2 ax2 by2 t = 2 * c2 * cos (2 * t) + ax2 * cos t + by2 * sin t"

fun newtonSteps :: "nat \<Rightarrow> real \<Rightarrow> real \<Rightarrow> real \<Rightarrow> real \<Rightarrow> real" where
  "newtonSteps 0 c2 ax2 by2 theta = theta"
| "newtonSteps (Suc n) c2 ax2 by2 theta =
     (let d1 = ds2D1 c2 ax2 by2 theta;
          d2 = ds2D2 c2 ax2 by2 theta
      in if \<bar>d2\<bar> < RS_TOLERANCE \<or> \<bar>d1\<bar> < RS_TOLERANCE then theta
         else newtonSteps n c2 ax2 by2 (theta - d1 / d2))"

definition getTheta :: "real \<Rightarrow> real \<Rightarrow> RS_Vector \<Rightarrow> real" where
  "getTheta a b point =
     newtonSteps 16 (b * b - a * a) (2 * a * vx point) (2 * b * vy point)
       (atan2 (vy point) (vx point))"

text \<open>One round of the loop over the candidate cosines; the state is \<open>(ret, dDistance)\<close>.\<close>

definition nearestCandidate ::
  "real \<Rightarrow> real \<Rightarrow> real \<Rightarrow> real \<Rightarrow> real \<Rightarrow> real \<Rightarrow> RS_Vector \<times> real \<Rightarrow> RS_Vector \<times> real" where
  "nearestCandidate a b twoa2b2 twoax twoby cosTheta st =
     (let ret = fst st;
          dDistance = snd st;
          sinTheta = twoby * cosTheta / (twoax - twoa2b2 * cosTheta);
          d2 = twoa2b2 + (twoax - 2 * cosTheta * twoa2b2) * cosTheta + twoby * sinTheta
      in if d2 < 0 then st
         else
           let vp3 = vec (a * cosTheta) (b * sinTheta);
               d = squared (vminus vp3 ret)
           in if valid ret \<and> dDistance < d then st else (vp3, d))"

text \<open>
  \<^verbatim>\<open>getNearestPointOnEntity\<close>. The result is the returned point, the \<^verbatim>\<open>dist\<close> cell and
  the \<^verbatim>\<open>entity\<close> cell after the call (\<open>None\<close> for a null pointer), and the ellipse after
  the call.
\<close>

definition getNearestPointOnEntity ::
  "host \<Rightarrow> RS_Ellipse \<Rightarrow> RS_Vector \<Rightarrow> bool \<Rightarrow> real option \<Rightarrow> RS_Ellipse option option
   \<Rightarrow> RS_Vector \<times> real option \<times> RS_Ellipse option option \<times> RS_Ellipse" where
  "getNearestPointOnEntity h this coord onEntity dst entity =
     (if \<not> valid coord then (invalid_vector, map_option (\<lambda>_. RS_MAXDOUBLE) dst, entity, this)
      else
        let entity = map_option (\<lambda>_. Some this) entity;
            ret = rotate_vec (move coord (vneg (center this))) (- getAngle this);
            a = getMajorRadius this;
            b = a * ratio this;
            twoa2b2 = 2 * (a * a - b * b);
            twoax = 2 * a * vx ret;
            twoby = 2 * b * vy ret;
            a0 = twoa2b2 * twoa2b2;
            roots = (if RS_TOLERANCE < a0 \<and> RS_TOLERANCE < \<bar>ratio this - 1\<bar>
                        \<and> RS_TOLERANCE2 < squared ret
                     then quarticSolver h
                            [- 2 * twoax / twoa2b2,
                             (twoax * twoax + twoby * twoby) / a0 - 1,
                             2 * twoax / twoa2b2,
                             - twoax * twoax / a0]
                     else (let theta = getTheta a b ret in [cos theta, - cos theta]))
        in if roots = [] then (coord, dst, entity, this)
           else
             let st = fold (nearestCandidate a b twoa2b2 twoax twoby) roots
                        (ret, RS_MAXDOUBLE * RS_MAXDOUBLE);
                 dst = map_option (\<lambda>_. sqrt (snd st)) dst;
                 ret = move (rotate_vec (fst st) (getAngle this)) (center this)
             in if onEntity
                   \<and> \<not> isAngleBetween (getEllipseAngle this ret) (angle1 this) (angle2 this)
                         (reversed this)
                then (fst (getNearestEndpoint this coord dst),
                      snd (getNearestEndpoint this coord dst), entity, this)
                else (ret, dst, entity, this))"

subsection \<open>Construction from points\<close>

text \<open>\<^verbatim>\<open>createFrom4P\<close>: the axis-aligned ellipse \<open>c0 x\<^sup>2 + c1 x + c2 y\<^sup>2 + c3 y = 1\<close> through
  four points.\<close>

definition createFrom4P :: "host \<Rightarrow> RS_Vector list \<Rightarrow> RS_Ellipse \<Rightarrow> bool \<times> RS_Ellipse" where
  "createFrom4P h sol e =
     (if length sol \<noteq> 4 then (False, e)
      else
        let mt = map (\<lambda>p. [vx p * vx p, vx p, vy p * vy p, vy p, 1]) sol
        in case linearSolver h mt of
             None \<Rightarrow> (False, e)
           | Some dn \<Rightarrow>
               let d = 1 + 0.25 * (dn ! 1 * dn ! 1 / dn ! 0 + dn ! 3 * dn ! 3 / dn ! 2)
               in if \<bar>dn ! 0\<bar> < RS_TOLERANCE15 \<or> \<bar>dn ! 2\<bar> < RS_TOLERANCE15
                     \<or> d / dn ! 0 < RS_TOLERANCE15 \<or> d / dn ! 2 < RS_TOLERANCE15
                  then (False, e)
                  else
                    let e = e\<lparr>center := vec (- 0.5 * dn ! 1 / dn ! 0) (- 0.5 * dn ! 3 / dn ! 2)\<rparr>;
                        d = sqrt (d / dn ! 0);
                        e = e\<lparr>majorP := vec d 0\<rparr>;
                        e = e\<lparr>ratio := sqrt (dn ! 0 / dn ! 2)\<rparr>;
                        e = e\<lparr>angle1 := 0\<rparr>;
                        e = e\<lparr>angle2 := 0\<rparr>
                    in (True, e))"

text \<open>\<^verbatim>\<open>createFromCenter3Points\<close>: the first vector is the centre. \<open>center3PointsSwitch\<close>
  is the \<^verbatim>\<open>switch (mSize)\<close> statement and \<open>center3PointsSize\<close> the local \<^verbatim>\<open>mSize\<close> at the
  switch, for at least three vectors.\<close>

definition center3PointsSwitch ::
  "host \<Rightarrow> RS_Vector list \<Rightarrow> RS_Ellipse \<Rightarrow> nat \<Rightarrow> bool \<times> RS_Ellipse" where
  "center3PointsSwitch h sol e mSize =
     (if mSize = 2
      then (let mt = map (\<lambda>i. let vp = vminus (sol ! (i + 1)) (sol ! 0)
                                in [vx vp * vx vp, vy vp * vy vp, 1]) [0 ..< mSize]
            in case linearSolver h mt of
                 None \<Rightarrow> (False, e)
               | Some dn \<Rightarrow>
                   if dn ! 0 < RS_TOLERANCE15 \<or> dn ! 1 < RS_TOLERANCE15 then (False, e)
                   else
                     let e = e\<lparr>majorP := vec (1 / sqrt (dn ! 0)) 0\<rparr>;
                         e = e\<lparr>ratio := sqrt (dn ! 0 / dn ! 1)\<rparr>;
                         e = e\<lparr>angle1 := 0\<rparr>;
                         e = e\<lparr>angle2 := 0\<rparr>;
                         e = e\<lparr>center := sol ! 0\<rparr>
                     in (True, e))
      else if mSize = 3
      then (let mt = map (\<lambda>i. let vp = vminus (sol ! (i + 1)) (sol ! 0)
                                in [vx vp * vx vp, vx vp * vy vp, vy vp * vy vp, 1]) [0 ..< mSize]
            in case linearSolver h mt of
                 None \<Rightarrow> (False, e)
               | Some dn \<Rightarrow> createFromQuadratic dn (e\<lparr>center := sol ! 0\<rparr>))
      else (False, e))"

definition center3PointsSize :: "RS_Vector list \<Rightarrow> nat" where
  "center3PointsSize sol =
     (let mSize = length sol - 1
      in if squared (vminus (sol ! mSize) (sol ! (mSize - 1))) < RS_TOLERANCE15
         then mSize - 1 else mSize)"

definition createFromCenter3Points :: "host \<Rightarrow> RS_Vector list \<Rightarrow> RS_Ellipse \<Rightarrow> bool \<times> RS_Ellipse" where
  "createFromCenter3Points h sol e =
     (if length sol < 3 then (False, e)
      else center3PointsSwitch h sol e (center3PointsSize sol))"

subsection \<open>Dragging a reference point\<close>

text \<open>
  \<^verbatim>\<open>correctAngles\<close> works through two pointers, which it swaps for a reversed arc: the
  angle written is \<open>angle2\<close>, or \<open>angle1\<close> for a reversed arc.
\<close>

definition correctAngles :: "RS_Ellipse \<Rightarrow> RS_Ellipse" where
  "correctAngles e =
     (if reversed e
      then (let e = e\<lparr>angle1 := angle2 e + fmod (angle1 e - angle2 e) (2 * pi)\<rparr>
            in if \<bar>angle1 e - angle2 e\<bar> < RS_TOLERANCE_ANGLE \<and> RS_TOLERANCE_ANGLE < \<bar>angle1 e\<bar>
               then e\<lparr>angle1 := angle1 e + 2 * pi\<rparr> else e)
      else (let e = e\<lparr>angle2 := angle1 e + fmod (angle2 e - angle1 e) (2 * pi)\<rparr>
            in if \<bar>angle1 e - angle2 e\<bar> < RS_TOLERANCE_ANGLE \<and> RS_TOLERANCE_ANGLE < \<bar>angle1 e\<bar>
               then e\<lparr>angle2 := angle2 e + 2 * pi\<rparr> else e))"

definition moveStartpoint :: "host \<Rightarrow> RS_Ellipse \<Rightarrow> RS_Vector \<Rightarrow> RS_Ellipse" where
  "moveStartpoint h e pos =
     calculateBorders h (correctAngles (e\<lparr>angle1 := getEllipseAngle e pos\<rparr>))"

definition moveEndpoint :: "host \<Rightarrow> RS_Ellipse \<Rightarrow> RS_Vector \<Rightarrow> RS_Ellipse" where
  "moveEndpoint h e pos =
     calculateBorders h (correctAngles (e\<lparr>angle2 := getEllipseAngle e pos\<rparr>))"

text \<open>The three bodies of \<^verbatim>\<open>moveRef\<close> that write the ratio: a focus (the body of the loop
  over the two foci, for the focus \<open>i\<close>), the major point and the minor point.\<close>

definition moveRefFocus :: "host \<Rightarrow> RS_Ellipse \<Rightarrow> RS_Vector list \<Rightarrow> nat \<Rightarrow> RS_Vector \<Rightarrow> RS_Ellipse" where
  "moveRefFocus h e foci i offset =
     (let focusNew = vplus (foci ! i) offset;
          center' = vplus (center e) (vtimes offset 0.5);
          majorP' = (if 0 \<le> dotP (majorP e) (vminus (foci ! i) (center e))
                     then vminus focusNew center' else vminus center' focusNew);
          d = magnitude (majorP e);
          c = 0.5 * distanceTo focusNew (foci ! (1 - i));
          k = magnitude majorP'
      in if k < RS_TOLERANCE2 \<or> d < RS_TOLERANCE \<or> d - RS_TOLERANCE \<le> c then e
         else
           let majorP' = vtimes majorP' (d / k);
               e = e\<lparr>center := center'\<rparr>;
               e = e\<lparr>majorP := majorP'\<rparr>;
               e = e\<lparr>ratio := sqrt (d * d - c * c) / d\<rparr>;
               e = correctAngles e
           in if 1 < ratio e then snd (switchMajorMinor (calculateBorders h) e)
              else calculateBorders h e)"

definition moveRefMajor :: "host \<Rightarrow> RS_Ellipse \<Rightarrow> RS_Vector \<Rightarrow> RS_Ellipse" where
  "moveRefMajor h e offset =
     (let majorP' = vplus (majorP e) offset;
          r = magnitude majorP'
      in if r < RS_TOLERANCE then e
         else
           let ratio' = ratio e * getMajorRadius e / r;
               e = e\<lparr>majorP := majorP'\<rparr>;
               e = e\<lparr>ratio := ratio'\<rparr>
           in if 1 < ratio e then snd (switchMajorMinor (calculateBorders h) e)
              else calculateBorders h e)"

definition moveRefMinor :: "host \<Rightarrow> RS_Ellipse \<Rightarrow> RS_Vector \<Rightarrow> RS_Ellipse" where
  "moveRefMinor h e offset =
     (let minorP = vplus (getMinorPoint e) offset;
          r2 = squared (majorP e)
      in if r2 < RS_TOLERANCE2 then e
         else
           let projected = vplus (center e)
                             (vdiv (vtimes (majorP e) (dotP (majorP e) (vminus minorP (center e)))) r2);
               r = magnitude (vminus minorP projected)
           in if r < RS_TOLERANCE then e
              else
                let ratio' = ratio e * r / getMinorRadius e;
                    e = e\<lparr>ratio := ratio'\<rparr>
                in if 1 < ratio e then snd (switchMajorMinor (calculateBorders h) e)
                   else calculateBorders h e)"

definition moveRef :: "host \<Rightarrow> RS_Ellipse \<Rightarrow> RS_Vector \<Rightarrow> RS_Vector \<Rightarrow> RS_Ellipse" where
  "moveRef h e ref offset =
     (if isEllipticArc e \<and> squared (vminus ref (getStartpoint e)) < RS_TOLERANCE_ANGLE
      then correctAngles (moveStartpoint h e (vplus (getStartpoint e) offset))
      else if isEllipticArc e \<and> squared (vminus ref (getEndpoint e)) < RS_TOLERANCE_ANGLE
      then moveEndpoint h e (vplus (getEndpoint e) offset)
      else if squared (vminus ref (center e)) < RS_TOLERANCE_ANGLE
      then calculateBorders h (e\<lparr>center := vplus (center e) offset\<rparr>)
      else
        let e = (if 1 < ratio e then snd (switchMajorMinor (calculateBorders h) e) else e);
            foci = getFoci h e
        in if squared (vminus ref (foci ! 0)) < RS_TOLERANCE_ANGLE
           then moveRefFocus h e foci 0 offset
           else if squared (vminus ref (foci ! 1)) < RS_TOLERANCE_ANGLE
           then moveRefFocus h e foci 1 offset
           else if squared (vminus ref (getMajorPoint e)) < RS_TOLERANCE_ANGLE
           then moveRefMajor h e offset
           else if squared (vminus ref (getMinorPoint e)) < RS_TOLERANCE_ANGLE
           then moveRefMinor h e offset
           else e)"

subsection \<open>Scaling\<close>

text \<open>
  Modelled from the spec: the vector operations that \<^verbatim>\<open>RS_Ellipse::scale\<close> uses beyond those
  above: multiplication by a number in place, anisotropic scaling about a centre and
  rotation by a direction vector.
\<close>

definition vscaleBy :: "RS_Vector \<Rightarrow> real \<Rightarrow> RS_Vector" where
  "vscaleBy p s = p\<lparr>vx := vx p * s, vy := vy p * s\<rparr>"

definition scaleAbout :: "RS_Vector \<Rightarrow> RS_Vector \<Rightarrow> RS_Vector \<Rightarrow> RS_Vector" where
  "scaleAbout p c f = p\<lparr>vx := vx c + (vx p - vx c) * vx f, vy := vy c + (vy p - vy c) * vy f\<rparr>"

definition rotateBy :: "RS_Vector \<Rightarrow> RS_Vector \<Rightarrow> RS_Vector" where
  "rotateBy p d = p\<lparr>vx := vx p * vx d - vy p * vy d, vy := vx p * vy d + vy p * vx d\<rparr>"

text \<open>\<^verbatim>\<open>RS_Ellipse::scale(center, factor)\<close>. The right-hand sides of the locals \<^verbatim>\<open>cA\<close>,
  \<^verbatim>\<open>cB\<close> and \<^verbatim>\<open>cC\<close> and of the new ratio are functions of their own.\<close>

definition scale_cA :: "real \<Rightarrow> real \<Rightarrow> real \<Rightarrow> real \<Rightarrow> real \<Rightarrow> real" where
  "scale_cA a ct2 st2 kx2 ky2 = 0.5 * a * a * (kx2 * ct2 + ky2 * st2)"

definition scale_cB :: "real \<Rightarrow> real \<Rightarrow> real \<Rightarrow> real \<Rightarrow> real \<Rightarrow> real" where
  "scale_cB b ct2 st2 kx2 ky2 = 0.5 * b * b * (kx2 * st2 + ky2 * ct2)"

definition scale_cC :: "real \<Rightarrow> real \<Rightarrow> real \<Rightarrow> real \<Rightarrow> real \<Rightarrow> real \<Rightarrow> real" where
  "scale_cC a b ct st kx2 ky2 = a * b * ct * st * (ky2 - kx2)"

definition scale_ratio :: "real \<Rightarrow> real \<Rightarrow> real" where
  "scale_ratio a b = sqrt ((a - b) / (a + b))"

definition scaleEllipse :: "host \<Rightarrow> RS_Ellipse \<Rightarrow> RS_Vector \<Rightarrow> RS_Vector \<Rightarrow> RS_Ellipse" where
  "scaleEllipse h e c factor =
     (let vpStart = (if isEllipticArc e then scaleAbout (getStartpoint e) c factor else invalid_vector);
          vpEnd = (if isEllipticArc e then scaleAbout (getEndpoint e) c factor else invalid_vector);
          e = e\<lparr>center := scaleAbout (center e) c factor\<rparr>;
          vp1 = majorP e;
          a = magnitude vp1
      in if a < RS_TOLERANCE then e
         else
           let vp1 = vscaleBy vp1 (1 / a);
               ct = vx vp1;
               ct2 = ct * ct;
               st = vy vp1;
               st2 = 1 - ct2;
               kx2 = vx factor * vx factor;
               ky2 = vy factor * vy factor;
               b = ratio e * a;
               cA = scale_cA a ct2 st2 kx2 ky2;
               cB = scale_cB b ct2 st2 kx2 ky2;
               cC = scale_cC a b ct st kx2 ky2;
               e = (if vx factor < 0 then e\<lparr>reversed := \<not> reversed e\<rparr> else e);
               e = (if vy factor < 0 then e\<lparr>reversed := \<not> reversed e\<rparr> else e);
               vp = vec (cA - cB) cC;
               vp1 = scale (rotateBy (scale (vec a b) (polar (0.5 * angle vp))) (vec ct st)) factor;
               e = e\<lparr>majorP := vp1\<rparr>;
               a = cA + cB;
               b = magnitude vp;
               e = e\<lparr>ratio := scale_ratio a b\<rparr>;
               e = (if isEllipticArc e
                    then (let e = e\<lparr>angle1 := getEllipseAngle e vpStart\<rparr>;
                              e = e\<lparr>angle2 := getEllipseAngle e vpEnd\<rparr>
                          in correctAngles e)
                    else e)
           in e\<lparr>minV := fst (scaleBorders h c factor (minV e, maxV e)),
                maxV := snd (scaleBorders h c factor (minV e, maxV e))\<rparr>)"

subsection \<open>Moving, rotating and mirroring\<close>

text \<open>
  Modelled from the spec: the rotation of a point about a centre by a direction vector.
  The four overloads of \<^verbatim>\<open>rotate\<close> are \<open>rotateAboutAngle\<close> (centre and angle),
  \<open>rotateAboutVector\<close> (centre and direction vector), \<open>rotateAngle\<close> and \<open>rotateVector\<close>
  (about the origin).
\<close>

definition rotateAbout :: "RS_Vector \<Rightarrow> RS_Vector \<Rightarrow> RS_Vector \<Rightarrow> RS_Vector" where
  "rotateAbout p c d =
     p\<lparr>vx := vx c + ((vx p - vx c) * vx d - (vy p - vy c) * vy d),
       vy := vy c + ((vx p - vx c) * vy d + (vy p - vy c) * vx d)\<rparr>"

definition moveEllipse :: "host \<Rightarrow> RS_Ellipse \<Rightarrow> RS_Vector \<Rightarrow> RS_Ellipse" where
  "moveEllipse h e offset =
     (let e = e\<lparr>center := move (center e) offset\<rparr>
      in e\<lparr>minV := fst (moveBorders h offset (minV e, maxV e)),
           maxV := snd (moveBorders h offset (minV e, maxV e))\<rparr>)"

definition rotateAboutAngle :: "host \<Rightarrow> RS_Ellipse \<Rightarrow> RS_Vector \<Rightarrow> real \<Rightarrow> RS_Ellipse" where
  "rotateAboutAngle h e c a =
     (let angleVector = polar a;
          e = e\<lparr>center := rotateAbout (center e) c angleVector\<rparr>;
          e = e\<lparr>majorP := rotateBy (majorP e) angleVector\<rparr>
      in calculateBorders h e)"

definition rotateAboutVector :: "host \<Rightarrow> RS_Ellipse \<Rightarrow> RS_Vector \<Rightarrow> RS_Vector \<Rightarrow> RS_Ellipse" where
  "rotateAboutVector h e c angleVector =
     (let e = e\<lparr>center := rotateAbout (center e) c angleVector\<rparr>;
          e = e\<lparr>majorP := rotateBy (majorP e) angleVector\<rparr>
      in calculateBorders h e)"

definition rotateAngle :: "host \<Rightarrow> RS_Ellipse \<Rightarrow> real \<Rightarrow> RS_Ellipse" where
  "rotateAngle h e a =
     (let aV = polar a;
          e = e\<lparr>center := rotateBy (center e) aV\<rparr>;
          e = e\<lparr>majorP := rotateBy (majorP e) aV\<rparr>
      in calculateBorders h e)"

definition rotateVector :: "host \<Rightarrow> RS_Ellipse \<Rightarrow> RS_Vector \<Rightarrow> RS_Ellipse" where
  "rotateVector h e angleVector =
     (let e = e\<lparr>center := rotateBy (center e) angleVector\<rparr>;
          e = e\<lparr>majorP := rotateBy (majorP e) angleVector\<rparr>
      in calculateBorders h e)"

definition mirrorEllipse :: "host \<Rightarrow> RS_Ellipse \<Rightarrow> RS_Vector \<Rightarrow> RS_Vector \<Rightarrow> RS_Ellipse" where
  "mirrorEllipse h e axisPoint1 axisPoint2 =
     (let center0 = center e;
          majorp = vplus center0 (majorP e);
          arc = isEllipticArc e;
          startpoint = (if arc then getStartpoint e else invalid_vector);
          endpoint = (if arc then getEndpoint e else invalid_vector);
          center0 = mirrorPoint h center0 axisPoint1 axisPoint2;
          majorp = mirrorPoint h majorp axisPoint1 axisPoint2;
          e = e\<lparr>center := center0\<rparr>;
          e = e\<lparr>reversed := \<not> reversed e\<rparr>;
          e = e\<lparr>majorP := vminus majorp center0\<rparr>;
          e = (if arc
               then (let startpoint = mirrorPoint h startpoint axisPoint1 axisPoint2;
                         endpoint = mirrorPoint h endpoint axisPoint1 axisPoint2;
                         e = e\<lparr>angle1 := getEllipseAngle e startpoint\<rparr>;
                         e = e\<lparr>angle2 := getEllipseAngle e endpoint\<rparr>
                     in correctAngles e)
               else e)
      in calculateBorders h e)"

subsection \<open>The quadratic-functional fitter and the shear\<close>

text \<open>
  \<^verbatim>\<open>DBL_EPSILON\<close> is \<open>1 / 2 ^ 52\<close>. \<^verbatim>\<open>getQuadratic\<close> builds the form of the ellipse and
  \<^verbatim>\<open>createFromQuadratic(const LC_Quadratic&)\<close> is \<open>createFromQuadraticForm\<close>.
\<close>

definition DBL_EPSILON :: real where
  "DBL_EPSILON = 1 / 2 ^ 52"

definition getQuadratic :: "host \<Rightarrow> RS_Ellipse \<Rightarrow> LC_Quadratic" where
  "getQuadratic h e =
     (let ce0 = squared (majorP e);
          ce2 = ratio e * ratio e * ce0
      in if ce0 < RS_TOLERANCE2 \<or> ce2 < RS_TOLERANCE2 then quadratic_default h
         else
           let ce = [1 / ce0, 0, 1 / ce2, 0, 0, - 1];
               ret = quadratic_new h ce;
               ret = quadratic_rotate h ret (getAngle e)
           in quadratic_move h ret (center e))"

definition createFromQuadraticForm :: "host \<Rightarrow> LC_Quadratic \<Rightarrow> RS_Ellipse \<Rightarrow> bool \<times> RS_Ellipse" where
  "createFromQuadraticForm h q this =
     (if \<not> isQuadratic q then (False, this)
      else
        let a = quad00 q;
            c = 2 * quad01 q;
            b = quad11 q;
            d = linear0 q;
            e = linear1 q;
            determinant = c * c - 4 * a * b
        in if - DBL_EPSILON \<le> determinant then (False, this)
           else
             let eCenter = vdiv (vec (2 * b * d - e * c) (2 * a * e - d * c)) determinant;
                 qCentered = quadratic_move h q (vneg eCenter)
             in if - DBL_EPSILON \<le> constTerm qCentered then (False, this)
                else
                  let factor = - 1 / constTerm qCentered;
                      fitted = createFromQuadratic
                                 [quad00 qCentered * factor, 2 * quad01 qCentered * factor,
                                  quad11 qCentered * factor] this
                  in if \<not> fst fitted then (False, snd fitted)
                     else (True, moveEllipse h (snd fitted) eCenter))"

text \<open>
  Modelled from the spec: the \<^verbatim>\<open>isArc()\<close> that \<^verbatim>\<open>shear\<close> asks is the arc flag (if it is an
  arc, the sheared old start and end points are reprojected). \<^verbatim>\<open>shear\<close> refits a copy from
  the sheared form, ignoring whether the fit succeeded, and assigns the copy.
\<close>

definition shearEllipse :: "host \<Rightarrow> RS_Ellipse \<Rightarrow> real \<Rightarrow> RS_Ellipse" where
  "shearEllipse h this k =
     (let e1 = this;
          e1 = snd (createFromQuadraticForm h (quadratic_shear h (getQuadratic h e1) k) e1)
      in if isArc this
         then (let e1 = moveStartpoint h e1 (shearPoint h (getStartpoint this) k)
               in moveEndpoint h e1 (shearPoint h (getEndpoint this) k))
         else e1)"

subsection \<open>The ellipse inscribed in a quadrilateral\<close>

text \<open>
  \<^verbatim>\<open>createInscribeQuadrilateral(lines, tangent)\<close> in its stages. \<open>inscribeQuad\<close> are the four
  sides from the vertices; \<open>inscribeTangents\<close> is the loop over the two pairs of opposite
  sides, which appends the contact points to \<^verbatim>\<open>tangent\<close> and counts the parallel pairs;
  \<open>inscribeSetup\<close> is the function up to the test \<^verbatim>\<open>parallel==1\<close> and gives either the
  \<^verbatim>\<open>tangent\<close> vector at a failing return or the sides, the contact points, the centre of
  the ellipse and the two counters; \<open>inscribeTrapezoid\<close> is the branch of the symmetric
  trapezoid; \<open>inscribeRows\<close> builds the matrix \<^verbatim>\<open>mt\<close>, leaving out a row that repeats an
  earlier one; \<open>inscribeParallelogram\<close> is \<^verbatim>\<open>case 2\<close> of the switch; \<open>inscribeFinish\<close> is the
  function from the call of \<^verbatim>\<open>createFromQuadratic(dn)\<close> on. \<^verbatim>\<open>tangent\<close> is a reference
  parameter, so the result holds the flag, the vector after the call and the ellipse.
\<close>

text \<open>Modelled from the spec: the magnitude of a vector with three coordinates, here the
  difference of two rows of \<^verbatim>\<open>mt\<close>.\<close>

definition magnitude3 :: "real \<Rightarrow> real \<Rightarrow> real \<Rightarrow> real" where
  "magnitude3 x y z = sqrt (x * x + y * y + z * z)"

definition inscribeQuad :: "RS_Vector list \<Rightarrow> RS_Line list" where
  "inscribeQuad s0 = map (\<lambda>i. \<lparr>lineStart = s0 ! i, lineEnd = s0 ! ((i + 1) mod 4)\<rparr>) [0 ..< 4]"

definition inscribeTangents ::
  "host \<Rightarrow> RS_Line list \<Rightarrow> RS_Vector \<Rightarrow> RS_Vector list \<Rightarrow> RS_Vector list \<times> nat \<times> nat" where
  "inscribeTangents h quad centerProjection tangent =
     fold (\<lambda>i (tangent, parallel, parallel_index).
             let sol1 = getIntersectionLineLine h (quad ! i) (quad ! ((i + 2) mod 4));
                 direction = (if length sol1 = 0
                              then vminus (lineEnd (quad ! i)) (lineStart (quad ! i))
                              else vminus (sol1 ! 0) centerProjection);
                 parallel = (if length sol1 = 0 then parallel + 1 else parallel);
                 parallel_index = (if length sol1 = 0 then i else parallel_index);
                 l = \<lparr>lineStart = centerProjection, lineEnd = vplus centerProjection direction\<rparr>
             in (fold (\<lambda>k tangent.
                         let sol2 = getIntersectionLineLine h l (quad ! ((i + k) mod 4))
                         in if length sol2 \<noteq> 0 then tangent @ [sol2 ! 0] else tangent)
                   [1, 3] tangent,
                 parallel, parallel_index))
       [0, 1] (tangent, 0, 0)"

definition inscribeSetup ::
  "host \<Rightarrow> RS_Line list \<Rightarrow> RS_Vector list
   \<Rightarrow> RS_Vector list + RS_Line list \<times> RS_Vector list \<times> RS_Vector \<times> nat \<times> nat" where
  "inscribeSetup h lines tangent =
     (if length lines \<noteq> 4 then Inl tangent
      else
        let s0 = createQuadrilateral h lines
        in if length s0 \<noteq> 4 then Inl tangent
           else
             let quad = inscribeQuad s0;
                 diagonal0 = \<lparr>lineStart = lineStart (quad ! 0), lineEnd = lineEnd (quad ! 1)\<rparr>;
                 diagonal1 = \<lparr>lineStart = lineStart (quad ! 1), lineEnd = lineEnd (quad ! 2)\<rparr>;
                 sol = getIntersectionLineLine h diagonal0 diagonal1
             in if length sol = 0 then Inl tangent
                else
                  let centerProjection = sol ! 0;
                      looped = inscribeTangents h quad centerProjection tangent;
                      tangent = fst looped;
                      parallel = fst (snd looped);
                      parallel_index = snd (snd looped)
                  in if length tangent < 3 then Inl tangent
                     else
                       let cl0 = \<lparr>lineStart = lineEnd (quad ! 1),
                                  lineEnd = vtimes (vplus (tangent ! 0) (tangent ! 2)) 0.5\<rparr>;
                           cl1 = \<lparr>lineStart = lineEnd (quad ! 2),
                                  lineEnd = vtimes (vplus (tangent ! 1) (tangent ! 2)) 0.5\<rparr>;
                           sol = getIntersection h cl0 cl1 False
                       in if length sol = 0 then Inl tangent
                          else Inr (quad, tangent, sol ! 0, parallel, parallel_index))"

definition inscribeTrapezoid :: "host \<Rightarrow> RS_Line \<Rightarrow> RS_Line \<Rightarrow> RS_Ellipse \<Rightarrow> bool \<times> RS_Ellipse" where
  "inscribeTrapezoid h l0 l1 this =
     (let centerPoint = vtimes (vplus (line_getMiddlePoint h l0) (line_getMiddlePoint h l1)) 0.5
      in if RS_TOLERANCE < \<bar>distanceTo centerPoint (lineStart l0) - distanceTo centerPoint (lineEnd l0)\<bar>
         then (False, this)
         else
           let d = line_getDistanceToPoint h l0 centerPoint;
               l = (line_getLength h l0 + line_getLength h l1) * 0.25;
               k = 4 * d / \<bar>line_getLength h l0 - line_getLength h l1\<bar>;
               theta = d / (l * k)
           in if 1 \<le> theta \<or> d < RS_TOLERANCE then (False, this)
              else
                let theta = arcsin theta;
                    a = d / (k * tan theta);
                    e = this\<lparr>center := vec 0 0\<rparr>;
                    e = e\<lparr>majorP := vec a 0\<rparr>;
                    e = e\<lparr>ratio := d / a\<rparr>;
                    e = rotateAngle h e (line_getAngle1 h l0);
                    e = e\<lparr>center := centerPoint\<rparr>
                in (True, e))"

definition inscribeRows :: "RS_Vector list \<Rightarrow> real list list" where
  "inscribeRows tangent =
     fold (\<lambda>vp mt.
             let mtRow = [vx vp * vx vp, vx vp * vy vp, vy vp * vy vp];
                 l = hypot (hypot (mtRow ! 0) (mtRow ! 1)) (mtRow ! 2);
                 addRow = (\<not> list_ex (\<lambda>v. magnitude3 (v ! 0 - mtRow ! 0) (v ! 1 - mtRow ! 1)
                                                 (v ! 2 - mtRow ! 2)
                                               < 20 * RS_TOLERANCE * l) mt)
             in if addRow then mt @ [mtRow @ [1]] else mt)
       tangent []"

definition inscribeFinish ::
  "host \<Rightarrow> real list \<Rightarrow> RS_Vector \<Rightarrow> RS_Vector list \<Rightarrow> RS_Vector \<Rightarrow> RS_Ellipse
   \<Rightarrow> bool \<times> RS_Vector list \<times> RS_Ellipse" where
  "inscribeFinish h dn angleVector tangent ellipseCenter this =
     (let fitted = createFromQuadratic dn this
      in if \<not> fst fitted then (False, tangent, snd fitted)
         else
           let e = (snd fitted)\<lparr>center := ellipseCenter\<rparr>;
               e = (if valid angleVector
                    then rotateAboutVector h e ellipseCenter
                           (angleVector\<lparr>vy := vy angleVector * (- 1)\<rparr>)
                    else e)
           in (True, tangent, e))"

definition inscribeParallelogram ::
  "host \<Rightarrow> RS_Vector list \<Rightarrow> RS_Vector \<Rightarrow> RS_Ellipse \<Rightarrow> bool \<times> RS_Vector list \<times> RS_Ellipse" where
  "inscribeParallelogram h tangent ellipseCenter this =
     (let majorP0 = tangent ! 0;
          dx = magnitude majorP0
      in if dx < RS_TOLERANCE2 then (False, tangent, this)
         else
           let angleVector = vec (vx majorP0 / dx) (- vy majorP0 / dx);
               tangent = map (\<lambda>t. rotateBy t angleVector) tangent;
               minorP = tangent ! 2;
               dy2 = squared minorP
           in if \<bar>vy minorP\<bar> < RS_TOLERANCE \<or> dy2 < RS_TOLERANCE2 then (False, tangent, this)
              else
                let ia2 = 1 / (dx * dx);
                    ib2 = 1 / (vy minorP * vy minorP);
                    dn = [ia2, - 2 * ia2 * vx minorP / vy minorP,
                          ib2 * ia2 * vx minorP * vx minorP + ib2]
                in inscribeFinish h dn angleVector tangent ellipseCenter this)"

definition inscribeGeneral ::
  "host \<Rightarrow> RS_Vector list \<Rightarrow> RS_Vector \<Rightarrow> RS_Ellipse \<Rightarrow> bool \<times> RS_Vector list \<times> RS_Ellipse" where
  "inscribeGeneral h tangent ellipseCenter this =
     (let tangent = map (\<lambda>t. move t (vneg ellipseCenter)) tangent;
          mt = inscribeRows tangent
      in if length mt = 2 then inscribeParallelogram h tangent ellipseCenter this
         else if length mt = 4
         then (case linearSolver h (butlast mt) of
                 None \<Rightarrow> (False, tangent, this)
               | Some dn \<Rightarrow> inscribeFinish h dn invalid_vector tangent ellipseCenter this)
         else (False, tangent, this))"

definition createInscribeQuadrilateral ::
  "host \<Rightarrow> RS_Line list \<Rightarrow> RS_Vector list \<Rightarrow> RS_Ellipse \<Rightarrow> bool \<times> RS_Vector list \<times> RS_Ellipse" where
  "createInscribeQuadrilateral h lines tangent this =
     (case inscribeSetup h lines tangent of
        Inl tangent \<Rightarrow> (False, tangent, this)
      | Inr (quad, tangent, ellipseCenter, parallel, parallel_index) \<Rightarrow>
          if parallel = 1
          then (let l0 = quad ! parallel_index;
                    l1 = quad ! ((parallel_index + 2) mod 4);
                    fitted = inscribeTrapezoid h l0 l1 this
                in (fst fitted, tangent, snd fitted))
          else inscribeGeneral h tangent ellipseCenter this)"

text \<open>The call takes the branch of the symmetric trapezoid: exactly one pair of opposite
  sides is parallel.\<close>

definition inscribeIsTrapezoid :: "host \<Rightarrow> RS_Line list \<Rightarrow> RS_Vector list \<Rightarrow> bool" where
  "inscribeIsTrapezoid h lines tangent =
     (case inscribeSetup h lines tangent of
        Inl tangent \<Rightarrow> False
      | Inr (quad, tangent, ellipseCenter, parallel, parallel_index) \<Rightarrow> parallel = 1)"

subsection \<open>Sequences of mutations\<close>

text \<open>
  The operations that change an ellipse in place, each with its arguments, and their
  effect on the ellipse; a fitter's flag and reference parameter are dropped. A sequence
  of mutations is a list, applied from the left. \<open>keepsRatio\<close> tells the mutations that
  are shown below to keep a ratio in \<open>(0, 1]\<close>: all except the switch of the axes, a
  scaling with a zero factor, \<^verbatim>\<open>createFrom4P\<close>, the two-point branch of
  \<^verbatim>\<open>createFromCenter3Points\<close> and the trapezoid branch of
  \<^verbatim>\<open>createInscribeQuadrilateral\<close>.
\<close>

datatype mutation =
    Move RS_Vector
  | RotateAboutAngle RS_Vector real
  | RotateAboutVector RS_Vector RS_Vector
  | RotateAngle real
  | RotateVector RS_Vector
  | Scale RS_Vector RS_Vector
  | Mirror RS_Vector RS_Vector
  | Shear real
  | MoveRef RS_Vector RS_Vector
  | MoveStartpoint RS_Vector
  | MoveEndpoint RS_Vector
  | RevertDirection
  | SwitchMajorMinor
  | CreateFrom4P "RS_Vector list"
  | CreateFromCenter3Points "RS_Vector list"
  | CreateFromQuadratic "real list"
  | CreateFromQuadraticForm LC_Quadratic
  | CreateInscribeQuadrilateral "RS_Line list" "RS_Vector list"

fun mutate :: "host \<Rightarrow> mutation \<Rightarrow> RS_Ellipse \<Rightarrow> RS_Ellipse" where
  "mutate h (Move offset) e = moveEllipse h e offset"
| "mutate h (RotateAboutAngle c a) e = rotateAboutAngle h e c a"
| "mutate h (RotateAboutVector c v) e = rotateAboutVector h e c v"
| "mutate h (RotateAngle a) e = rotateAngle h e a"
| "mutate h (RotateVector v) e = rotateVector h e v"
| "mutate h (Scale c factor) e = scaleEllipse h e c factor"
| "mutate h (Mirror p1 p2) e = mirrorEllipse h e p1 p2"
| "mutate h (Shear k) e = shearEllipse h e k"
| "mutate h (MoveRef ref offset) e = moveRef h e ref offset"
| "mutate h (MoveStartpoint pos) e = moveStartpoint h e pos"
| "mutate h (MoveEndpoint pos) e = moveEndpoint h e pos"
| "mutate h RevertDirection e = revertDirection h e"
| "mutate h SwitchMajorMinor e = snd (switchMajorMinor (calculateBorders h) e)"
| "mutate h (CreateFrom4P sol) e = snd (createFrom4P h sol e)"
| "mutate h (CreateFromCenter3Points sol) e = snd (createFromCenter3Points h sol e)"
| "mutate h (CreateFromQuadratic dn) e = snd (createFromQuadratic dn e)"
| "mutate h (CreateFromQuadraticForm q) e = snd (createFromQuadraticForm h q e)"
| "mutate h (CreateInscribeQuadrilateral lines tangent) e
     = snd (snd (createInscribeQuadrilateral h lines tangent e))"

fun keepsRatio :: "host \<Rightarrow> mutation \<Rightarrow> bool" where
  "keepsRatio h (Scale c factor) = (vx factor \<noteq> 0 \<and> vy factor \<noteq> 0)"
| "keepsRatio h SwitchMajorMinor = False"
| "keepsRatio h (CreateFrom4P sol) = False"
| "keepsRatio h (CreateFromCenter3Points sol) = (center3PointsSize sol \<noteq> 2)"
| "keepsRatio h (CreateInscribeQuadrilateral lines tangent) = (\<not> inscribeIsTrapezoid h lines tangent)"
| "keepsRatio h m = True"

definition mutateAll :: "host \<Rightarrow> mutation list \<Rightarrow> RS_Ellipse \<Rightarrow> RS_Ellipse" where
  "mutateAll h ms e = fold (mutate h) ms e"

subsection \<open>Ellipses to run the definitions on\<close>

text \<open>
  \<^verbatim>\<open>RS_EllipseData\<close> as it is handed to the constructor, the caches not yet computed, and
  the constructor \<^verbatim>\<open>RS_Ellipse(parent, d)\<close>, which computes them.
\<close>

definition ellipseData :: "RS_Vector \<Rightarrow> RS_Vector \<Rightarrow> real \<Rightarrow> real \<Rightarrow> real \<Rightarrow> bool \<Rightarrow> RS_Ellipse" where
  "ellipseData c m k a1 a2 rvd =
     \<lparr>center = c, majorP = m, ratio = k, angle1 = a1, angle2 = a2, reversed = rvd,
      isArc = False, angleDegrees = 0, startAngleDegrees = 0, otherAngleDegrees = 0,
      angularLength = 0, minV = invalid_vector, maxV = invalid_vector, cachedLength = 0\<rparr>"

definition newEllipse :: "host \<Rightarrow> RS_Ellipse \<Rightarrow> RS_Ellipse" where
  "newEllipse h d = calculateBorders h d"

subsection \<open>A host to evaluate with\<close>

text \<open>
  Modelled from the spec: where a statement below is evaluated at a concrete input, the
  host is \<open>exactHost\<close>. Its elliptic integrals of the second kind are the integrals
  themselves (the antiderivative of \<open>sqrt (1 - k\<^sup>2 sin\<^sup>2 t)\<close> that vanishes at \<open>0\<close>, the
  complete one up to \<open>\<pi>/2\<close>), its linear solver returns the solution of a system that has
  exactly one and fails otherwise (each row holds the coefficients and then the right-hand
  side), and its quartic solver lists the real roots of
  \<open>c\<^sup>4 + ce[0] c\<^sup>3 + ce[1] c\<^sup>2 + ce[2] c + ce[3]\<close>. A translated quadratic form is the form
  of the translated curve, with the matrix entry \<open>(0,1)\<close> half the coefficient of \<open>xy\<close>.
  A line has the middle point, the length and the direction angle of its segment, and its
  distance to a point is the distance to the nearest point of the segment. Both
  intersection queries give the crossing point of the two unbounded lines, or nothing for
  parallel lines (the entity file asks the second one with the flag \<^verbatim>\<open>onEntities\<close> off), and
  the vertices of the quadrilateral of four lines are the crossing points of each line
  with the next one. The spec says nothing usable about the period counter, the root
  iteration, the nearest-point query of the line delegate, the scaling and moving of the
  borders, the mirror image and the shear of a point and the other operations on a
  quadratic form; they are left unspecified.
\<close>

definition incompleteE :: "real \<Rightarrow> real \<Rightarrow> real" where
  "incompleteE k a =
     (THE v. \<exists>F. F 0 = 0 \<and> F a = v
                \<and> (\<forall>t. (F has_real_derivative sqrt (1 - k\<^sup>2 * (sin t)\<^sup>2)) (at t)))"

definition solves :: "real list list \<Rightarrow> real list \<Rightarrow> bool" where
  "solves mt dn =
     (length dn = length mt
      \<and> list_all (\<lambda>row. length row = length dn + 1
                        \<and> sum_list (map2 (*) (butlast row) dn) = last row) mt)"

definition exactLinearSolver :: "real list list \<Rightarrow> real list option" where
  "exactLinearSolver mt = (if \<exists>!dn. solves mt dn then Some (THE dn. solves mt dn) else None)"

definition exactQuarticSolver :: "real list \<Rightarrow> real list" where
  "exactQuarticSolver ce =
     sorted_list_of_set {c. c ^ 4 + ce ! 0 * c ^ 3 + ce ! 1 * c ^ 2 + ce ! 2 * c + ce ! 3 = 0}"

definition movedQuadratic :: "LC_Quadratic \<Rightarrow> RS_Vector \<Rightarrow> LC_Quadratic" where
  "movedQuadratic q v =
     q\<lparr>linear0 := linear0 q - 2 * quad00 q * vx v - 2 * quad01 q * vy v,
       linear1 := linear1 q - 2 * quad11 q * vy v - 2 * quad01 q * vx v,
       constTerm := constTerm q + quad00 q * vx v * vx v + 2 * quad01 q * vx v * vy v
                    + quad11 q * vy v * vy v - linear0 q * vx v - linear1 q * vy v\<rparr>"

definition segmentDistance :: "RS_Line \<Rightarrow> RS_Vector \<Rightarrow> real" where
  "segmentDistance l p =
     (let direction = vminus (lineEnd l) (lineStart l);
          t = dotP (vminus p (lineStart l)) direction / squared direction;
          t = max 0 (min 1 t)
      in distanceTo p (vplus (lineStart l) (vtimes direction t)))"

definition lineCross :: "RS_Line \<Rightarrow> RS_Line \<Rightarrow> RS_Vector list" where
  "lineCross l m =
     (let d1 = vminus (lineEnd l) (lineStart l);
          d2 = vminus (lineEnd m) (lineStart m);
          det = vx d1 * vy d2 - vy d1 * vx d2;
          w = vminus (lineStart m) (lineStart l)
      in if det = 0 then []
         else [vplus (lineStart l) (vtimes d1 ((vx w * vy d2 - vy w * vx d2) / det))])"

definition quadrilateralOf :: "RS_Line list \<Rightarrow> RS_Vector list" where
  "quadrilateralOf lines =
     concat (map (\<lambda>i. lineCross (lines ! i) (lines ! ((i + 1) mod 4))) [0 ..< 4])"

definition exactHost :: host where
  "exactHost =
     \<lparr>ellint_2 = (\<lambda>k. incompleteE k (pi / 2)),
      ellipticIntegral_2 = incompleteE,
      getPeriodsCount = undefined,
      linearSolver = exactLinearSolver,
      quarticSolver = exactQuarticSolver,
      halley_iterate = undefined,
      line_getNearestDist = undefined,
      scaleBorders = undefined,
      moveBorders = undefined,
      mirrorPoint = undefined,
      shearPoint = undefined,
      quadratic_default = undefined,
      quadratic_new = undefined,
      quadratic_rotate = undefined,
      quadratic_move = movedQuadratic,
      quadratic_shear = undefined,
      createQuadrilateral = quadrilateralOf,
      getIntersectionLineLine = lineCross,
      getIntersection = (\<lambda>l m onEntities. lineCross l m),
      line_getMiddlePoint = (\<lambda>l. vtimes (vplus (lineStart l) (lineEnd l)) 0.5),
      line_getLength = (\<lambda>l. distanceTo (lineStart l) (lineEnd l)),
      line_getDistanceToPoint = segmentDistance,
      line_getAngle1 = (\<lambda>l. angle (vminus (lineEnd l) (lineStart l)))\<rparr>"

section \<open>Properties\<close>

subsection \<open>Angles and vectors\<close>

lemma correctAngle_range: "0 \<le> correctAngle a \<and> correctAngle a < 2 * pi"
proof -
  have p: "0 < 2 * pi" by simp
  show ?thesis
    using floor_divide_lower [OF p, of a] floor_divide_upper [OF p, of a]
    by (simp add: correctAngle_def algebra_simps)
qed

lemma correctAngle_period: "correctAngle (a + 2 * pi * of_int k) = correctAngle a"
proof -
  have "(a + 2 * pi * of_int k) / (2 * pi) = a / (2 * pi) + of_int k"
    by (simp add: field_simps)
  then have "\<lfloor>(a + 2 * pi * of_int k) / (2 * pi)\<rfloor> = \<lfloor>a / (2 * pi)\<rfloor> + k"
    by simp
  then show ?thesis by (simp add: correctAngle_def algebra_simps)
qed

lemma correctAngle_id: "0 \<le> a \<Longrightarrow> a < 2 * pi \<Longrightarrow> correctAngle a = a"
proof -
  assume a: "0 \<le> a" "a < 2 * pi"
  have "\<lfloor>a / (2 * pi)\<rfloor> = 0"
    using a by (intro floor_unique) (simp_all add: field_simps)
  then show ?thesis by (simp add: correctAngle_def)
qed

lemma correctAngle_shift: "\<exists>k::int. correctAngle a = a + 2 * pi * of_int k"
proof
  show "correctAngle a = a + 2 * pi * of_int (- \<lfloor>a / (2 * pi)\<rfloor>)"
    by (simp add: correctAngle_def)
qed

lemma cos_correctAngle: "cos (correctAngle a) = cos a"
proof -
  obtain k :: int where "correctAngle a = a + 2 * pi * of_int k"
    using correctAngle_shift by blast
  then show ?thesis
    using sin_cos_eq_iff [of "correctAngle a" a] by blast
qed

lemma sin_correctAngle: "sin (correctAngle a) = sin a"
proof -
  obtain k :: int where "correctAngle a = a + 2 * pi * of_int k"
    using correctAngle_shift by blast
  then show ?thesis
    using sin_cos_eq_iff [of "correctAngle a" a] by blast
qed

lemma sqrt_one_plus_square_nonzero: "sqrt (1 + (c::real)\<^sup>2) \<noteq> 0"
proof -
  have "0 < 1 + c\<^sup>2" by (simp add: add_pos_nonneg)
  then show ?thesis by simp
qed

lemma atan2_cos_sin:
  assumes "a \<noteq> 0 \<or> b \<noteq> 0"
  shows "cos (atan2 b a) = a / sqrt (a * a + b * b) \<and> sin (atan2 b a) = b / sqrt (a * a + b * b)"
proof -
  consider (pos) "0 < a" | (neg) "a < 0" | (zero) "a = 0" "b \<noteq> 0"
    using assms by linarith
  then show ?thesis
  proof cases
    case pos
    have "a * a + b * b = a\<^sup>2 * (1 + (b / a)\<^sup>2)"
      using pos by (simp add: field_simps power2_eq_square)
    then have s: "sqrt (a * a + b * b) = a * sqrt (1 + (b / a)\<^sup>2)"
      using pos by (simp add: real_sqrt_mult)
    show ?thesis using pos sqrt_one_plus_square_nonzero [of "b / a"]
      by (simp add: atan2_def cos_arctan sin_arctan s field_simps)
  next
    case neg
    have "a * a + b * b = (- a)\<^sup>2 * (1 + (b / a)\<^sup>2)"
      using neg by (simp add: field_simps power2_eq_square)
    then have s: "sqrt (a * a + b * b) = - a * sqrt (1 + (b / a)\<^sup>2)"
      using neg by (simp add: real_sqrt_mult)
    show ?thesis using neg sqrt_one_plus_square_nonzero [of "b / a"]
      by (simp add: atan2_def cos_arctan sin_arctan s field_simps)
  next
    case zero
    then show ?thesis
      by (auto simp: atan2_def abs_if field_simps)
  qed
qed

lemma angle_of_scaled_direction:
  assumes "0 < r"
  shows "correctAngle (atan2 (r * sin t) (r * cos t)) = correctAngle t"
proof -
  let ?u = "atan2 (r * sin t) (r * cos t)"
  have nz: "r * cos t \<noteq> 0 \<or> r * sin t \<noteq> 0"
    using assms sin_zero_abs_cos_one [of t] by auto
  have "r * cos t * (r * cos t) + r * sin t * (r * sin t) = r * r * (cos t * cos t + sin t * sin t)"
    by (simp only: algebra_simps)
  then have "r * cos t * (r * cos t) + r * sin t * (r * sin t) = r * r"
    by simp
  then have s: "sqrt (r * cos t * (r * cos t) + r * sin t * (r * sin t)) = r"
    using assms by simp
  have "cos ?u = cos t \<and> sin ?u = sin t"
    using atan2_cos_sin [OF nz] assms unfolding s by simp
  then obtain n :: int where "?u = t + 2 * pi * of_int n"
    using sin_cos_eq_iff [of ?u t] by auto
  then show ?thesis
    by (simp add: correctAngle_period)
qed

lemma vec_sel: "vx (vec a b) = a" "vy (vec a b) = b" "valid (vec a b)"
  by (simp_all add: vec_def)

lemma vec_eq_iff: "vec a b = vec c d \<longleftrightarrow> a = c \<and> b = d"
  by (simp add: vec_def)

lemma rotate_back_algebra:
  assumes "c * c + s * s = (1::real)"
  shows "(a * c - b * s) * c + (a * s + b * c) * s = a"
    and "(a * s + b * c) * c - (a * c - b * s) * s = b"
proof -
  have "(a * c - b * s) * c + (a * s + b * c) * s = a * (c * c + s * s)"
    by (simp only: algebra_simps)
  then show "(a * c - b * s) * c + (a * s + b * c) * s = a"
    by (simp only: assms mult_1_right)
  have "(a * s + b * c) * c - (a * c - b * s) * s = b * (c * c + s * s)"
    by (simp only: algebra_simps)
  then show "(a * s + b * c) * c - (a * c - b * s) * s = b"
    by (simp only: assms mult_1_right)
qed

lemma rotate_vec_back:
  "vx (rotate_vec (rotate_vec p a) (- a)) = vx p \<and> vy (rotate_vec (rotate_vec p a) (- a)) = vy p"
  using rotate_back_algebra [of "cos a" "sin a" "vx p" "vy p"]
  by (simp add: rotate_vec_def)

subsection \<open>The parametric point map\<close>

lemma majorP_polar:
  "vx (majorP e) = getMajorRadius e * cos (getAngle e)
   \<and> vy (majorP e) = getMajorRadius e * sin (getAngle e)"
proof (cases "vx (majorP e) = 0 \<and> vy (majorP e) = 0")
  case True
  then show ?thesis by (simp add: getMajorRadius_def magnitude_def)
next
  case False
  then have nz: "vx (majorP e) \<noteq> 0 \<or> vy (majorP e) \<noteq> 0" by simp
  have "vx (majorP e) * vx (majorP e) + vy (majorP e) * vy (majorP e) \<noteq> 0"
    using nz by (metis add_nonneg_eq_0_iff mult_eq_0_iff zero_le_square)
  then have "sqrt (vx (majorP e) * vx (majorP e) + vy (majorP e) * vy (majorP e)) \<noteq> 0"
    by simp
  then show ?thesis
    using atan2_cos_sin [OF nz]
    by (simp add: getMajorRadius_def magnitude_def getAngle_def angle_def
        cos_correctAngle sin_correctAngle)
qed

lemma getEllipsePoint_coords:
  "getEllipsePoint e t =
     vec (vx (center e) + (vx (majorP e) * cos t - ratio e * vy (majorP e) * sin t))
         (vy (center e) + (vy (majorP e) * cos t + ratio e * vx (majorP e) * sin t))"
  using majorP_polar [of e]
  by (simp add: getEllipsePoint_def Let_def move_def rotate_vec_def scale_def polar_def vec_def
      algebra_simps)

lemma getEllipsePoint_local:
  "rotate_vec (vminus (getEllipsePoint e t) (center e)) (- getAngle e)
   = vec (getMajorRadius e * cos t) (getMajorRadius e * ratio e * sin t)"
proof -
  let ?q = "scale (polar t) (vec (getMajorRadius e) (getMajorRadius e * ratio e))"
  have 1: "vminus (getEllipsePoint e t) (center e) = rotate_vec ?q (getAngle e)"
    by (simp add: getEllipsePoint_def Let_def vminus_def move_def rotate_vec_def scale_def
        polar_def vec_def)
  have 2: "valid (rotate_vec (rotate_vec ?q (getAngle e)) (- getAngle e))"
    by (simp add: rotate_vec_def scale_def polar_def vec_def)
  have 3: "vx ?q = getMajorRadius e * cos t" "vy ?q = getMajorRadius e * ratio e * sin t"
    by (simp_all add: scale_def polar_def vec_def)
  show ?thesis
    unfolding 1 using rotate_vec_back [of ?q "getAngle e"] 2 3
    by (simp add: vec_def)
qed

lemma ellipseData_fields:
  "center (ellipseData c m k a1 a2 r) = c"
  "majorP (ellipseData c m k a1 a2 r) = m"
  "ratio (ellipseData c m k a1 a2 r) = k"
  "angle1 (ellipseData c m k a1 a2 r) = a1"
  "angle2 (ellipseData c m k a1 a2 r) = a2"
  "reversed (ellipseData c m k a1 a2 r) = r"
  by (simp_all add: ellipseData_def)

lemma sqrt_100: "sqrt 100 = (10::real)"
  by (rule real_sqrt_unique) simp_all

lemma magnitude_10_0: "magnitude (vec 10 0) = 10"
  by (simp add: magnitude_def vec_sel sqrt_100)

text \<open>
  C3. For an ellipse whose major radius and ratio are above the tolerance, and for every
  parametric angle \<open>t\<close>, \<^verbatim>\<open>getEllipseAngle(getEllipsePoint(t))\<close> is \<open>t\<close> brought into
  \<open>[0, 2\<pi>)\<close>, so it equals \<open>t\<close> modulo \<open>2\<pi>\<close>: \<^verbatim>\<open>getEllipseAngle\<close> inverts the parametric
  point map.
\<close>

theorem getEllipseAngle_inverts_getEllipsePoint:
  assumes "RS_TOLERANCE < getMajorRadius e" and "RS_TOLERANCE < ratio e"
  shows "getEllipseAngle e (getEllipsePoint e t) = correctAngle t
         \<and> (\<exists>k::int. getEllipseAngle e (getEllipsePoint e t) = t + 2 * pi * of_int k)"
proof -
  have pos: "0 < getMajorRadius e * ratio e"
    using assms by (simp add: RS_TOLERANCE_def)
  have "getEllipseAngle e (getEllipsePoint e t)
        = correctAngle (atan2 (getMajorRadius e * ratio e * sin t) (getMajorRadius e * ratio e * cos t))"
    using getEllipsePoint_local [of e t]
    by (simp add: getEllipseAngle_def Let_def angle_def getAngle_def vec_def mult.commute
        mult.left_commute)
  also have "\<dots> = correctAngle t"
    by (rule angle_of_scaled_direction [OF pos])
  finally have 1: "getEllipseAngle e (getEllipsePoint e t) = correctAngle t" .
  with correctAngle_shift [of t] show ?thesis by simp
qed

theorem getEllipseAngle_inverts_getEllipsePoint_witness:
  "RS_TOLERANCE < getMajorRadius (ellipseData (vec 0 0) (vec 10 0) (1 / 2) 0 0 False)
   \<and> RS_TOLERANCE < ratio (ellipseData (vec 0 0) (vec 10 0) (1 / 2) 0 0 False)
   \<and> getEllipseAngle (ellipseData (vec 0 0) (vec 10 0) (1 / 2) 0 0 False)
        (getEllipsePoint (ellipseData (vec 0 0) (vec 10 0) (1 / 2) 0 0 False) 1) = 1"
proof -
  let ?e = "ellipseData (vec 0 0) (vec 10 0) (1 / 2) 0 0 False"
  have h1: "RS_TOLERANCE < getMajorRadius ?e"
    by (simp add: getMajorRadius_def ellipseData_fields magnitude_10_0 RS_TOLERANCE_def)
  have h2: "RS_TOLERANCE < ratio ?e"
    by (simp add: ellipseData_fields RS_TOLERANCE_def)
  have "(1::real) < 2 * pi" using pi_ge_two by linarith
  then have c: "correctAngle 1 = 1" by (simp add: correctAngle_id)
  show ?thesis
    using getEllipseAngle_inverts_getEllipsePoint [OF h1 h2, of 1] h1 h2 c by simp
qed

subsection \<open>Arc length\<close>

lemma to_int_shift:
  assumes "0 \<le> a" and "0 \<le> n"
  shows "to_int (a + of_int n) = to_int a + n"
proof -
  have "0 \<le> a + of_int n" using assms by simp
  then show ?thesis using assms by (simp add: to_int_def)
qed

lemma fmod_whole_turn:
  assumes "0 \<le> a"
  shows "fmod (a + 2 * pi) pi = fmod a pi"
proof -
  have "(a + 2 * pi) / pi = a / pi + of_int 2"
    by (simp add: field_simps)
  moreover have "0 \<le> a / pi" using assms by simp
  ultimately have "to_int ((a + 2 * pi) / pi) = to_int (a / pi) + 2"
    using to_int_shift [of "a / pi" 2] by simp
  then show ?thesis
    by (simp add: fmod_def algebra_simps)
qed

text \<open>
  C2. For an ellipse with ratio \<open>r\<close> in \<open>(0, 1]\<close> and major radius \<open>a\<close>, whatever its stored
  angles (so in particular for a whole ellipse), and for every starting angle \<open>t\<close>,
  \<^verbatim>\<open>getEllipseLength(t, t)\<close> is \<open>4 a E(sqrt (1 - r\<^sup>2))\<close> with \<open>E\<close> the host's complete elliptic
  integral of the second kind; the value does not depend on \<open>t\<close>.
\<close>

theorem getEllipseLength_whole_turn:
  assumes "0 < ratio e" and "ratio e \<le> 1"
  shows "getEllipseLength h e t t = 4 * getMajorRadius e * ellint_2 h (sqrt (1 - (ratio e)\<^sup>2))"
proof -
  let ?c = "correctAngle t"
  have c: "0 \<le> ?c" using correctAngle_range [of t] by simp
  have lt: "?c < ?c + RS_TOLERANCE_ANGLE" by (simp add: RS_TOLERANCE_ANGLE_def)
  have ge: "pi \<le> ?c + 2 * pi" using c pi_ge_zero by linarith
  have "(?c + 2 * pi + RS_TOLERANCE_ANGLE) / pi = (?c + RS_TOLERANCE_ANGLE) / pi + of_int 2"
    by (simp add: field_simps)
  moreover have "0 \<le> (?c + RS_TOLERANCE_ANGLE) / pi"
    using c by (simp add: RS_TOLERANCE_ANGLE_def)
  ultimately have cnt: "to_int ((?c + 2 * pi + RS_TOLERANCE_ANGLE) / pi)
      - to_int ((?c + RS_TOLERANCE_ANGLE) / pi) = 2"
    using to_int_shift [of "(?c + RS_TOLERANCE_ANGLE) / pi" 2] by simp
  have res: "\<not> RS_TOLERANCE_ANGLE < \<bar>fmod (?c + 2 * pi) pi - fmod ?c pi\<bar>"
    using fmod_whole_turn [OF c] by (simp add: RS_TOLERANCE_ANGLE_def)
  show ?thesis
    using lt ge cnt res
    by (simp add: getEllipseLength_def Let_def power2_eq_square)
qed

theorem getEllipseLength_whole_turn_witness:
  "getEllipseLength exactHost (ellipseData (vec 0 0) (vec 10 0) (1 / 2) 0 0 False) 1 1
     = 4 * 10 * ellint_2 exactHost (sqrt (1 - (1 / 2)\<^sup>2))
   \<and> getEllipseLength exactHost (ellipseData (vec 0 0) (vec 10 0) (1 / 2) 0 0 False) 5 5
     = 4 * 10 * ellint_2 exactHost (sqrt (1 - (1 / 2)\<^sup>2))"
proof -
  let ?e = "ellipseData (vec 0 0) (vec 10 0) (1 / 2) 0 0 False"
  have r: "ratio ?e = 1 / 2" by (simp add: ellipseData_fields)
  have m: "getMajorRadius ?e = 10"
    by (simp add: getMajorRadius_def ellipseData_fields magnitude_10_0)
  have h1: "0 < ratio ?e" "ratio ?e \<le> 1" by (simp_all add: r)
  show ?thesis
    using getEllipseLength_whole_turn [OF h1, of exactHost 1]
      getEllipseLength_whole_turn [OF h1, of exactHost 5]
    by (simp only: m r)
qed

subsection \<open>Construction from a quadratic form\<close>

text \<open>
  C7. \<^verbatim>\<open>createFromQuadratic\<close> on the coefficients \<open>(a, c, b)\<close> returns false, leaving the
  ellipse as it was, whenever \<open>hypot (a - b) c \<ge> a + b\<close>, which is exactly when the smaller
  eigenvalue \<open>(a + b - s) / 2\<close> of the form's symmetric matrix is not positive; when it
  returns true, both angles are the whole-ellipse zero.
\<close>

theorem createFromQuadratic_rejects_non_ellipse:
  "(a + b \<le> hypot (a - b) c \<longrightarrow> createFromQuadratic [a, c, b] e = (False, e))
   \<and> ((a + b - hypot (a - b) c) / 2 \<le> 0 \<longleftrightarrow> a + b \<le> hypot (a - b) c)
   \<and> (fst (createFromQuadratic dn e) \<longrightarrow>
        angle1 (snd (createFromQuadratic dn e)) = 0 \<and> angle2 (snd (createFromQuadratic dn e)) = 0)"
  by (auto simp: createFromQuadratic_def Let_def)

theorem createFromQuadratic_rejects_non_ellipse_witness:
  "createFromQuadratic [1, 0, - 1] (ellipseData (vec 0 0) (vec 10 0) (1 / 2) 0 1 False)
     = (False, ellipseData (vec 0 0) (vec 10 0) (1 / 2) 0 1 False)
   \<and> fst (createFromQuadratic [1, 0, 4] (ellipseData (vec 0 0) (vec 10 0) (1 / 2) 0 1 False))
   \<and> angle1 (snd (createFromQuadratic [1, 0, 4] (ellipseData (vec 0 0) (vec 10 0) (1 / 2) 0 1 False))) = 0
   \<and> angle2 (snd (createFromQuadratic [1, 0, 4] (ellipseData (vec 0 0) (vec 10 0) (1 / 2) 0 1 False))) = 0"
proof -
  let ?e = "ellipseData (vec 0 0) (vec 10 0) (1 / 2) 0 1 False"
  have h1: "(1::real) + - 1 \<le> hypot (1 - - 1) 0"
    by (simp add: hypot_def)
  have "hypot (1 - 4) 0 = 3"
    unfolding hypot_def by (rule real_sqrt_unique) simp_all
  then have h2: "fst (createFromQuadratic [1, 0, 4] ?e)"
    by (simp add: createFromQuadratic_def Let_def)
  show ?thesis
    using createFromQuadratic_rejects_non_ellipse [of 1 "- 1" 0 ?e "[1, 0, 4]"] h1 h2
    by simp
qed

subsection \<open>What \<^verbatim>\<open>calculateBorders\<close> writes\<close>

lemma updateLength_fields:
  "center (updateLength h e) = center e"
  "majorP (updateLength h e) = majorP e"
  "ratio (updateLength h e) = ratio e"
  "reversed (updateLength h e) = reversed e"
  "angle1 (updateLength h e) = angle1 e"
  "angle2 (updateLength h e) = angle2 e"
  "isArc (updateLength h e) = isArc e"
  "minV (updateLength h e) = minV e"
  "maxV (updateLength h e) = maxV e"
  by (simp_all add: updateLength_def Let_def)

lemma bordersDegrees_fields:
  "center (bordersDegrees h e) = center e"
  "majorP (bordersDegrees h e) = majorP e"
  "ratio (bordersDegrees h e) = ratio e"
  "reversed (bordersDegrees h e) = reversed e"
  "angle1 (bordersDegrees h e) = angle1 e"
  "angle2 (bordersDegrees h e) = angle2 e"
  "isArc (bordersDegrees h e) = isArc e"
  "minV (bordersDegrees h e) = minV e"
  "maxV (bordersDegrees h e) = maxV e"
  by (simp_all add: bordersDegrees_def Let_def)

lemma bordersBox_fields:
  "center (bordersBox e) = center e"
  "majorP (bordersBox e) = majorP e"
  "ratio (bordersBox e) = ratio e"
  "reversed (bordersBox e) = reversed e"
  "angle1 (bordersBox e) = angle1 e"
  "angle2 (bordersBox e) = angle2 e"
  "isArc (bordersBox e) = isArc e"
  "minV (bordersBox e) = minP (boundingBoxOf e)"
  "maxV (bordersBox e) = maxP (boundingBoxOf e)"
  by (simp_all add: bordersBox_def Let_def)

lemma bordersAngles_fields:
  "center (bordersAngles e) = center e"
  "majorP (bordersAngles e) = majorP e"
  "ratio (bordersAngles e) = ratio e"
  "reversed (bordersAngles e) = reversed e"
  "isArc (bordersAngles e) = (angle1 (bordersAngles e) \<noteq> 0 \<or> angle2 (bordersAngles e) \<noteq> 0)"
  by (simp_all add: bordersAngles_def Let_def)

lemma calculateBorders_fields:
  "center (calculateBorders h e) = center e"
  "majorP (calculateBorders h e) = majorP e"
  "ratio (calculateBorders h e) = ratio e"
  "reversed (calculateBorders h e) = reversed e"
  "angle1 (calculateBorders h e) = angle1 (bordersAngles e)"
  "angle2 (calculateBorders h e) = angle2 (bordersAngles e)"
  "isArc (calculateBorders h e) = isArc (bordersAngles e)"
  "minV (calculateBorders h e) = minP (boundingBoxOf (bordersAngles e))"
  "maxV (calculateBorders h e) = maxP (boundingBoxOf (bordersAngles e))"
  by (simp_all only: calculateBorders_def updateLength_fields bordersDegrees_fields
      bordersBox_fields bordersAngles_fields)

subsection \<open>The whole ellipse with major axis \<open>(10, 0)\<close> and ratio \<open>1/2\<close>\<close>

lemma bordersAngles_whole:
  "angle1 e = 0 \<Longrightarrow> angle2 e = 0 \<Longrightarrow> angle1 (bordersAngles e) = 0 \<and> angle2 (bordersAngles e) = 0"
  by (simp add: bordersAngles_def Let_def)

lemma isAngleBetween_whole: "isAngleBetween a 0 0 r"
  by (simp add: isAngleBetween_def Let_def correctAngle_def RS_TOLERANCE_ANGLE_def)

lemma angle_x_axis: "0 < a \<Longrightarrow> angle (vec a 0) = 0"
  by (simp add: angle_def atan2_def vec_def correctAngle_def)

lemma angle_y_axis: "0 < b \<Longrightarrow> angle (vec 0 b) = pi / 2"
proof -
  assume "0 < b"
  then have "atan2 b 0 = pi / 2" by (simp add: atan2_def)
  moreover have "correctAngle (pi / 2) = pi / 2"
    by (rule correctAngle_id) simp_all
  ultimately have "correctAngle (atan2 b 0) = pi / 2" by (simp only:)
  then show ?thesis by (simp add: angle_def vec_def)
qed

lemma cos_sin_three_half_pi: "cos (3 * pi / 2) = 0 \<and> sin (3 * pi / 2) = - 1"
  using cos_periodic_pi [of "pi / 2"] sin_periodic_pi [of "pi / 2"] by simp

lemma scenario_box:
  "boundingBoxOf (bordersAngles (ellipseData (vec 0 0) (vec 10 0) (1 / 2) 0 0 False))
   = \<lparr>minP = vec (- 10) (- 5), maxP = vec 10 5\<rparr>"
proof -
  let ?e = "bordersAngles (ellipseData (vec 0 0) (vec 10 0) (1 / 2) 0 0 False)"
  have f: "center ?e = vec 0 0" "majorP ?e = vec 10 0" "ratio ?e = 1 / 2" "angle1 ?e = 0"
    "angle2 ?e = 0" "\<not> isEllipticArc ?e"
    by (simp_all add: bordersAngles_fields ellipseData_fields bordersAngles_whole isEllipticArc_def)
  have p: "getEllipsePoint ?e 0 = vec 10 0" "getEllipsePoint ?e pi = vec (- 10) 0"
    "getEllipsePoint ?e (pi / 2) = vec 0 5" "getEllipsePoint ?e (3 * pi / 2) = vec 0 (- 5)"
    using cos_sin_three_half_pi by (simp_all add: getEllipsePoint_coords f vec_sel)
  have a: "angle (vec 10 (0::real)) = 0" "angle (vec 0 (5::real)) = pi / 2"
    by (simp_all add: angle_x_axis angle_y_axis)
  have m1: "mergeBoundingBox ?e emptyRect (vec 10 0) = \<lparr>minP = vec (- 10) 0, maxP = vec 10 0\<rparr>"
    by (simp add: mergeBoundingBox_def Let_def f a isAngleBetween_whole p merge_def emptyRect_def
        invalid_vector_def cornerRect_def vec_sel)
  have m2: "mergeBoundingBox ?e \<lparr>minP = vec (- 10) 0, maxP = vec 10 0\<rparr> (vec 0 5)
            = \<lparr>minP = vec (- 10) (- 5), maxP = vec 10 5\<rparr>"
    by (simp add: mergeBoundingBox_def Let_def f a isAngleBetween_whole p merge_def vec_sel)
  show ?thesis
    by (simp add: boundingBoxOf_def Let_def f vec_sel m1 m2)
qed

lemma sqrt_75: "10 * sqrt (3 / 4) = sqrt 75"
proof -
  have "sqrt 75 = sqrt (100 * (3 / 4))" by simp
  also have "\<dots> = sqrt 100 * sqrt (3 / 4)" by (rule real_sqrt_mult)
  finally show ?thesis by (simp add: sqrt_100)
qed

lemma sqrt_75_approx: "\<bar>sqrt 75 - 866 / 100\<bar> < 1 / 100"
proof -
  have "sqrt ((865 / 100)\<^sup>2) < sqrt 75"
    by (subst real_sqrt_less_iff) (simp add: power2_eq_square)
  then have l: "865 / 100 < sqrt 75" by simp
  have "sqrt 75 < sqrt ((867 / 100)\<^sup>2)"
    by (subst real_sqrt_less_iff) (simp add: power2_eq_square)
  then have u: "sqrt 75 < 867 / 100" by simp
  from l u show ?thesis by linarith
qed

text \<open>
  C8. The ellipse built from centre \<open>(0, 0)\<close>, major-axis vector \<open>(10, 0)\<close>, ratio \<open>0.5\<close> and
  both angles zero has the bounding box corners \<open>(-10, -5)\<close> and \<open>(10, 5)\<close>, major radius
  \<open>10\<close>, minor radius \<open>5\<close> and the foci \<open>(sqrt 75, 0)\<close> and \<open>(- sqrt 75, 0)\<close>, where
  \<open>sqrt 75\<close> is \<open>8.66\<close> to within a hundredth.
\<close>

theorem scenario_whole_ellipse:
  "minV (newEllipse h (ellipseData (vec 0 0) (vec 10 0) (1 / 2) 0 0 False)) = vec (- 10) (- 5)
   \<and> maxV (newEllipse h (ellipseData (vec 0 0) (vec 10 0) (1 / 2) 0 0 False)) = vec 10 5
   \<and> getMajorRadius (newEllipse h (ellipseData (vec 0 0) (vec 10 0) (1 / 2) 0 0 False)) = 10
   \<and> getMinorRadius (newEllipse h (ellipseData (vec 0 0) (vec 10 0) (1 / 2) 0 0 False)) = 5
   \<and> getFoci h (newEllipse h (ellipseData (vec 0 0) (vec 10 0) (1 / 2) 0 0 False))
       = [vec (sqrt 75) 0, vec (- sqrt 75) 0]
   \<and> \<bar>sqrt 75 - 866 / 100\<bar> < 1 / 100"
proof -
  let ?e = "newEllipse h (ellipseData (vec 0 0) (vec 10 0) (1 / 2) 0 0 False)"
  have f: "center ?e = vec 0 0" "majorP ?e = vec 10 0" "ratio ?e = 1 / 2"
    by (simp_all add: newEllipse_def calculateBorders_fields ellipseData_fields)
  have b: "minV ?e = vec (- 10) (- 5)" "maxV ?e = vec 10 5"
    by (simp_all add: newEllipse_def calculateBorders_fields scenario_box)
  have r: "getMajorRadius ?e = 10" "getMinorRadius ?e = 5"
    by (simp_all add: getMajorRadius_def getMinorRadius_def f magnitude_10_0)
  have "1 - (1 / 2) * (1 / 2) = (3 / 4 :: real)" by simp
  then have foci: "getFoci h ?e = [vec (sqrt 75) 0, vec (- sqrt 75) 0]"
    using sqrt_75 by (simp add: getFoci_def Let_def f vtimes_def vplus_def vminus_def vec_sel vec_eq_iff)
  show ?thesis
    using b r foci sqrt_75_approx by simp
qed

subsection \<open>Reverting the direction\<close>

lemma bordersAngles_arc:
  assumes "\<not> (\<bar>angle1 e\<bar> < RS_TOLERANCE_ANGLE \<and> \<bar>angle2 e\<bar> < RS_TOLERANCE_ANGLE)"
  shows "angle1 (bordersAngles e) = angle1 e" and "angle2 (bordersAngles e) = angle2 e"
    and "isArc (bordersAngles e)"
proof -
  show "angle1 (bordersAngles e) = angle1 e" and "angle2 (bordersAngles e) = angle2 e"
    using assms by (auto simp: bordersAngles_def Let_def)
  have "angle1 e \<noteq> 0 \<or> angle2 e \<noteq> 0"
    using assms by (auto simp: RS_TOLERANCE_ANGLE_def)
  then show "isArc (bordersAngles e)"
    using assms by (auto simp: bordersAngles_def Let_def)
qed

lemma revertDirection_arc:
  assumes "isArc e"
    and "\<not> (\<bar>angle1 e\<bar> < RS_TOLERANCE_ANGLE \<and> \<bar>angle2 e\<bar> < RS_TOLERANCE_ANGLE)"
  shows "angle1 (revertDirection h e) = angle2 e" and "angle2 (revertDirection h e) = angle1 e"
    and "reversed (revertDirection h e) = (\<not> reversed e)"
    and "center (revertDirection h e) = center e" and "majorP (revertDirection h e) = majorP e"
    and "ratio (revertDirection h e) = ratio e" and "isArc (revertDirection h e)"
proof -
  let ?s = "e\<lparr>angle1 := angle2 e, angle2 := angle1 e, reversed := \<not> reversed e\<rparr>"
  have n: "\<not> (\<bar>angle1 ?s\<bar> < RS_TOLERANCE_ANGLE \<and> \<bar>angle2 ?s\<bar> < RS_TOLERANCE_ANGLE)"
    using assms(2) by auto
  have r: "revertDirection h e = calculateBorders h ?s"
    using assms(1) by (simp add: revertDirection_def)
  show "angle1 (revertDirection h e) = angle2 e" and "angle2 (revertDirection h e) = angle1 e"
    and "isArc (revertDirection h e)"
    using bordersAngles_arc [OF n] by (simp_all add: r calculateBorders_fields)
  show "reversed (revertDirection h e) = (\<not> reversed e)"
    and "center (revertDirection h e) = center e" and "majorP (revertDirection h e) = majorP e"
    and "ratio (revertDirection h e) = ratio e"
    by (simp_all add: r calculateBorders_fields)
qed

lemma bordersAngles_flat:
  assumes "\<bar>angle1 e\<bar> < RS_TOLERANCE_ANGLE \<and> \<bar>angle2 e\<bar> < RS_TOLERANCE_ANGLE"
  shows "angle1 (bordersAngles e) = 0" and "angle2 (bordersAngles e) = 0"
    and "\<not> isArc (bordersAngles e)"
  using assms by (simp_all add: bordersAngles_def Let_def)

lemma revertDirection_flat:
  assumes "isArc e"
    and "\<bar>angle1 e\<bar> < RS_TOLERANCE_ANGLE \<and> \<bar>angle2 e\<bar> < RS_TOLERANCE_ANGLE"
  shows "angle1 (revertDirection h e) = 0" and "angle2 (revertDirection h e) = 0"
    and "\<not> isArc (revertDirection h e)"
    and "reversed (revertDirection h e) = (\<not> reversed e)"
    and "revertDirection h (revertDirection h e) = revertDirection h e"
proof -
  let ?s = "e\<lparr>angle1 := angle2 e, angle2 := angle1 e, reversed := \<not> reversed e\<rparr>"
  have n: "\<bar>angle1 ?s\<bar> < RS_TOLERANCE_ANGLE \<and> \<bar>angle2 ?s\<bar> < RS_TOLERANCE_ANGLE"
    using assms(2) by simp
  have r: "revertDirection h e = calculateBorders h ?s"
    using assms(1) by (simp add: revertDirection_def)
  show "angle1 (revertDirection h e) = 0" and "angle2 (revertDirection h e) = 0"
    and f: "\<not> isArc (revertDirection h e)"
    using bordersAngles_flat [OF n] by (simp_all add: r calculateBorders_fields)
  show "reversed (revertDirection h e) = (\<not> reversed e)"
    by (simp add: r calculateBorders_fields)
  show "revertDirection h (revertDirection h e) = revertDirection h e"
    using f by (simp add: revertDirection_def [of h "revertDirection h e"])
qed

text \<open>
  C9. \<^verbatim>\<open>revertDirection\<close> leaves an ellipse whose arc flag is off as it is. When the flag is
  on and the two angles are not both within the angular tolerance of zero, it swaps
  \<open>angle1\<close> with \<open>angle2\<close> and toggles \<open>reversed\<close>, keeping centre, major axis and ratio, and
  the result is again such an arc; applying it twice gives back the centre, the major
  axis, the ratio, both angles and the orientation flag. When the flag is on and both
  angles are within the angular tolerance of zero, it toggles \<open>reversed\<close>, sets both angles
  to zero and clears the flag, so that a second call changes nothing and the orientation
  flag stays toggled.
\<close>

theorem revertDirection_involution:
  "(\<not> isArc e \<longrightarrow> revertDirection h e = e)
   \<and> (isArc e \<and> \<not> (\<bar>angle1 e\<bar> < RS_TOLERANCE_ANGLE \<and> \<bar>angle2 e\<bar> < RS_TOLERANCE_ANGLE) \<longrightarrow>
        angle1 (revertDirection h e) = angle2 e
        \<and> angle2 (revertDirection h e) = angle1 e
        \<and> reversed (revertDirection h e) = (\<not> reversed e)
        \<and> center (revertDirection h e) = center e
        \<and> majorP (revertDirection h e) = majorP e
        \<and> ratio (revertDirection h e) = ratio e
        \<and> isArc (revertDirection h e)
        \<and> center (revertDirection h (revertDirection h e)) = center e
        \<and> majorP (revertDirection h (revertDirection h e)) = majorP e
        \<and> ratio (revertDirection h (revertDirection h e)) = ratio e
        \<and> angle1 (revertDirection h (revertDirection h e)) = angle1 e
        \<and> angle2 (revertDirection h (revertDirection h e)) = angle2 e
        \<and> reversed (revertDirection h (revertDirection h e)) = reversed e)
   \<and> (isArc e \<and> \<bar>angle1 e\<bar> < RS_TOLERANCE_ANGLE \<and> \<bar>angle2 e\<bar> < RS_TOLERANCE_ANGLE \<longrightarrow>
        angle1 (revertDirection h e) = 0
        \<and> angle2 (revertDirection h e) = 0
        \<and> \<not> isArc (revertDirection h e)
        \<and> reversed (revertDirection h e) = (\<not> reversed e)
        \<and> revertDirection h (revertDirection h e) = revertDirection h e
        \<and> reversed (revertDirection h (revertDirection h e)) \<noteq> reversed e)"
proof (intro conjI impI)
  assume "\<not> isArc e"
  then show "revertDirection h e = e" by (simp add: revertDirection_def)
next
  assume a: "isArc e \<and> \<not> (\<bar>angle1 e\<bar> < RS_TOLERANCE_ANGLE \<and> \<bar>angle2 e\<bar> < RS_TOLERANCE_ANGLE)"
  then have a1: "isArc e"
    and a2: "\<not> (\<bar>angle1 e\<bar> < RS_TOLERANCE_ANGLE \<and> \<bar>angle2 e\<bar> < RS_TOLERANCE_ANGLE)"
    by simp_all
  note one = revertDirection_arc [OF a1 a2, of h]
  have b2: "\<not> (\<bar>angle1 (revertDirection h e)\<bar> < RS_TOLERANCE_ANGLE
                \<and> \<bar>angle2 (revertDirection h e)\<bar> < RS_TOLERANCE_ANGLE)"
    using a2 by (auto simp: one)
  note two = revertDirection_arc [OF one(7) b2, of h]
  show "angle1 (revertDirection h e) = angle2 e" by (rule one)
  show "angle2 (revertDirection h e) = angle1 e" by (rule one)
  show "reversed (revertDirection h e) = (\<not> reversed e)" by (rule one)
  show "center (revertDirection h e) = center e" by (rule one)
  show "majorP (revertDirection h e) = majorP e" by (rule one)
  show "ratio (revertDirection h e) = ratio e" by (rule one)
  show "isArc (revertDirection h e)" by (rule one)
  show "center (revertDirection h (revertDirection h e)) = center e" by (simp add: one two)
  show "majorP (revertDirection h (revertDirection h e)) = majorP e" by (simp add: one two)
  show "ratio (revertDirection h (revertDirection h e)) = ratio e" by (simp add: one two)
  show "angle1 (revertDirection h (revertDirection h e)) = angle1 e" by (simp add: one two)
  show "angle2 (revertDirection h (revertDirection h e)) = angle2 e" by (simp add: one two)
  show "reversed (revertDirection h (revertDirection h e)) = reversed e" by (simp add: one two)
next
  assume b: "isArc e \<and> \<bar>angle1 e\<bar> < RS_TOLERANCE_ANGLE \<and> \<bar>angle2 e\<bar> < RS_TOLERANCE_ANGLE"
  then have b1: "isArc e"
    and b2: "\<bar>angle1 e\<bar> < RS_TOLERANCE_ANGLE \<and> \<bar>angle2 e\<bar> < RS_TOLERANCE_ANGLE"
    by simp_all
  note flat = revertDirection_flat [OF b1 b2, of h]
  show "angle1 (revertDirection h e) = 0" by (rule flat)
  show "angle2 (revertDirection h e) = 0" by (rule flat)
  show "\<not> isArc (revertDirection h e)" by (rule flat)
  show "reversed (revertDirection h e) = (\<not> reversed e)" by (rule flat)
  show "revertDirection h (revertDirection h e) = revertDirection h e" by (rule flat)
  show "reversed (revertDirection h (revertDirection h e)) \<noteq> reversed e"
    by (simp add: flat)
qed

lemma newEllipse_arc_0_1:
  "isArc (newEllipse h (ellipseData c m k 0 1 r))"
  "angle1 (newEllipse h (ellipseData c m k 0 1 r)) = 0"
  "angle2 (newEllipse h (ellipseData c m k 0 1 r)) = 1"
proof -
  have "\<not> (\<bar>angle1 (ellipseData c m k 0 1 r)\<bar> < RS_TOLERANCE_ANGLE
            \<and> \<bar>angle2 (ellipseData c m k 0 1 r)\<bar> < RS_TOLERANCE_ANGLE)"
    by (simp add: ellipseData_fields RS_TOLERANCE_ANGLE_def)
  from bordersAngles_arc [OF this]
  show "isArc (newEllipse h (ellipseData c m k 0 1 r))"
    "angle1 (newEllipse h (ellipseData c m k 0 1 r)) = 0"
    "angle2 (newEllipse h (ellipseData c m k 0 1 r)) = 1"
    by (simp_all add: newEllipse_def calculateBorders_fields ellipseData_fields)
qed

lemma newEllipse_whole:
  "\<not> isArc (newEllipse h (ellipseData c m k 0 0 r))"
  "angle1 (newEllipse h (ellipseData c m k 0 0 r)) = 0"
  "angle2 (newEllipse h (ellipseData c m k 0 0 r)) = 0"
  using bordersAngles_whole [of "ellipseData c m k 0 0 r"]
  by (simp_all add: newEllipse_def calculateBorders_fields bordersAngles_fields ellipseData_fields)

lemma setAngle2_arc_0_1:
  "isArc (setAngle2 (newEllipse h (ellipseData c m k 0 1 r)) 0)"
  "angle1 (setAngle2 (newEllipse h (ellipseData c m k 0 1 r)) 0) = 0"
  "angle2 (setAngle2 (newEllipse h (ellipseData c m k 0 1 r)) 0) = 0"
  "reversed (setAngle2 (newEllipse h (ellipseData c m k 0 1 r)) 0) = r"
  using newEllipse_arc_0_1 [of h c m k r]
  by (simp_all add: setAngle2_def newEllipse_def calculateBorders_fields ellipseData_fields)

theorem revertDirection_involution_witness:
  "revertDirection exactHost (newEllipse exactHost (ellipseData (vec 0 0) (vec 10 0) (1 / 2) 0 0 False))
     = newEllipse exactHost (ellipseData (vec 0 0) (vec 10 0) (1 / 2) 0 0 False)
   \<and> isArc (newEllipse exactHost (ellipseData (vec 0 0) (vec 10 0) (1 / 2) 0 1 False))
   \<and> angle1 (revertDirection exactHost
        (newEllipse exactHost (ellipseData (vec 0 0) (vec 10 0) (1 / 2) 0 1 False))) = 1
   \<and> angle2 (revertDirection exactHost
        (newEllipse exactHost (ellipseData (vec 0 0) (vec 10 0) (1 / 2) 0 1 False))) = 0
   \<and> reversed (revertDirection exactHost
        (newEllipse exactHost (ellipseData (vec 0 0) (vec 10 0) (1 / 2) 0 1 False)))
   \<and> angle1 (revertDirection exactHost (revertDirection exactHost
        (newEllipse exactHost (ellipseData (vec 0 0) (vec 10 0) (1 / 2) 0 1 False)))) = 0
   \<and> angle2 (revertDirection exactHost (revertDirection exactHost
        (newEllipse exactHost (ellipseData (vec 0 0) (vec 10 0) (1 / 2) 0 1 False)))) = 1
   \<and> \<not> reversed (revertDirection exactHost (revertDirection exactHost
        (newEllipse exactHost (ellipseData (vec 0 0) (vec 10 0) (1 / 2) 0 1 False))))
   \<and> isArc (setAngle2 (newEllipse exactHost (ellipseData (vec 0 0) (vec 10 0) (1 / 2) 0 1 False)) 0)
   \<and> \<not> isArc (revertDirection exactHost
        (setAngle2 (newEllipse exactHost (ellipseData (vec 0 0) (vec 10 0) (1 / 2) 0 1 False)) 0))
   \<and> reversed (revertDirection exactHost
        (setAngle2 (newEllipse exactHost (ellipseData (vec 0 0) (vec 10 0) (1 / 2) 0 1 False)) 0))"
proof -
  let ?w = "newEllipse exactHost (ellipseData (vec 0 0) (vec 10 0) (1 / 2) 0 0 False)"
  let ?a = "newEllipse exactHost (ellipseData (vec 0 0) (vec 10 0) (1 / 2) 0 1 False)"
  let ?f = "setAngle2 ?a 0"
  have w: "\<not> isArc ?w" by (rule newEllipse_whole)
  have a: "isArc ?a" "angle1 ?a = 0" "angle2 ?a = 1" by (rule newEllipse_arc_0_1)+
  have r: "\<not> reversed ?a"
    by (simp add: newEllipse_def calculateBorders_fields ellipseData_fields)
  have n: "\<not> (\<bar>angle1 ?a\<bar> < RS_TOLERANCE_ANGLE \<and> \<bar>angle2 ?a\<bar> < RS_TOLERANCE_ANGLE)"
    by (simp add: a RS_TOLERANCE_ANGLE_def)
  have f: "isArc ?f" "angle1 ?f = 0" "angle2 ?f = 0" "\<not> reversed ?f"
    by (simp_all add: setAngle2_arc_0_1)
  have t: "\<bar>angle1 ?f\<bar> < RS_TOLERANCE_ANGLE \<and> \<bar>angle2 ?f\<bar> < RS_TOLERANCE_ANGLE"
    by (simp add: f RS_TOLERANCE_ANGLE_def)
  show ?thesis
    using revertDirection_involution [of ?w exactHost] revertDirection_involution [of ?a exactHost]
      revertDirection_involution [of ?f exactHost]
      w a r n f t
    by simp
qed

theorem revertDirection_twice_counterexample:
  "isArc (setAngle2 (newEllipse exactHost (ellipseData (vec 0 0) (vec 10 0) (1 / 2) 0 1 False)) 0)
   \<and> \<not> reversed (setAngle2 (newEllipse exactHost (ellipseData (vec 0 0) (vec 10 0) (1 / 2) 0 1 False)) 0)
   \<and> reversed (revertDirection exactHost
        (setAngle2 (newEllipse exactHost (ellipseData (vec 0 0) (vec 10 0) (1 / 2) 0 1 False)) 0))
   \<and> \<not> isArc (revertDirection exactHost
        (setAngle2 (newEllipse exactHost (ellipseData (vec 0 0) (vec 10 0) (1 / 2) 0 1 False)) 0))
   \<and> reversed (revertDirection exactHost (revertDirection exactHost
        (setAngle2 (newEllipse exactHost (ellipseData (vec 0 0) (vec 10 0) (1 / 2) 0 1 False)) 0)))"
proof -
  let ?f = "setAngle2 (newEllipse exactHost (ellipseData (vec 0 0) (vec 10 0) (1 / 2) 0 1 False)) 0"
  have f: "isArc ?f" "angle1 ?f = 0" "angle2 ?f = 0" "\<not> reversed ?f"
    by (simp_all add: setAngle2_arc_0_1)
  have t: "\<bar>angle1 ?f\<bar> < RS_TOLERANCE_ANGLE \<and> \<bar>angle2 ?f\<bar> < RS_TOLERANCE_ANGLE"
    by (simp add: f RS_TOLERANCE_ANGLE_def)
  note flat = revertDirection_flat [OF f(1) t, of exactHost]
  show ?thesis
    using f by (simp add: flat)
qed

subsection \<open>Nearest point on the curve\<close>

lemma getNearestPointOnEntity_keeps_ellipse:
  "snd (snd (snd (getNearestPointOnEntity h e coord onEntity dst entity))) = e"
  by (simp add: getNearestPointOnEntity_def Let_def)

text \<open>
  C10. \<^verbatim>\<open>getNearestPointOnEntity\<close> called with a query point that is not valid returns
  the invalid vector and, when the \<^verbatim>\<open>dist\<close> pointer is not null, stores \<^verbatim>\<open>RS_MAXDOUBLE\<close> in
  its cell (a null pointer stays null, and the \<^verbatim>\<open>entity\<close> cell is not written); and
  whatever the arguments, the ellipse after the call is the ellipse before it.
\<close>

theorem getNearestPointOnEntity_invalid_query:
  "(\<not> valid coord \<longrightarrow>
      fst (getNearestPointOnEntity h e coord onEntity dst entity) = invalid_vector
      \<and> \<not> valid (fst (getNearestPointOnEntity h e coord onEntity dst entity))
      \<and> fst (snd (getNearestPointOnEntity h e coord onEntity (Some d) entity)) = Some RS_MAXDOUBLE
      \<and> fst (snd (getNearestPointOnEntity h e coord onEntity None entity)) = None
      \<and> fst (snd (snd (getNearestPointOnEntity h e coord onEntity dst entity))) = entity)
   \<and> snd (snd (snd (getNearestPointOnEntity h e q onEntity dst entity))) = e"
  using getNearestPointOnEntity_keeps_ellipse [of h e q onEntity dst entity]
  by (simp add: getNearestPointOnEntity_def invalid_vector_def)

theorem getNearestPointOnEntity_invalid_query_witness:
  "\<not> valid invalid_vector
   \<and> getNearestPointOnEntity exactHost
        (newEllipse exactHost (ellipseData (vec 0 0) (vec 10 0) (1 / 2) 0 1 False))
        invalid_vector True (Some 7) None
      = (invalid_vector, Some RS_MAXDOUBLE, None,
         newEllipse exactHost (ellipseData (vec 0 0) (vec 10 0) (1 / 2) 0 1 False))"
proof -
  let ?e = "newEllipse exactHost (ellipseData (vec 0 0) (vec 10 0) (1 / 2) 0 1 False)"
  have i: "\<not> valid invalid_vector" by (simp add: invalid_vector_def)
  show ?thesis
    using getNearestPointOnEntity_invalid_query
      [of invalid_vector exactHost ?e True "Some 7" None 7 invalid_vector] i
    by (simp add: prod_eq_iff)
qed

subsection \<open>Nearest point by arc length from the start\<close>


lemma exactHost_fields:
  "ellipticIntegral_2 exactHost = incompleteE"
  "ellint_2 exactHost = (\<lambda>k. incompleteE k (pi / 2))"
  "linearSolver exactHost = exactLinearSolver"
  by (simp_all add: exactHost_def)







lemma getNearestEndpoint_valid:
  "isEllipticArc e \<Longrightarrow> valid (fst (getNearestEndpoint e c dst))"
  by (simp add: getNearestEndpoint_def Let_def getStartpoint_def getEndpoint_def
      getEllipsePoint_coords vec_sel)








subsection \<open>The ratio after a fitter and after the switch of the axes\<close>

lemma hypot_nonneg: "0 \<le> hypot a b"
  by (simp add: hypot_def)

lemma tolerance15_pos: "0 < RS_TOLERANCE15"
  by (simp add: RS_TOLERANCE15_def)

lemma createFromQuadratic_ratio:
  assumes "fst (createFromQuadratic dn e)"
  shows "0 < ratio (snd (createFromQuadratic dn e)) \<and> ratio (snd (createFromQuadratic dn e)) \<le> 1"
proof -
  let ?a = "dn ! 0" and ?c = "dn ! 1" and ?b = "dn ! 2"
  let ?s = "hypot (?a - ?b) ?c"
  have ok: "length dn = 3" "?s < ?a + ?b"
    using assms by (auto simp: createFromQuadratic_def Let_def split: if_splits)
  have s: "0 \<le> ?s" by (rule hypot_nonneg)
  have r: "ratio (snd (createFromQuadratic dn e)) = sqrt ((?a + ?b - ?s) / (?a + ?b + ?s))"
    using ok by (simp add: createFromQuadratic_def Let_def)
  have "0 < (?a + ?b - ?s) / (?a + ?b + ?s)"
    using ok s by simp
  moreover have "(?a + ?b - ?s) / (?a + ?b + ?s) \<le> 1"
    using ok s by simp
  ultimately show ?thesis
    unfolding r by simp
qed

lemma createFrom4P_ratio:
  assumes "fst (createFrom4P h sol e)"
  shows "0 < ratio (snd (createFrom4P h sol e))"
proof -
  from assms obtain dn where dn: "linearSolver h (map (\<lambda>p. [vx p * vx p, vx p, vy p * vy p, vy p, 1]) sol) = Some dn"
    and len: "length sol = 4"
    by (auto simp: createFrom4P_def Let_def split: if_splits option.splits)
  define d where "d = 1 + 0.25 * (dn ! 1 * dn ! 1 / dn ! 0 + dn ! 3 * dn ! 3 / dn ! 2)"
  have u: "createFrom4P h sol e =
             (if \<bar>dn ! 0\<bar> < RS_TOLERANCE15 \<or> \<bar>dn ! 2\<bar> < RS_TOLERANCE15
                 \<or> d / dn ! 0 < RS_TOLERANCE15 \<or> d / dn ! 2 < RS_TOLERANCE15
              then (False, e)
              else (True, e\<lparr>center := vec (- 0.5 * dn ! 1 / dn ! 0) (- 0.5 * dn ! 3 / dn ! 2),
                             majorP := vec (sqrt (d / dn ! 0)) 0,
                             ratio := sqrt (dn ! 0 / dn ! 2), angle1 := 0, angle2 := 0\<rparr>))"
    using len dn by (simp add: createFrom4P_def Let_def d_def split: option.splits)
  have g: "\<not> d / dn ! 0 < RS_TOLERANCE15" "\<not> d / dn ! 2 < RS_TOLERANCE15"
    using assms unfolding u by (auto split: if_splits)
  have r: "ratio (snd (createFrom4P h sol e)) = sqrt (dn ! 0 / dn ! 2)"
    using assms unfolding u by (auto split: if_splits)
  have p0: "0 < d / dn ! 0" and p2: "0 < d / dn ! 2"
    using g tolerance15_pos by linarith+
  have "0 < (d / dn ! 0) / (d / dn ! 2)"
    using p0 p2 by (rule divide_pos_pos)
  moreover have "d \<noteq> 0" using p0 by auto
  moreover have "dn ! 0 \<noteq> 0" using p0 by auto
  ultimately have "0 < dn ! 2 / dn ! 0" by simp
  then have "0 < dn ! 0 / dn ! 2"
    by (auto simp: zero_less_divide_iff)
  then show ?thesis unfolding r by simp
qed

lemma center3PointsSwitch_ratio:
  assumes "fst (center3PointsSwitch h sol e n)"
  shows "0 < ratio (snd (center3PointsSwitch h sol e n))"
proof -
  consider (two) "n = 2" | (three) "n = 3"
    using assms by (auto simp: center3PointsSwitch_def split: if_splits)
  then show ?thesis
  proof cases
    case two
    let ?mt = "map (\<lambda>i. let vp = vminus (sol ! (i + 1)) (sol ! 0)
                         in [vx vp * vx vp, vy vp * vy vp, 1]) [0 ..< 2]"
    have u: "center3PointsSwitch h sol e n =
               (case linearSolver h ?mt of
                  None \<Rightarrow> (False, e)
                | Some dn \<Rightarrow>
                    if dn ! 0 < RS_TOLERANCE15 \<or> dn ! 1 < RS_TOLERANCE15 then (False, e)
                    else (True, e\<lparr>majorP := vec (1 / sqrt (dn ! 0)) 0, ratio := sqrt (dn ! 0 / dn ! 1),
                                   angle1 := 0, angle2 := 0, center := sol ! 0\<rparr>))"
      using two by (simp add: center3PointsSwitch_def Let_def split: option.splits)
    from assms obtain dn where dn: "linearSolver h ?mt = Some dn"
      and g: "\<not> dn ! 0 < RS_TOLERANCE15" "\<not> dn ! 1 < RS_TOLERANCE15"
      unfolding u by (auto split: option.splits if_splits)
    have "0 < dn ! 0" "0 < dn ! 1" using g tolerance15_pos by linarith+
    then have "0 < sqrt (dn ! 0 / dn ! 1)" by simp
    then show ?thesis unfolding u using dn g by simp
  next
    case three
    let ?mt = "map (\<lambda>i. let vp = vminus (sol ! (i + 1)) (sol ! 0)
                         in [vx vp * vx vp, vx vp * vy vp, vy vp * vy vp, 1]) [0 ..< 3]"
    have u: "center3PointsSwitch h sol e n =
               (case linearSolver h ?mt of
                  None \<Rightarrow> (False, e)
                | Some dn \<Rightarrow> createFromQuadratic dn (e\<lparr>center := sol ! 0\<rparr>))"
      using three by (simp add: center3PointsSwitch_def Let_def split: option.splits)
    from assms obtain dn where dn: "linearSolver h ?mt = Some dn"
      and q: "fst (createFromQuadratic dn (e\<lparr>center := sol ! 0\<rparr>))"
      unfolding u by (auto split: option.splits)
    show ?thesis
      unfolding u using dn createFromQuadratic_ratio [OF q] by simp
  qed
qed

lemma createFromCenter3Points_ratio:
  assumes "fst (createFromCenter3Points h sol e)"
  shows "0 < ratio (snd (createFromCenter3Points h sol e))"
proof -
  have len: "\<not> length sol < 3"
    using assms by (auto simp: createFromCenter3Points_def)
  then obtain n where u: "createFromCenter3Points h sol e = center3PointsSwitch h sol e n"
    by (simp add: createFromCenter3Points_def Let_def)
  show ?thesis
    using assms center3PointsSwitch_ratio [of h sol e n] unfolding u by simp
qed

lemma switchMajorMinor_ratio:
  assumes "1 < ratio e"
  shows "fst (switchMajorMinor (calculateBorders h) e)"
    and "ratio (snd (switchMajorMinor (calculateBorders h) e)) = 1 / ratio e"
proof -
  have "\<not> \<bar>ratio e\<bar> < RS_TOLERANCE"
    using assms by (simp add: RS_TOLERANCE_def)
  then show "fst (switchMajorMinor (calculateBorders h) e)"
    and "ratio (snd (switchMajorMinor (calculateBorders h) e)) = 1 / ratio e"
    by (simp_all add: switchMajorMinor_def Let_def calculateBorders_fields)
qed

lemma list_of_length_4: "length (xs::real list) = 4 \<Longrightarrow> \<exists>a b c d. xs = [a, b, c, d]"
proof -
  assume "length xs = 4"
  then have "length xs = Suc (Suc (Suc (Suc 0)))" by simp
  then show ?thesis by (auto simp: length_Suc_conv)
qed

lemma solves_length: "solves mt dn \<Longrightarrow> length dn = length mt"
  by (simp add: solves_def)

lemma four_points_system:
  "exactLinearSolver
     [[1 / 4, 1 / 2, 0, 0, 1], [1 / 4, - (1 / 2), 0, 0, 1], [0, 0, 1, 1, 1], [0, 0, 1, - 1, 1]]
   = Some [4, 0, 1, 0]"
proof -
  let ?mt = "[[1 / 4, 1 / 2, 0, 0, 1], [1 / 4, - (1 / 2), 0, 0, 1], [0, 0, 1, 1, 1], [0, 0, 1, - 1, 1::real]]"
  have s: "solves ?mt [4, 0, 1, 0]" by (simp add: solves_def)
  have uq: "dn = [4, 0, 1, 0]" if "solves ?mt dn" for dn
  proof -
    have "length dn = 4" using solves_length [OF that] by simp
    then obtain a b c d where dn: "dn = [a, b, c, d]" using list_of_length_4 by blast
    have "a / 4 + b / 2 = 1 \<and> a / 4 - b / 2 = 1 \<and> c + d = 1 \<and> c - d = 1"
      using that unfolding dn by (simp add: solves_def)
    then have "a = 4 \<and> b = 0 \<and> c = 1 \<and> d = 0" by linarith
    then show ?thesis by (simp add: dn)
  qed
  have e1: "\<exists>!dn. solves ?mt dn"
    by (rule ex1I [of _ "[4, 0, 1, 0]"]) (rule s, rule uq)
  have "(THE dn. solves ?mt dn) = [4, 0, 1, 0]"
    by (rule the_equality) (rule s, rule uq)
  with e1 show ?thesis by (simp only: exactLinearSolver_def if_True)
qed

lemma createFrom4P_tall:
  "createFrom4P exactHost [vec (1 / 2) 0, vec (- (1 / 2)) 0, vec 0 1, vec 0 (- 1)] e
   = (True, e\<lparr>center := vec 0 0, majorP := vec (1 / 2) 0, ratio := 2, angle1 := 0, angle2 := 0\<rparr>)"
proof -
  have m: "map (\<lambda>p. [vx p * vx p, vx p, vy p * vy p, vy p, 1])
             [vec (1 / 2) 0, vec (- (1 / 2)) 0, vec 0 1, vec 0 (- 1)]
           = [[1 / 4, 1 / 2, 0, 0, 1], [1 / 4, - (1 / 2), 0, 0, 1], [0, 0, 1, 1, 1], [0, 0, 1, - 1, 1]]"
    by (simp add: vec_sel)
  have q: "sqrt (1 / 4) = 1 / 2"
    by (rule real_sqrt_unique) (simp_all add: power2_eq_square)
  show ?thesis
    unfolding createFrom4P_def m
    by (simp add: Let_def exactHost_fields four_points_system RS_TOLERANCE15_def q vec_eq_iff)
qed

subsection \<open>The ratio after dragging a reference point\<close>

lemma correctAngles_fields:
  "ratio (correctAngles e) = ratio e" "majorP (correctAngles e) = majorP e"
  "center (correctAngles e) = center e"
  by (simp_all add: correctAngles_def Let_def)

lemma switch_or_borders_ratio:
  assumes "0 < ratio e"
  shows "0 < ratio (if 1 < ratio e then snd (switchMajorMinor (calculateBorders h) e)
                    else calculateBorders h e)"
    and "ratio (if 1 < ratio e then snd (switchMajorMinor (calculateBorders h) e)
                else calculateBorders h e) \<le> 1"
proof -
  show "0 < ratio (if 1 < ratio e then snd (switchMajorMinor (calculateBorders h) e)
                   else calculateBorders h e)"
    using assms by (simp add: switchMajorMinor_ratio calculateBorders_fields)
  show "ratio (if 1 < ratio e then snd (switchMajorMinor (calculateBorders h) e)
               else calculateBorders h e) \<le> 1"
    using assms by (simp add: switchMajorMinor_ratio calculateBorders_fields)
qed

lemma moveRefFocus_ratio:
  assumes "0 < ratio e" and "ratio e \<le> 1"
  shows "0 < ratio (moveRefFocus h e foci i offset) \<and> ratio (moveRefFocus h e foci i offset) \<le> 1"
proof -
  define focusNew where "focusNew = vplus (foci ! i) offset"
  define d where "d = magnitude (majorP e)"
  define c where "c = 0.5 * distanceTo focusNew (foci ! (1 - i))"
  define g where "g = (if 0 \<le> dotP (majorP e) (vminus (foci ! i) (center e))
                     then vminus focusNew (vplus (center e) (vtimes offset 0.5))
                     else vminus (vplus (center e) (vtimes offset 0.5)) focusNew)"
  define e1 where "e1 = correctAngles (e\<lparr>center := vplus (center e) (vtimes offset 0.5),
     majorP := vtimes g (d / magnitude g), ratio := sqrt (d * d - c * c) / d\<rparr>)"
  have u: "moveRefFocus h e foci i offset =
      (if magnitude g < RS_TOLERANCE2 \<or> d < RS_TOLERANCE \<or> d - RS_TOLERANCE \<le> c then e
       else if 1 < ratio e1 then snd (switchMajorMinor (calculateBorders h) e1)
            else calculateBorders h e1)"
    by (simp add: moveRefFocus_def Let_def focusNew_def d_def c_def g_def e1_def)
  show ?thesis
  proof (cases "magnitude g < RS_TOLERANCE2 \<or> d < RS_TOLERANCE \<or> d - RS_TOLERANCE \<le> c")
    case True
    then show ?thesis using assms by (simp add: u)
  next
    case False
    then have dc: "c < d" "0 < d"
      by (simp_all add: RS_TOLERANCE_def)
    have c0: "0 \<le> c"
      by (simp add: c_def distanceTo_def magnitude_def)
    have "c * c < d * d" using dc c0 by (simp add: mult_strict_mono')
    then have p: "0 < d * d - c * c" by simp
    have "d * d - c * c \<le> d * d" using c0 by simp
    then have "sqrt (d * d - c * c) \<le> sqrt (d * d)" by (simp only: real_sqrt_le_iff)
    then have le: "sqrt (d * d - c * c) \<le> d" using dc by simp
    have r1: "ratio e1 = sqrt (d * d - c * c) / d"
      by (simp add: e1_def correctAngles_fields)
    have "0 < ratio e1" using p dc by (simp add: r1)
    then show ?thesis
      using False switch_or_borders_ratio [of e1 h] by (simp add: u)
  qed
qed

lemma moveRefMajor_ratio:
  assumes "0 < ratio e" and "ratio e \<le> 1" and "0 < getMajorRadius e"
  shows "0 < ratio (moveRefMajor h e offset) \<and> ratio (moveRefMajor h e offset) \<le> 1"
proof -
  define r where "r = magnitude (vplus (majorP e) offset)"
  define e1 where "e1 = e\<lparr>majorP := vplus (majorP e) offset, ratio := ratio e * getMajorRadius e / r\<rparr>"
  have u: "moveRefMajor h e offset =
      (if r < RS_TOLERANCE then e
       else if 1 < ratio e1 then snd (switchMajorMinor (calculateBorders h) e1)
            else calculateBorders h e1)"
    by (simp add: moveRefMajor_def Let_def r_def e1_def)
  show ?thesis
  proof (cases "r < RS_TOLERANCE")
    case True
    then show ?thesis using assms by (simp add: u)
  next
    case False
    then have "0 < r" by (simp add: RS_TOLERANCE_def)
    then have "0 < ratio e1" using assms by (simp add: e1_def)
    then show ?thesis
      using False switch_or_borders_ratio [of e1 h] by (simp add: u)
  qed
qed

lemma moveRefMinor_ratio:
  assumes "0 < ratio e" and "ratio e \<le> 1" and "0 < getMajorRadius e"
  shows "0 < ratio (moveRefMinor h e offset) \<and> ratio (moveRefMinor h e offset) \<le> 1"
proof -
  define minorP where "minorP = vplus (getMinorPoint e) offset"
  define r where "r = magnitude (vminus minorP (vplus (center e)
       (vdiv (vtimes (majorP e) (dotP (majorP e) (vminus minorP (center e)))) (squared (majorP e)))))"
  define e1 where "e1 = e\<lparr>ratio := ratio e * r / getMinorRadius e\<rparr>"
  have u: "moveRefMinor h e offset =
      (if squared (majorP e) < RS_TOLERANCE2 then e
       else if r < RS_TOLERANCE then e
       else if 1 < ratio e1 then snd (switchMajorMinor (calculateBorders h) e1)
            else calculateBorders h e1)"
    by (simp add: moveRefMinor_def Let_def minorP_def r_def e1_def)
  show ?thesis
  proof (cases "squared (majorP e) < RS_TOLERANCE2 \<or> r < RS_TOLERANCE")
    case True
    then show ?thesis using assms by (auto simp: u)
  next
    case False
    then have "0 < r" by (simp add: RS_TOLERANCE_def)
    moreover have "0 < getMinorRadius e"
      using assms by (simp add: getMinorRadius_def getMajorRadius_def)
    ultimately have "0 < ratio e1" using assms by (simp add: e1_def)
    then show ?thesis
      using False switch_or_borders_ratio [of e1 h] by (simp add: u)
  qed
qed

subsection \<open>The ratio after scaling\<close>

lemma scale_discriminant:
  fixes a b kx ky c s :: real
  shows "4 * (0.5 * a * a * (kx * c + ky * s)) * (0.5 * b * b * (kx * s + ky * c))
         - (a * b) * (a * b) * (c * s) * ((ky - kx) * (ky - kx))
         = (a * b) * (a * b) * (kx * ky) * ((c + s) * (c + s))"
  by (simp add: field_simps)

lemma scaleEllipse_ratio_unfold:
  assumes "\<not> magnitude (majorP e) < RS_TOLERANCE"
  shows "ratio (scaleEllipse h e c factor) =
     (let a = magnitude (majorP e);
          ct = vx (majorP e) * (1 / a);
          st = vy (majorP e) * (1 / a);
          kx = vx factor * vx factor;
          ky = vy factor * vy factor;
          b = ratio e * a;
          cA = scale_cA a (ct * ct) (1 - ct * ct) kx ky;
          cB = scale_cB b (ct * ct) (1 - ct * ct) kx ky;
          cC = scale_cC a b ct st kx ky
      in scale_ratio (cA + cB) (magnitude (vec (cA - cB) cC)))"
  using assms
  by (simp add: scaleEllipse_def Let_def vscaleBy_def correctAngles_fields)

lemma scaleEllipse_ratio:
  assumes r: "0 < ratio e" and f: "vx factor \<noteq> 0" "vy factor \<noteq> 0"
    and m: "RS_TOLERANCE \<le> getMajorRadius e"
  shows "0 < ratio (scaleEllipse h e c factor) \<and> ratio (scaleEllipse h e c factor) \<le> 1"
proof -
  define a where "a = magnitude (majorP e)"
  define ct where "ct = vx (majorP e) * (1 / a)"
  define st where "st = vy (majorP e) * (1 / a)"
  define kx where "kx = vx factor * vx factor"
  define ky where "ky = vy factor * vy factor"
  define b where "b = ratio e * a"
  define cA where "cA = scale_cA a (ct * ct) (1 - ct * ct) kx ky"
  define cB where "cB = scale_cB b (ct * ct) (1 - ct * ct) kx ky"
  define cC where "cC = scale_cC a b ct st kx ky"
  have a0: "0 < a"
    using m by (simp add: a_def getMajorRadius_def RS_TOLERANCE_def)
  have na: "\<not> a < RS_TOLERANCE"
    using m by (simp add: a_def getMajorRadius_def)
  have rt: "ratio (scaleEllipse h e c factor)
            = sqrt ((cA + cB - magnitude (vec (cA - cB) cC)) / (cA + cB + magnitude (vec (cA - cB) cC)))"
    unfolding scaleEllipse_ratio_unfold [OF na [unfolded a_def]] Let_def cA_def cB_def cC_def
      b_def kx_def ky_def ct_def st_def a_def scale_ratio_def
    by (rule refl)
  have cAe: "cA = 0.5 * a * a * (kx * (ct * ct) + ky * (1 - ct * ct))"
    and cBe: "cB = 0.5 * b * b * (kx * (1 - ct * ct) + ky * (ct * ct))"
    and cCe: "cC = a * b * ct * st * (ky - kx)"
    by (simp_all only: cA_def cB_def cC_def scale_cA_def scale_cB_def scale_cC_def)
  have aa: "vx (majorP e) * vx (majorP e) + vy (majorP e) * vy (majorP e) = a * a"
    unfolding a_def magnitude_def by simp
  have "ct * ct + st * st
        = (vx (majorP e) * vx (majorP e) + vy (majorP e) * vy (majorP e)) / (a * a)"
    by (simp add: ct_def st_def add_divide_distrib)
  also have "\<dots> = 1" unfolding aa using a0 by simp
  finally have unit: "ct * ct + st * st = 1" .
  then have st2: "1 - ct * ct = st * st" by simp
  have k: "0 < kx" "0 < ky"
    using f by (simp_all add: kx_def ky_def zero_less_mult_iff) (auto simp: neq_iff)
  have b0: "0 < b" using r a0 by (simp add: b_def)
  have sq: "0 \<le> ct * ct" "0 \<le> st * st" by simp_all
  have cpos: "0 < ct * ct" if "ct \<noteq> 0"
    using that by (simp add: zero_less_mult_iff) (auto simp: neq_iff)
  have "0 < kx * (ct * ct) + ky * (st * st)"
  proof (cases "ct = 0")
    case True
    then have "st * st = 1" using unit by simp
    then show ?thesis using True k by simp
  next
    case False
    then have "0 < kx * (ct * ct)" using k cpos by simp
    moreover have "0 \<le> ky * (st * st)" using k sq by simp
    ultimately show ?thesis by linarith
  qed
  then have pA: "0 < cA" using a0 by (simp add: cAe st2)
  have "0 < kx * (st * st) + ky * (ct * ct)"
  proof (cases "ct = 0")
    case True
    then have "st * st = 1" using unit by simp
    then show ?thesis using True k by simp
  next
    case False
    then have "0 < ky * (ct * ct)" using k cpos by simp
    moreover have "0 \<le> kx * (st * st)" using k sq by simp
    ultimately show ?thesis by linarith
  qed
  then have pB: "0 < cB" using b0 by (simp add: cBe st2)
  have "4 * cA * cB - cC * cC = (a * b) * (a * b) * (kx * ky) * ((ct * ct + st * st) * (ct * ct + st * st))"
    unfolding cAe cBe cCe st2
    using scale_discriminant [of a kx "ct * ct" ky "st * st" b] by (simp add: algebra_simps)
  also have "\<dots> = (a * b) * (a * b) * (kx * ky)" by (simp add: unit)
  also have "0 < \<dots>" using a0 b0 k by simp
  finally have disc: "cC * cC < 4 * cA * cB" by simp
  have "(cA - cB) * (cA - cB) + cC * cC < (cA + cB) * (cA + cB)"
    using disc by (simp add: algebra_simps)
  then have "sqrt ((cA - cB) * (cA - cB) + cC * cC) < sqrt ((cA + cB) * (cA + cB))"
    by (simp only: real_sqrt_less_iff)
  then have lt: "magnitude (vec (cA - cB) cC) < cA + cB"
    using pA pB by (simp add: magnitude_def vec_sel)
  have ge: "0 \<le> magnitude (vec (cA - cB) cC)" by (simp add: magnitude_def)
  have "0 < (cA + cB - magnitude (vec (cA - cB) cC)) / (cA + cB + magnitude (vec (cA - cB) cC))"
    using lt ge by simp
  moreover have "(cA + cB - magnitude (vec (cA - cB) cC)) / (cA + cB + magnitude (vec (cA - cB) cC)) \<le> 1"
    using lt ge by simp
  ultimately show ?thesis unfolding rt by simp
qed

subsection \<open>Mutations that leave the ratio as it is\<close>

lemma transforms_keep_ratio:
  "ratio (moveEllipse h e offset) = ratio e"
  "ratio (rotateAboutAngle h e c a) = ratio e"
  "ratio (rotateAboutVector h e c v) = ratio e"
  "ratio (rotateAngle h e a) = ratio e"
  "ratio (rotateVector h e v) = ratio e"
  "ratio (mirrorEllipse h e p1 p2) = ratio e"
  "ratio (moveStartpoint h e pos) = ratio e"
  "ratio (moveEndpoint h e pos) = ratio e"
  "ratio (revertDirection h e) = ratio e"
  by (simp_all add: moveEllipse_def rotateAboutAngle_def rotateAboutVector_def rotateAngle_def
      rotateVector_def mirrorEllipse_def moveStartpoint_def moveEndpoint_def revertDirection_def
      Let_def calculateBorders_fields correctAngles_fields)

subsection \<open>The quadratic-functional fitter and the shear\<close>

lemma createFromQuadratic_failed:
  "\<not> fst (createFromQuadratic dn e) \<Longrightarrow> snd (createFromQuadratic dn e) = e"
  by (auto simp: createFromQuadratic_def Let_def split: if_splits)

lemma createFromQuadratic_keeps:
  assumes "0 < ratio e" and "ratio e \<le> 1"
  shows "0 < ratio (snd (createFromQuadratic dn e)) \<and> ratio (snd (createFromQuadratic dn e)) \<le> 1"
proof (cases "fst (createFromQuadratic dn e)")
  case True
  then show ?thesis by (rule createFromQuadratic_ratio)
next
  case False
  then show ?thesis using assms by (simp add: createFromQuadratic_failed)
qed

lemma createFromQuadraticForm_result:
  "(\<not> fst (createFromQuadraticForm h q e) \<longrightarrow> snd (createFromQuadraticForm h q e) = e)
   \<and> (fst (createFromQuadraticForm h q e) \<longrightarrow>
        0 < ratio (snd (createFromQuadraticForm h q e))
        \<and> ratio (snd (createFromQuadraticForm h q e)) \<le> 1)"
  by (simp add: createFromQuadraticForm_def Let_def createFromQuadratic_failed
      createFromQuadratic_ratio transforms_keep_ratio)

lemma createFromQuadraticForm_keeps:
  assumes "0 < ratio e" and "ratio e \<le> 1"
  shows "0 < ratio (snd (createFromQuadraticForm h q e))
         \<and> ratio (snd (createFromQuadraticForm h q e)) \<le> 1"
  using assms createFromQuadraticForm_result [of h q e]
  by (cases "fst (createFromQuadraticForm h q e)") simp_all

lemma shearEllipse_ratio:
  assumes "0 < ratio e" and "ratio e \<le> 1"
  shows "0 < ratio (shearEllipse h e k) \<and> ratio (shearEllipse h e k) \<le> 1"
  using createFromQuadraticForm_keeps [OF assms, of h "quadratic_shear h (getQuadratic h e) k"]
  by (simp add: shearEllipse_def Let_def transforms_keep_ratio)

subsection \<open>Dragging a reference point, whatever the major radius\<close>

lemma major_point_apart:
  assumes "\<not> squared (vminus ref (center e)) < t"
    and "squared (vminus ref (getMajorPoint e)) < t"
  shows "0 < getMajorRadius e"
proof (rule ccontr)
  assume "\<not> 0 < getMajorRadius e"
  then have "sqrt (vx (majorP e) * vx (majorP e) + vy (majorP e) * vy (majorP e)) \<le> 0"
    by (simp add: getMajorRadius_def magnitude_def)
  then have "vx (majorP e) * vx (majorP e) + vy (majorP e) * vy (majorP e) \<le> 0"
    by simp
  then have "vx (majorP e) = 0 \<and> vy (majorP e) = 0"
    by (metis add_nonneg_eq_0_iff mult_eq_0_iff zero_le_square antisym add_nonneg_nonneg)
  then have "squared (vminus ref (getMajorPoint e)) = squared (vminus ref (center e))"
    by (simp add: squared_def vminus_def getMajorPoint_def vplus_def vec_sel)
  then show False using assms by simp
qed

lemma moveRefMinor_keeps:
  assumes "0 < ratio e" and "ratio e \<le> 1"
  shows "0 < ratio (moveRefMinor h e offset) \<and> ratio (moveRefMinor h e offset) \<le> 1"
proof (cases "squared (majorP e) < RS_TOLERANCE2")
  case True
  then show ?thesis using assms by (simp add: moveRefMinor_def Let_def)
next
  case False
  then have "0 < vx (majorP e) * vx (majorP e) + vy (majorP e) * vy (majorP e)"
    by (simp add: squared_def RS_TOLERANCE2_def)
  then have "0 < getMajorRadius e"
    by (simp add: getMajorRadius_def magnitude_def)
  then show ?thesis by (rule moveRefMinor_ratio [OF assms])
qed

lemma moveRef_keeps:
  assumes "0 < ratio e" and "ratio e \<le> 1"
  shows "0 < ratio (moveRef h e ref offset) \<and> ratio (moveRef h e ref offset) \<le> 1"
proof -
  have n: "\<not> 1 < ratio e" using assms by simp
  have "moveRef h e ref offset \<in>
          {correctAngles (moveStartpoint h e (vplus (getStartpoint e) offset)),
           moveEndpoint h e (vplus (getEndpoint e) offset),
           calculateBorders h (e\<lparr>center := vplus (center e) offset\<rparr>),
           moveRefFocus h e (getFoci h e) 0 offset,
           moveRefFocus h e (getFoci h e) 1 offset,
           moveRefMinor h e offset, e}
        \<or> moveRef h e ref offset = moveRefMajor h e offset
          \<and> \<not> squared (vminus ref (center e)) < RS_TOLERANCE_ANGLE
          \<and> squared (vminus ref (getMajorPoint e)) < RS_TOLERANCE_ANGLE"
    using n by (simp add: moveRef_def Let_def)
  moreover have "ratio (correctAngles (moveStartpoint h e (vplus (getStartpoint e) offset))) = ratio e"
    "ratio (moveEndpoint h e (vplus (getEndpoint e) offset)) = ratio e"
    "ratio (calculateBorders h (e\<lparr>center := vplus (center e) offset\<rparr>)) = ratio e"
    by (simp_all add: moveStartpoint_def moveEndpoint_def correctAngles_fields calculateBorders_fields)
  moreover have "0 < ratio (moveRefMajor h e offset) \<and> ratio (moveRefMajor h e offset) \<le> 1"
    if "\<not> squared (vminus ref (center e)) < RS_TOLERANCE_ANGLE"
      and "squared (vminus ref (getMajorPoint e)) < RS_TOLERANCE_ANGLE"
    using moveRefMajor_ratio [OF assms major_point_apart [OF that]] .
  ultimately show ?thesis
    using assms moveRefFocus_ratio [OF assms, of h "getFoci h e" _ offset]
      moveRefMinor_keeps [OF assms, of h offset]
    by auto
qed

subsection \<open>Scaling, whatever the major radius and the factor\<close>

lemma scaleEllipse_small:
  assumes "getMajorRadius e < RS_TOLERANCE"
  shows "ratio (scaleEllipse h e c factor) = ratio e"
  using assms by (simp add: scaleEllipse_def Let_def getMajorRadius_def)

lemma scaleEllipse_keeps:
  assumes "0 < ratio e" and "ratio e \<le> 1" and "vx factor \<noteq> 0" and "vy factor \<noteq> 0"
  shows "0 < ratio (scaleEllipse h e c factor) \<and> ratio (scaleEllipse h e c factor) \<le> 1"
proof (cases "getMajorRadius e < RS_TOLERANCE")
  case True
  then show ?thesis using assms by (simp add: scaleEllipse_small)
next
  case False
  then have "RS_TOLERANCE \<le> getMajorRadius e" by simp
  then show ?thesis by (rule scaleEllipse_ratio [OF assms(1,3,4)])
qed

lemma scaleEllipse_zero:
  assumes r: "0 < ratio e" and m: "RS_TOLERANCE \<le> getMajorRadius e"
    and f: "vx factor = 0 \<or> vy factor = 0"
  shows "ratio (scaleEllipse h e c factor) = 0"
proof -
  define a where "a = magnitude (majorP e)"
  define ct where "ct = vx (majorP e) * (1 / a)"
  define st where "st = vy (majorP e) * (1 / a)"
  define kx where "kx = vx factor * vx factor"
  define ky where "ky = vy factor * vy factor"
  define b where "b = ratio e * a"
  define cA where "cA = scale_cA a (ct * ct) (1 - ct * ct) kx ky"
  define cB where "cB = scale_cB b (ct * ct) (1 - ct * ct) kx ky"
  define cC where "cC = scale_cC a b ct st kx ky"
  have a0: "0 < a"
    using m by (simp add: a_def getMajorRadius_def RS_TOLERANCE_def)
  have na: "\<not> a < RS_TOLERANCE"
    using m by (simp add: a_def getMajorRadius_def)
  have rt: "ratio (scaleEllipse h e c factor)
            = sqrt ((cA + cB - magnitude (vec (cA - cB) cC)) / (cA + cB + magnitude (vec (cA - cB) cC)))"
    unfolding scaleEllipse_ratio_unfold [OF na [unfolded a_def]] Let_def cA_def cB_def cC_def
      b_def kx_def ky_def ct_def st_def a_def scale_ratio_def
    by (rule refl)
  have cAe: "cA = 0.5 * a * a * (kx * (ct * ct) + ky * (1 - ct * ct))"
    and cBe: "cB = 0.5 * b * b * (kx * (1 - ct * ct) + ky * (ct * ct))"
    and cCe: "cC = a * b * ct * st * (ky - kx)"
    by (simp_all only: cA_def cB_def cC_def scale_cA_def scale_cB_def scale_cC_def)
  have aa: "vx (majorP e) * vx (majorP e) + vy (majorP e) * vy (majorP e) = a * a"
    unfolding a_def magnitude_def by simp
  have "ct * ct + st * st
        = (vx (majorP e) * vx (majorP e) + vy (majorP e) * vy (majorP e)) / (a * a)"
    by (simp add: ct_def st_def add_divide_distrib)
  also have "\<dots> = 1" unfolding aa using a0 by simp
  finally have unit: "ct * ct + st * st = 1" .
  then have st2: "1 - ct * ct = st * st" by simp
  have k: "0 \<le> kx" "0 \<le> ky" "kx * ky = 0"
    using f by (auto simp: kx_def ky_def)
  have sq: "0 \<le> ct * ct" "0 \<le> st * st" by simp_all
  have "0 \<le> kx * (ct * ct) + ky * (st * st)" using k sq by simp
  then have pA: "0 \<le> cA" using a0 by (simp add: cAe st2)
  have "0 \<le> kx * (st * st) + ky * (ct * ct)" using k sq by simp
  then have pB: "0 \<le> cB" by (simp add: cBe st2)
  have "4 * cA * cB - cC * cC = (a * b) * (a * b) * (kx * ky) * ((ct * ct + st * st) * (ct * ct + st * st))"
    unfolding cAe cBe cCe st2
    using scale_discriminant [of a kx "ct * ct" ky "st * st" b] by (simp add: algebra_simps)
  then have disc: "cC * cC = 4 * cA * cB" by (simp add: k)
  have "(cA - cB) * (cA - cB) + cC * cC = (cA + cB) * (cA + cB)"
    using disc by (simp add: algebra_simps)
  then have "magnitude (vec (cA - cB) cC) = sqrt ((cA + cB) * (cA + cB))"
    by (simp add: magnitude_def vec_sel)
  also have "\<dots> = cA + cB" using pA pB by simp
  finally have "magnitude (vec (cA - cB) cC) = cA + cB" .
  then show ?thesis unfolding rt by simp
qed

subsection \<open>The switch of the axes on a ratio below one\<close>

lemma switchMajorMinor_below:
  assumes "RS_TOLERANCE \<le> ratio e" and "ratio e < 1"
  shows "fst (switchMajorMinor (calculateBorders h) e)"
    and "ratio (snd (switchMajorMinor (calculateBorders h) e)) = 1 / ratio e"
    and "1 < ratio (snd (switchMajorMinor (calculateBorders h) e))"
proof -
  have p: "0 < ratio e" using assms by (simp add: RS_TOLERANCE_def)
  have "\<not> \<bar>ratio e\<bar> < RS_TOLERANCE" using assms by simp
  then show "fst (switchMajorMinor (calculateBorders h) e)"
    and q: "ratio (snd (switchMajorMinor (calculateBorders h) e)) = 1 / ratio e"
    by (simp_all add: switchMajorMinor_def Let_def calculateBorders_fields)
  show "1 < ratio (snd (switchMajorMinor (calculateBorders h) e))"
    unfolding q using p assms by simp
qed

subsection \<open>The two branches of the fit from a centre and points\<close>

lemma center3PointsSwitch_keeps:
  assumes "n \<noteq> 2" and "0 < ratio e" and "ratio e \<le> 1"
  shows "0 < ratio (snd (center3PointsSwitch h sol e n))
         \<and> ratio (snd (center3PointsSwitch h sol e n)) \<le> 1"
proof (cases "n = 3")
  case True
  let ?mt = "map (\<lambda>i. let vp = vminus (sol ! (i + 1)) (sol ! 0)
                       in [vx vp * vx vp, vx vp * vy vp, vy vp * vy vp, 1]) [0 ..< 3]"
  have u: "center3PointsSwitch h sol e n =
             (case linearSolver h ?mt of
                None \<Rightarrow> (False, e)
              | Some dn \<Rightarrow> createFromQuadratic dn (e\<lparr>center := sol ! 0\<rparr>))"
    using True by (simp add: center3PointsSwitch_def Let_def split: option.splits)
  have "0 < ratio (snd (createFromQuadratic dn (e\<lparr>center := sol ! 0\<rparr>)))
        \<and> ratio (snd (createFromQuadratic dn (e\<lparr>center := sol ! 0\<rparr>))) \<le> 1" for dn
    using assms by (intro createFromQuadratic_keeps) simp_all
  then show ?thesis
    unfolding u using assms by (simp split: option.splits)
next
  case False
  then show ?thesis
    using assms by (simp add: center3PointsSwitch_def)
qed

lemma createFromCenter3Points_keeps:
  assumes "center3PointsSize sol \<noteq> 2" and "0 < ratio e" and "ratio e \<le> 1"
  shows "0 < ratio (snd (createFromCenter3Points h sol e))
         \<and> ratio (snd (createFromCenter3Points h sol e)) \<le> 1"
  using assms center3PointsSwitch_keeps [OF assms, of h sol]
  by (simp add: createFromCenter3Points_def)

lemma createFromCenter3Points_three:
  assumes "center3PointsSize sol = 3" and "fst (createFromCenter3Points h sol e)"
  shows "0 < ratio (snd (createFromCenter3Points h sol e))
         \<and> ratio (snd (createFromCenter3Points h sol e)) \<le> 1"
proof -
  let ?mt = "map (\<lambda>i. let vp = vminus (sol ! (i + 1)) (sol ! 0)
                       in [vx vp * vx vp, vx vp * vy vp, vy vp * vy vp, 1]) [0 ..< 3]"
  have len: "\<not> length sol < 3"
    using assms(2) by (auto simp: createFromCenter3Points_def)
  have u: "createFromCenter3Points h sol e =
             (case linearSolver h ?mt of
                None \<Rightarrow> (False, e)
              | Some dn \<Rightarrow> createFromQuadratic dn (e\<lparr>center := sol ! 0\<rparr>))"
    using len assms(1)
    by (simp add: createFromCenter3Points_def center3PointsSwitch_def Let_def split: option.splits)
  from assms(2) obtain dn where dn: "linearSolver h ?mt = Some dn"
    and q: "fst (createFromQuadratic dn (e\<lparr>center := sol ! 0\<rparr>))"
    unfolding u by (auto split: option.splits)
  show ?thesis
    unfolding u using dn createFromQuadratic_ratio [OF q] by simp
qed

lemma list_of_length_3: "length (xs::real list) = 3 \<Longrightarrow> \<exists>a b c. xs = [a, b, c]"
proof -
  assume "length xs = 3"
  then have "length xs = Suc (Suc (Suc 0))" by simp
  then show ?thesis by (auto simp: length_Suc_conv)
qed

lemma list_of_length_2: "length (xs::real list) = 2 \<Longrightarrow> \<exists>a b. xs = [a, b]"
proof -
  assume "length xs = 2"
  then have "length xs = Suc (Suc 0)" by simp
  then show ?thesis by (auto simp: length_Suc_conv)
qed

lemma two_points_system: "exactLinearSolver [[1 / 4, 0, 1], [0, 1, 1]] = Some [4, 1]"
proof -
  let ?mt = "[[1 / 4, 0, 1], [0, 1, 1::real]]"
  have s: "solves ?mt [4, 1]" by (simp add: solves_def)
  have uq: "dn = [4, 1]" if "solves ?mt dn" for dn
  proof -
    have "length dn = 2" using solves_length [OF that] by simp
    then obtain a b where dn: "dn = [a, b]" using list_of_length_2 by blast
    have "a = 4 \<and> b = 1"
      using that unfolding dn by (simp add: solves_def)
    then show ?thesis by (simp add: dn)
  qed
  have e1: "\<exists>!dn. solves ?mt dn"
    by (rule ex1I [of _ "[4, 1]"]) (rule s, rule uq)
  have "(THE dn. solves ?mt dn) = [4, 1]"
    by (rule the_equality) (rule s, rule uq)
  with e1 show ?thesis by (simp only: exactLinearSolver_def if_True)
qed

lemma createFromCenter3Points_tall:
  "createFromCenter3Points exactHost [vec 0 0, vec (1 / 2) 0, vec 0 1] e
   = (True, e\<lparr>majorP := vec (1 / 2) 0, ratio := 2, angle1 := 0, angle2 := 0, center := vec 0 0\<rparr>)"
proof -
  let ?sol = "[vec 0 0, vec (1 / 2) 0, vec 0 1]"
  have n: "[0 ..< 2] = [0, Suc 0]" by (simp add: upt_rec)
  have m: "map (\<lambda>i. let vp = vminus (?sol ! (i + 1)) (?sol ! 0)
                      in [vx vp * vx vp, vy vp * vy vp, 1]) [0 ..< 2]
           = [[1 / 4, 0, 1], [0, 1, 1]]"
    unfolding n by (simp add: Let_def vminus_def vec_sel)
  have q: "\<not> squared (vminus (vec 0 1) (vec (1 / 2) 0)) < RS_TOLERANCE15"
    by (simp add: squared_def vminus_def vec_sel RS_TOLERANCE15_def)
  have z: "center3PointsSize ?sol = 2"
    using q by (simp add: center3PointsSize_def Let_def numeral_2_eq_2)
  have "createFromCenter3Points exactHost ?sol e = center3PointsSwitch exactHost ?sol e 2"
    by (simp add: createFromCenter3Points_def z)
  also have "\<dots> = (True, e\<lparr>majorP := vec (1 / 2) 0, ratio := 2, angle1 := 0, angle2 := 0,
                              center := vec 0 0\<rparr>)"
    unfolding center3PointsSwitch_def m
    by (simp add: Let_def exactHost_fields two_points_system RS_TOLERANCE15_def)
  finally show ?thesis .
qed

lemma three_points_system:
  "exactLinearSolver [[1, 0, 0, 1], [0, 0, 1, 1], [1, 1, 1, 1]] = Some [1, - 1, 1]"
proof -
  let ?mt = "[[1, 0, 0, 1], [0, 0, 1, 1], [1, 1, 1, 1::real]]"
  have s: "solves ?mt [1, - 1, 1]" by (simp add: solves_def)
  have uq: "dn = [1, - 1, 1]" if "solves ?mt dn" for dn
  proof -
    have "length dn = 3" using solves_length [OF that] by simp
    then obtain a b c where dn: "dn = [a, b, c]" using list_of_length_3 by blast
    have "a = 1 \<and> c = 1 \<and> a + b + c = 1"
      using that unfolding dn by (simp add: solves_def)
    then have "a = 1 \<and> b = - 1 \<and> c = 1" by linarith
    then show ?thesis by (simp add: dn)
  qed
  have e1: "\<exists>!dn. solves ?mt dn"
    by (rule ex1I [of _ "[1, - 1, 1]"]) (rule s, rule uq)
  have "(THE dn. solves ?mt dn) = [1, - 1, 1]"
    by (rule the_equality) (rule s, rule uq)
  with e1 show ?thesis by (simp only: exactLinearSolver_def if_True)
qed

lemma createFromCenter3Points_slanted:
  "center3PointsSize [vec 0 0, vec 1 0, vec 0 1, vec 1 1] = 3"
  "fst (createFromCenter3Points exactHost [vec 0 0, vec 1 0, vec 0 1, vec 1 1] e)"
proof -
  let ?sol = "[vec 0 0, vec 1 0, vec 0 1, vec 1 1]"
  have n: "[0 ..< 3] = [0, Suc 0, Suc (Suc 0)]" by (simp add: upt_rec)
  have m: "map (\<lambda>i. let vp = vminus (?sol ! (i + 1)) (?sol ! 0)
                      in [vx vp * vx vp, vx vp * vy vp, vy vp * vy vp, 1]) [0 ..< 3]
           = [[1, 0, 0, 1], [0, 0, 1, 1], [1, 1, 1, 1]]"
    unfolding n by (simp add: Let_def vminus_def vec_sel)
  have q: "\<not> squared (vminus (vec 1 1) (vec 0 1)) < RS_TOLERANCE15"
    by (simp add: squared_def vminus_def vec_sel RS_TOLERANCE15_def)
  show z: "center3PointsSize ?sol = 3"
    using q by (simp add: center3PointsSize_def Let_def numeral_3_eq_3)
  have "createFromCenter3Points exactHost ?sol e = center3PointsSwitch exactHost ?sol e 3"
    by (simp add: createFromCenter3Points_def z)
  also have "\<dots> = createFromQuadratic [1, - 1, 1] (e\<lparr>center := vec 0 0\<rparr>)"
    unfolding center3PointsSwitch_def m
    by (simp add: Let_def exactHost_fields three_points_system)
  finally have u: "createFromCenter3Points exactHost ?sol e
                   = createFromQuadratic [1, - 1, 1] (e\<lparr>center := vec 0 0\<rparr>)" .
  show "fst (createFromCenter3Points exactHost ?sol e)"
    unfolding u by (simp add: createFromQuadratic_def Let_def hypot_def)
qed

subsection \<open>The ellipse inscribed in a quadrilateral\<close>

lemma inscribeFinish_result:
  "(\<not> fst (inscribeFinish h dn av tg c e) \<longrightarrow> snd (snd (inscribeFinish h dn av tg c e)) = e)
   \<and> (fst (inscribeFinish h dn av tg c e) \<longrightarrow>
        0 < ratio (snd (snd (inscribeFinish h dn av tg c e)))
        \<and> ratio (snd (snd (inscribeFinish h dn av tg c e))) \<le> 1)"
  by (simp add: inscribeFinish_def Let_def createFromQuadratic_failed createFromQuadratic_ratio
      transforms_keep_ratio)

lemma inscribeParallelogram_result:
  "(\<not> fst (inscribeParallelogram h tg c e) \<longrightarrow> snd (snd (inscribeParallelogram h tg c e)) = e)
   \<and> (fst (inscribeParallelogram h tg c e) \<longrightarrow>
        0 < ratio (snd (snd (inscribeParallelogram h tg c e)))
        \<and> ratio (snd (snd (inscribeParallelogram h tg c e))) \<le> 1)"
  using inscribeFinish_result
  by (simp add: inscribeParallelogram_def Let_def)

lemma inscribeGeneral_result:
  "(\<not> fst (inscribeGeneral h tg c e) \<longrightarrow> snd (snd (inscribeGeneral h tg c e)) = e)
   \<and> (fst (inscribeGeneral h tg c e) \<longrightarrow>
        0 < ratio (snd (snd (inscribeGeneral h tg c e)))
        \<and> ratio (snd (snd (inscribeGeneral h tg c e))) \<le> 1)"
  using inscribeFinish_result inscribeParallelogram_result
  by (simp add: inscribeGeneral_def Let_def split: option.splits)

lemma createInscribeQuadrilateral_result:
  assumes "\<not> inscribeIsTrapezoid h lines tg"
  shows "(\<not> fst (createInscribeQuadrilateral h lines tg e) \<longrightarrow>
            snd (snd (createInscribeQuadrilateral h lines tg e)) = e)
         \<and> (fst (createInscribeQuadrilateral h lines tg e) \<longrightarrow>
              0 < ratio (snd (snd (createInscribeQuadrilateral h lines tg e)))
              \<and> ratio (snd (snd (createInscribeQuadrilateral h lines tg e))) \<le> 1)"
  using assms inscribeGeneral_result
  by (simp add: createInscribeQuadrilateral_def inscribeIsTrapezoid_def split: sum.splits prod.splits)

lemma createInscribeQuadrilateral_keeps:
  assumes "\<not> inscribeIsTrapezoid h lines tg" and "0 < ratio e" and "ratio e \<le> 1"
  shows "0 < ratio (snd (snd (createInscribeQuadrilateral h lines tg e)))
         \<and> ratio (snd (snd (createInscribeQuadrilateral h lines tg e))) \<le> 1"
  using assms(2,3) createInscribeQuadrilateral_result [OF assms(1), of e]
  by (cases "fst (createInscribeQuadrilateral h lines tg e)") simp_all

lemma inscribeTrapezoid_ratio:
  assumes ok: "fst (inscribeTrapezoid h l0 l1 e)"
    and ne: "line_getLength h l0 \<noteq> line_getLength h l1"
    and ps: "0 < line_getLength h l0 + line_getLength h l1"
  shows "0 < ratio (snd (inscribeTrapezoid h l0 l1 e))"
proof -
  define cp where "cp = vtimes (vplus (line_getMiddlePoint h l0) (line_getMiddlePoint h l1)) 0.5"
  define d where "d = line_getDistanceToPoint h l0 cp"
  define l where "l = (line_getLength h l0 + line_getLength h l1) * 0.25"
  define k where "k = 4 * d / \<bar>line_getLength h l0 - line_getLength h l1\<bar>"
  define theta where "theta = d / (l * k)"
  define a where "a = d / (k * tan (arcsin theta))"
  have u: "inscribeTrapezoid h l0 l1 e =
     (if RS_TOLERANCE < \<bar>distanceTo cp (lineStart l0) - distanceTo cp (lineEnd l0)\<bar> then (False, e)
      else if 1 \<le> theta \<or> d < RS_TOLERANCE then (False, e)
      else (True, (rotateAngle h (e\<lparr>center := vec 0 0, majorP := vec a 0, ratio := d / a\<rparr>)
                     (line_getAngle1 h l0))\<lparr>center := cp\<rparr>))"
    unfolding inscribeTrapezoid_def Let_def cp_def d_def l_def k_def theta_def a_def
    by (rule refl)
  have g: "theta < 1" "RS_TOLERANCE \<le> d"
    using ok unfolding u by (auto split: if_splits)
  have r: "ratio (snd (inscribeTrapezoid h l0 l1 e)) = d / a"
    using ok unfolding u by (auto simp: transforms_keep_ratio split: if_splits)
  have d0: "0 < d" using g by (simp add: RS_TOLERANCE_def)
  have k0: "0 < k" using d0 ne by (simp add: k_def)
  have l0: "0 < l" using ps by (simp add: l_def)
  have t0: "0 < theta" using d0 k0 l0 by (simp add: theta_def)
  have "0 < arcsin theta" "arcsin theta < pi / 2"
    using t0 g arcsin_lt_bounded [of theta] arcsin_less_arcsin [of 0 theta] by simp_all
  then have "0 < tan (arcsin theta)" by (rule tan_gt_zero)
  then have "0 < a" using d0 k0 by (simp add: a_def)
  then show ?thesis unfolding r using d0 by simp
qed

text \<open>The trapezoid with the parallel sides from \<open>(-2, 0)\<close> to \<open>(2, 0)\<close> and from \<open>(1, 10)\<close> to
  \<open>(-1, 10)\<close>.\<close>

lemma sqrt_8_bounds: "2 < sqrt 8" "sqrt 8 < 3"
proof -
  show "2 < sqrt 8" by (rule real_less_rsqrt) simp
  show "sqrt 8 < 3" by (rule real_less_lsqrt) simp_all
qed

lemma tan_arcsin_third: "tan (arcsin (1 / 3)) = 1 / sqrt 8"
proof -
  have "cos (arcsin (1 / 3)) = sqrt (1 - (1 / 3)\<^sup>2)"
    by (rule cos_arcsin) simp_all
  also have "1 - (1 / 3 :: real)\<^sup>2 = 8 / 9" by (simp add: power2_eq_square)
  also have "sqrt (8 / 9) = sqrt 8 / sqrt 9" by (rule real_sqrt_divide)
  also have "sqrt 9 = 3" by (rule real_sqrt_unique) simp_all
  finally have c: "cos (arcsin (1 / 3)) = sqrt 8 / 3" .
  have s: "sin (arcsin (1 / 3)) = 1 / 3" by simp
  show ?thesis
    unfolding tan_def c s by simp
qed

lemma inscribeTrapezoid_tall:
  fixes e
  defines "l0 \<equiv> \<lparr>lineStart = vec (- 2) 0, lineEnd = vec 2 0\<rparr>"
    and "l1 \<equiv> \<lparr>lineStart = vec 1 10, lineEnd = vec (- 1) 10\<rparr>"
  shows "fst (inscribeTrapezoid exactHost l0 l1 e)"
    and "ratio (snd (inscribeTrapezoid exactHost l0 l1 e)) = 10 / sqrt 8"
    and "1 < ratio (snd (inscribeTrapezoid exactHost l0 l1 e))"
proof -
  have hf: "line_getMiddlePoint exactHost l0 = vec 0 0"
    "line_getMiddlePoint exactHost l1 = vec 0 10"
    by (simp_all add: exactHost_def l0_def l1_def vtimes_def vplus_def vec_sel)
  have cp: "vtimes (vplus (vec 0 0) (vec 0 10)) 0.5 = vec 0 5"
    by (simp add: vtimes_def vplus_def vec_sel)
  have ds: "distanceTo (vec 0 5) (lineStart l0) = distanceTo (vec 0 5) (lineEnd l0)"
    by (simp add: distanceTo_def magnitude_def vminus_def vec_sel l0_def)
  have s5: "sqrt 25 = 5" by (rule real_sqrt_unique) simp_all
  have s16: "sqrt 16 = 4" by (rule real_sqrt_unique) simp_all
  have d: "line_getDistanceToPoint exactHost l0 (vec 0 5) = 5"
    by (simp add: exactHost_def segmentDistance_def Let_def l0_def distanceTo_def magnitude_def
        vminus_def vplus_def vtimes_def dotP_def squared_def vec_sel s5)
  have len: "line_getLength exactHost l0 = 4" "line_getLength exactHost l1 = 2"
    by (simp_all add: exactHost_def l0_def l1_def distanceTo_def magnitude_def vminus_def vec_sel s16)
  have th: "5 / ((4 + 2) * 0.25 * (4 * 5 / \<bar>4 - 2\<bar>)) = (1 / 3 :: real)" by simp
  have u: "inscribeTrapezoid exactHost l0 l1 e =
     (True, (rotateAngle exactHost
               (e\<lparr>center := vec 0 0, majorP := vec (5 / (10 * (1 / sqrt 8))) 0,
                  ratio := 5 / (5 / (10 * (1 / sqrt 8)))\<rparr>)
               (line_getAngle1 exactHost l0))\<lparr>center := vec 0 5\<rparr>)"
    unfolding inscribeTrapezoid_def Let_def hf cp ds d len th tan_arcsin_third
    by (simp add: RS_TOLERANCE_def)
  show "fst (inscribeTrapezoid exactHost l0 l1 e)" by (simp add: u)
  show r: "ratio (snd (inscribeTrapezoid exactHost l0 l1 e)) = 10 / sqrt 8"
    by (simp add: u transforms_keep_ratio)
  show "1 < ratio (snd (inscribeTrapezoid exactHost l0 l1 e))"
    unfolding r using sqrt_8_bounds by simp
qed

subsection \<open>Sequences of mutations\<close>

lemma mutate_keeps:
  assumes "keepsRatio h m" and "0 < ratio e" and "ratio e \<le> 1"
  shows "0 < ratio (mutate h m e) \<and> ratio (mutate h m e) \<le> 1"
proof (cases m)
  case (Scale c factor)
  then show ?thesis
    using assms scaleEllipse_keeps [of e factor h c] by simp
next
  case (Shear k)
  then show ?thesis using assms shearEllipse_ratio [of e h k] by simp
next
  case (MoveRef ref offset)
  then show ?thesis using assms moveRef_keeps [of e h ref offset] by simp
next
  case (CreateFromCenter3Points sol)
  then show ?thesis using assms createFromCenter3Points_keeps [of sol e h] by simp
next
  case (CreateFromQuadratic dn)
  then show ?thesis using assms createFromQuadratic_keeps [of e dn] by simp
next
  case (CreateFromQuadraticForm q)
  then show ?thesis using assms createFromQuadraticForm_keeps [of e h q] by simp
next
  case (CreateInscribeQuadrilateral lines tangent)
  then show ?thesis
    using assms createInscribeQuadrilateral_keeps [of h lines tangent e] by simp
qed (use assms in \<open>simp_all add: transforms_keep_ratio\<close>)

lemma mutateAll_keeps:
  assumes "\<forall>m\<in>set ms. keepsRatio h m" and "0 < ratio e" and "ratio e \<le> 1"
  shows "0 < ratio (mutateAll h ms e) \<and> ratio (mutateAll h ms e) \<le> 1"
  using assms
proof (induction ms arbitrary: e)
  case Nil
  then show ?case by (simp add: mutateAll_def)
next
  case (Cons m ms)
  have k: "keepsRatio h m" and ks: "\<forall>m\<in>set ms. keepsRatio h m"
    using Cons.prems(1) by simp_all
  have "0 < ratio (mutate h m e) \<and> ratio (mutate h m e) \<le> 1"
    using mutate_keeps [OF k Cons.prems(2,3)] .
  then have "0 < ratio (mutateAll h ms (mutate h m e))
             \<and> ratio (mutateAll h ms (mutate h m e)) \<le> 1"
    using Cons.IH [OF ks] by simp
  then show ?case by (simp add: mutateAll_def)
qed

lemma createFromQuadraticForm_circle:
  "fst (createFromQuadraticForm exactHost
          \<lparr>isQuadratic = True, quad00 = 1, quad01 = 0, quad11 = 1, linear0 = 0, linear1 = 0,
           constTerm = - 1\<rparr> e)"
proof -
  have q: "fst (createFromQuadratic [1, 0, 1] e)"
    by (simp add: createFromQuadratic_def Let_def hypot_def)
  have m: "quadratic_move exactHost = movedQuadratic" by (simp add: exactHost_def)
  show ?thesis
    unfolding createFromQuadraticForm_def Let_def m
    using q by (simp add: movedQuadratic_def DBL_EPSILON_def vdiv_def vneg_def vec_sel)
qed

text \<open>The square with the sides \<open>y = -1\<close>, \<open>x = 1\<close>, \<open>y = 1\<close> and \<open>x = -1\<close>.\<close>

lemma inscribeRows_plus:
  "inscribeRows [vec 0 1, vec 0 (- 1), vec (- 1) 0, vec 1 0] = [[0, 0, 1, 1], [1, 0, 0, 1]]"
proof -
  have "1 < sqrt 2" by (rule real_less_rsqrt) simp
  then have "\<not> sqrt 2 * 500000000 < 1" by linarith
  then show ?thesis
    by (simp add: inscribeRows_def Let_def vec_sel hypot_def magnitude3_def RS_TOLERANCE_def)
qed

lemma inscribeGeneral_plus:
  "fst (inscribeGeneral h [vec 0 1, vec 0 (- 1), vec (- 1) 0, vec 1 0] (vec 0 0) e)"
proof -
  have t: "map (\<lambda>t. move t (vneg (vec 0 0))) [vec 0 1, vec 0 (- 1), vec (- 1) 0, vec 1 0]
           = [vec 0 1, vec 0 (- 1), vec (- 1) 0, vec 1 0]"
    by (simp add: move_def vneg_def vec_def)
  have m: "magnitude (vec 0 1) = 1" by (simp add: magnitude_def vec_sel)
  have r: "rotateBy (vec (- 1) 0) (vec 0 (- 1)) = vec 0 1"
    by (simp add: rotateBy_def vec_def)
  have p: "fst (inscribeParallelogram h [vec 0 1, vec 0 (- 1), vec (- 1) 0, vec 1 0] (vec 0 0) e)
           = fst (inscribeFinish h [1, 0, 1] (vec 0 (- 1))
               (map (\<lambda>t. rotateBy t (vec 0 (- 1))) [vec 0 1, vec 0 (- 1), vec (- 1) 0, vec 1 0])
               (vec 0 0) e)"
    by (simp add: inscribeParallelogram_def Let_def m vec_sel r squared_def
        RS_TOLERANCE_def RS_TOLERANCE2_def)
  have "fst (createFromQuadratic [1, 0, 1] e)"
    by (simp add: createFromQuadratic_def Let_def hypot_def)
  then have "fst (inscribeFinish h [1, 0, 1] (vec 0 (- 1)) tg (vec 0 0) e)" for tg
    by (simp add: inscribeFinish_def Let_def)
  then show ?thesis
    unfolding inscribeGeneral_def Let_def t inscribeRows_plus using p by simp
qed

lemma inscribeSetup_square:
  "inscribeSetup exactHost
     [\<lparr>lineStart = vec (- 1) (- 1), lineEnd = vec 1 (- 1)\<rparr>,
      \<lparr>lineStart = vec 1 (- 1), lineEnd = vec 1 1\<rparr>,
      \<lparr>lineStart = vec 1 1, lineEnd = vec (- 1) 1\<rparr>,
      \<lparr>lineStart = vec (- 1) 1, lineEnd = vec (- 1) (- 1)\<rparr>] []
   = Inr ([\<lparr>lineStart = vec 1 (- 1), lineEnd = vec 1 1\<rparr>,
           \<lparr>lineStart = vec 1 1, lineEnd = vec (- 1) 1\<rparr>,
           \<lparr>lineStart = vec (- 1) 1, lineEnd = vec (- 1) (- 1)\<rparr>,
           \<lparr>lineStart = vec (- 1) (- 1), lineEnd = vec 1 (- 1)\<rparr>],
          [vec 0 1, vec 0 (- 1), vec (- 1) 0, vec 1 0], vec 0 0, 2, 1)"
proof -
  let ?lines = "[\<lparr>lineStart = vec (- 1) (- 1), lineEnd = vec 1 (- 1)\<rparr>,
      \<lparr>lineStart = vec 1 (- 1), lineEnd = vec 1 1\<rparr>,
      \<lparr>lineStart = vec 1 1, lineEnd = vec (- 1) 1\<rparr>,
      \<lparr>lineStart = vec (- 1) 1, lineEnd = vec (- 1) (- 1)\<rparr>]"
  let ?quad = "[\<lparr>lineStart = vec 1 (- 1), lineEnd = vec 1 1\<rparr>,
           \<lparr>lineStart = vec 1 1, lineEnd = vec (- 1) 1\<rparr>,
           \<lparr>lineStart = vec (- 1) 1, lineEnd = vec (- 1) (- 1)\<rparr>,
           \<lparr>lineStart = vec (- 1) (- 1), lineEnd = vec 1 (- 1)\<rparr>]"
  have n: "[0 ..< 4] = [0, Suc 0, Suc (Suc 0), Suc (Suc (Suc 0))]" by (simp add: upt_rec)
  have hf: "createQuadrilateral exactHost = quadrilateralOf"
    "getIntersectionLineLine exactHost = lineCross"
    "getIntersection exactHost = (\<lambda>l m onEntities. lineCross l m)"
    by (simp_all add: exactHost_def)
  have s0: "quadrilateralOf ?lines = [vec 1 (- 1), vec 1 1, vec (- 1) 1, vec (- 1) (- 1)]"
    unfolding quadrilateralOf_def n
    by (simp add: lineCross_def Let_def vminus_def vplus_def vtimes_def vec_sel)
  have q: "inscribeQuad [vec 1 (- 1), vec 1 1, vec (- 1) 1, vec (- 1) (- 1)] = ?quad"
    unfolding inscribeQuad_def n by simp
  have tg: "inscribeTangents exactHost ?quad (vec 0 0) []
            = ([vec 0 1, vec 0 (- 1), vec (- 1) 0, vec 1 0], 2, 1)"
    unfolding inscribeTangents_def hf
    by (simp add: lineCross_def Let_def vminus_def vplus_def vtimes_def vec_sel)
  have dg: "lineCross \<lparr>lineStart = vec 1 (- 1), lineEnd = vec (- 1) 1\<rparr>
              \<lparr>lineStart = vec 1 1, lineEnd = vec (- 1) (- 1)\<rparr> = [vec 0 0]"
    by (simp add: lineCross_def Let_def vminus_def vplus_def vtimes_def vec_sel)
  have ce: "lineCross \<lparr>lineStart = vec (- 1) 1, lineEnd = vtimes (vplus (vec 0 1) (vec (- 1) 0)) (1 / 2)\<rparr>
              \<lparr>lineStart = vec (- 1) (- 1), lineEnd = vtimes (vplus (vec 0 (- 1)) (vec (- 1) 0)) (1 / 2)\<rparr>
            = [vec 0 0]"
    by (simp add: lineCross_def Let_def vminus_def vplus_def vtimes_def vec_sel)
  show ?thesis
    unfolding inscribeSetup_def Let_def hf s0 q
    by (simp add: dg tg ce)
qed

lemma createInscribeQuadrilateral_square:
  fixes e
  defines "lines \<equiv> [\<lparr>lineStart = vec (- 1) (- 1), lineEnd = vec 1 (- 1)\<rparr>,
      \<lparr>lineStart = vec 1 (- 1), lineEnd = vec 1 1\<rparr>,
      \<lparr>lineStart = vec 1 1, lineEnd = vec (- 1) 1\<rparr>,
      \<lparr>lineStart = vec (- 1) 1, lineEnd = vec (- 1) (- 1)\<rparr>]"
  shows "fst (createInscribeQuadrilateral exactHost lines [] e)"
    and "\<not> inscribeIsTrapezoid exactHost lines []"
  unfolding lines_def createInscribeQuadrilateral_def inscribeIsTrapezoid_def inscribeSetup_square
  by (simp_all add: inscribeGeneral_plus)

text \<open>
  C1. What each mutation does to the stored ratio.

  The fitters. A successful \<^verbatim>\<open>createFromQuadratic\<close>, in either overload, stores a ratio in
  \<open>(0, 1]\<close>. A successful \<^verbatim>\<open>createFrom4P\<close> or \<^verbatim>\<open>createFromCenter3Points\<close> stores a positive
  ratio; neither calls the switch of the axes. In the three-point branch of
  \<^verbatim>\<open>createFromCenter3Points\<close> the ratio is at most one; in its two-point branch the centre
  \<open>(0, 0)\<close> with the points \<open>(1/2, 0)\<close> and \<open>(0, 1)\<close> gives the ratio \<open>2\<close>. A successful
  \<^verbatim>\<open>createInscribeQuadrilateral\<close> stores a ratio in \<open>(0, 1]\<close> unless it takes the branch of
  the symmetric trapezoid; that branch stores a positive ratio when the two parallel sides
  have different lengths, and for the sides from \<open>(-2, 0)\<close> to \<open>(2, 0)\<close> and from \<open>(1, 10)\<close> to
  \<open>(-1, 10)\<close> it stores \<open>10 / sqrt 8\<close>, which is above one.

  The switch. \<^verbatim>\<open>switchMajorMinor\<close> on a ratio above one succeeds and stores the reciprocal,
  which lies in \<open>(0, 1)\<close>; on a ratio from \<^verbatim>\<open>RS_TOLERANCE\<close> to below one it succeeds too and
  stores the reciprocal, which is above one.

  The transformations and the drags. \<^verbatim>\<open>move\<close>, the four overloads of \<^verbatim>\<open>rotate\<close>, \<^verbatim>\<open>mirror\<close>,
  \<^verbatim>\<open>moveStartpoint\<close>, \<^verbatim>\<open>moveEndpoint\<close> and \<^verbatim>\<open>revertDirection\<close> leave the ratio as it is.
  \<^verbatim>\<open>shear\<close> and \<^verbatim>\<open>moveRef\<close> take a ratio in \<open>(0, 1]\<close> to a ratio in \<open>(0, 1]\<close>. So does \<^verbatim>\<open>scale\<close>
  by a factor with no zero component (a major radius of at least \<^verbatim>\<open>RS_TOLERANCE\<close> will do
  in place of the bound one on the ratio); with exactly one zero component, a positive
  ratio and a major radius of at least \<^verbatim>\<open>RS_TOLERANCE\<close> it stores the ratio \<open>0\<close>.

  Sequences. Every sequence of mutations that \<open>keepsRatio\<close> admits takes a ratio in
  \<open>(0, 1]\<close> to a ratio in \<open>(0, 1]\<close>.
\<close>

theorem ratio_after_mutations:
  "(fst (createFromQuadratic dn e) \<longrightarrow>
      0 < ratio (snd (createFromQuadratic dn e)) \<and> ratio (snd (createFromQuadratic dn e)) \<le> 1)
   \<and> (fst (createFromQuadraticForm h q e) \<longrightarrow>
        0 < ratio (snd (createFromQuadraticForm h q e))
        \<and> ratio (snd (createFromQuadraticForm h q e)) \<le> 1)
   \<and> (fst (createFrom4P h sol e) \<longrightarrow> 0 < ratio (snd (createFrom4P h sol e)))
   \<and> (fst (createFromCenter3Points h sol e) \<longrightarrow>
        0 < ratio (snd (createFromCenter3Points h sol e)))
   \<and> (center3PointsSize sol = 3 \<and> fst (createFromCenter3Points h sol e) \<longrightarrow>
        ratio (snd (createFromCenter3Points h sol e)) \<le> 1)
   \<and> createFromCenter3Points exactHost [vec 0 0, vec (1 / 2) 0, vec 0 1] e
       = (True, e\<lparr>majorP := vec (1 / 2) 0, ratio := 2, angle1 := 0, angle2 := 0,
                    center := vec 0 0\<rparr>)
   \<and> (fst (createInscribeQuadrilateral h lines tangent e)
        \<and> \<not> inscribeIsTrapezoid h lines tangent \<longrightarrow>
        0 < ratio (snd (snd (createInscribeQuadrilateral h lines tangent e)))
        \<and> ratio (snd (snd (createInscribeQuadrilateral h lines tangent e))) \<le> 1)
   \<and> (fst (inscribeTrapezoid h l0 l1 e) \<and> line_getLength h l0 \<noteq> line_getLength h l1
        \<and> 0 < line_getLength h l0 + line_getLength h l1 \<longrightarrow>
        0 < ratio (snd (inscribeTrapezoid h l0 l1 e)))
   \<and> fst (inscribeTrapezoid exactHost \<lparr>lineStart = vec (- 2) 0, lineEnd = vec 2 0\<rparr>
            \<lparr>lineStart = vec 1 10, lineEnd = vec (- 1) 10\<rparr> e)
   \<and> ratio (snd (inscribeTrapezoid exactHost \<lparr>lineStart = vec (- 2) 0, lineEnd = vec 2 0\<rparr>
                   \<lparr>lineStart = vec 1 10, lineEnd = vec (- 1) 10\<rparr> e)) = 10 / sqrt 8
   \<and> 1 < 10 / sqrt 8
   \<and> (1 < ratio e \<longrightarrow>
        fst (switchMajorMinor (calculateBorders h) e)
        \<and> ratio (snd (switchMajorMinor (calculateBorders h) e)) = 1 / ratio e
        \<and> 0 < ratio (snd (switchMajorMinor (calculateBorders h) e))
        \<and> ratio (snd (switchMajorMinor (calculateBorders h) e)) < 1)
   \<and> (RS_TOLERANCE \<le> ratio e \<and> ratio e < 1 \<longrightarrow>
        fst (switchMajorMinor (calculateBorders h) e)
        \<and> ratio (snd (switchMajorMinor (calculateBorders h) e)) = 1 / ratio e
        \<and> 1 < ratio (snd (switchMajorMinor (calculateBorders h) e)))
   \<and> ratio (moveEllipse h e offset) = ratio e
   \<and> ratio (rotateAboutAngle h e c a) = ratio e
   \<and> ratio (rotateAboutVector h e c v) = ratio e
   \<and> ratio (rotateAngle h e a) = ratio e
   \<and> ratio (rotateVector h e v) = ratio e
   \<and> ratio (mirrorEllipse h e p1 p2) = ratio e
   \<and> ratio (moveStartpoint h e pos) = ratio e
   \<and> ratio (moveEndpoint h e pos) = ratio e
   \<and> ratio (revertDirection h e) = ratio e
   \<and> (0 < ratio e \<and> ratio e \<le> 1 \<longrightarrow>
        0 < ratio (shearEllipse h e k) \<and> ratio (shearEllipse h e k) \<le> 1)
   \<and> (0 < ratio e \<and> ratio e \<le> 1 \<longrightarrow>
        0 < ratio (moveRef h e ref offset) \<and> ratio (moveRef h e ref offset) \<le> 1)
   \<and> (0 < ratio e \<and> (ratio e \<le> 1 \<or> RS_TOLERANCE \<le> getMajorRadius e)
        \<and> vx factor \<noteq> 0 \<and> vy factor \<noteq> 0 \<longrightarrow>
        0 < ratio (scaleEllipse h e c factor) \<and> ratio (scaleEllipse h e c factor) \<le> 1)
   \<and> (0 < ratio e \<and> RS_TOLERANCE \<le> getMajorRadius e
        \<and> (vx factor = 0 \<or> vy factor = 0) \<and> (vx factor \<noteq> 0 \<or> vy factor \<noteq> 0) \<longrightarrow>
        ratio (scaleEllipse h e c factor) = 0)
   \<and> (0 < ratio e \<and> ratio e \<le> 1 \<and> list_all (keepsRatio h) ms \<longrightarrow>
        0 < ratio (mutateAll h ms e) \<and> ratio (mutateAll h ms e) \<le> 1)"
proof -
  have f1: "fst (createFromQuadratic dn e) \<longrightarrow>
      0 < ratio (snd (createFromQuadratic dn e)) \<and> ratio (snd (createFromQuadratic dn e)) \<le> 1"
    using createFromQuadratic_ratio by blast
  have f2: "fst (createFromQuadraticForm h q e) \<longrightarrow>
        0 < ratio (snd (createFromQuadraticForm h q e))
        \<and> ratio (snd (createFromQuadraticForm h q e)) \<le> 1"
    using createFromQuadraticForm_result by blast
  have f3: "fst (createFrom4P h sol e) \<longrightarrow> 0 < ratio (snd (createFrom4P h sol e))"
    using createFrom4P_ratio by blast
  have f4: "fst (createFromCenter3Points h sol e) \<longrightarrow>
        0 < ratio (snd (createFromCenter3Points h sol e))"
    using createFromCenter3Points_ratio by blast
  have f5: "center3PointsSize sol = 3 \<and> fst (createFromCenter3Points h sol e) \<longrightarrow>
        ratio (snd (createFromCenter3Points h sol e)) \<le> 1"
    using createFromCenter3Points_three by blast
  note f6 = createFromCenter3Points_tall [of e]
  have f7: "fst (createInscribeQuadrilateral h lines tangent e)
        \<and> \<not> inscribeIsTrapezoid h lines tangent \<longrightarrow>
        0 < ratio (snd (snd (createInscribeQuadrilateral h lines tangent e)))
        \<and> ratio (snd (snd (createInscribeQuadrilateral h lines tangent e))) \<le> 1"
    using createInscribeQuadrilateral_result by blast
  have f8: "fst (inscribeTrapezoid h l0 l1 e) \<and> line_getLength h l0 \<noteq> line_getLength h l1
        \<and> 0 < line_getLength h l0 + line_getLength h l1 \<longrightarrow>
        0 < ratio (snd (inscribeTrapezoid h l0 l1 e))"
    using inscribeTrapezoid_ratio by blast
  note f9 = inscribeTrapezoid_tall(1,2) [of e]
  have f10: "1 < 10 / sqrt 8" using sqrt_8_bounds by simp
  have s1: "1 < ratio e \<longrightarrow>
        fst (switchMajorMinor (calculateBorders h) e)
        \<and> ratio (snd (switchMajorMinor (calculateBorders h) e)) = 1 / ratio e
        \<and> 0 < ratio (snd (switchMajorMinor (calculateBorders h) e))
        \<and> ratio (snd (switchMajorMinor (calculateBorders h) e)) < 1"
  proof
    assume r: "1 < ratio e"
    show "fst (switchMajorMinor (calculateBorders h) e)
        \<and> ratio (snd (switchMajorMinor (calculateBorders h) e)) = 1 / ratio e
        \<and> 0 < ratio (snd (switchMajorMinor (calculateBorders h) e))
        \<and> ratio (snd (switchMajorMinor (calculateBorders h) e)) < 1"
      using r by (simp add: switchMajorMinor_ratio [OF r])
  qed
  have s2: "RS_TOLERANCE \<le> ratio e \<and> ratio e < 1 \<longrightarrow>
        fst (switchMajorMinor (calculateBorders h) e)
        \<and> ratio (snd (switchMajorMinor (calculateBorders h) e)) = 1 / ratio e
        \<and> 1 < ratio (snd (switchMajorMinor (calculateBorders h) e))"
    using switchMajorMinor_below by blast
  note t = transforms_keep_ratio [of h e]
  have sh: "0 < ratio e \<and> ratio e \<le> 1 \<longrightarrow>
        0 < ratio (shearEllipse h e k) \<and> ratio (shearEllipse h e k) \<le> 1"
    using shearEllipse_ratio by blast
  have mr: "0 < ratio e \<and> ratio e \<le> 1 \<longrightarrow>
        0 < ratio (moveRef h e ref offset) \<and> ratio (moveRef h e ref offset) \<le> 1"
    using moveRef_keeps by blast
  have sc: "0 < ratio e \<and> (ratio e \<le> 1 \<or> RS_TOLERANCE \<le> getMajorRadius e)
        \<and> vx factor \<noteq> 0 \<and> vy factor \<noteq> 0 \<longrightarrow>
        0 < ratio (scaleEllipse h e c factor) \<and> ratio (scaleEllipse h e c factor) \<le> 1"
    using scaleEllipse_keeps [of e factor h c] scaleEllipse_ratio [of e factor h c] by blast
  have sz: "0 < ratio e \<and> RS_TOLERANCE \<le> getMajorRadius e
        \<and> (vx factor = 0 \<or> vy factor = 0) \<and> (vx factor \<noteq> 0 \<or> vy factor \<noteq> 0) \<longrightarrow>
        ratio (scaleEllipse h e c factor) = 0"
    using scaleEllipse_zero by blast
  have sq: "0 < ratio e \<and> ratio e \<le> 1 \<and> list_all (keepsRatio h) ms \<longrightarrow>
        0 < ratio (mutateAll h ms e) \<and> ratio (mutateAll h ms e) \<le> 1"
    using mutateAll_keeps [of ms h e] by (simp add: list_all_iff)
  show ?thesis
    by (intro conjI) (rule f1 f2 f3 f4 f5 f6 f7 f8 f9 f10 s1 s2 t sh mr sc sz sq)+
qed

theorem ratio_after_mutations_witness:
  "fst (createFromQuadratic [1, 0, 1]
          (newEllipse exactHost (ellipseData (vec 0 0) (vec 10 0) (1 / 2) 0 0 False)))
   \<and> ratio (snd (createFromQuadratic [1, 0, 1]
          (newEllipse exactHost (ellipseData (vec 0 0) (vec 10 0) (1 / 2) 0 0 False)))) \<le> 1
   \<and> fst (createFromQuadraticForm exactHost
          \<lparr>isQuadratic = True, quad00 = 1, quad01 = 0, quad11 = 1, linear0 = 0, linear1 = 0,
           constTerm = - 1\<rparr>
          (newEllipse exactHost (ellipseData (vec 0 0) (vec 10 0) (1 / 2) 0 0 False)))
   \<and> ratio (snd (createFromQuadraticForm exactHost
          \<lparr>isQuadratic = True, quad00 = 1, quad01 = 0, quad11 = 1, linear0 = 0, linear1 = 0,
           constTerm = - 1\<rparr>
          (newEllipse exactHost (ellipseData (vec 0 0) (vec 10 0) (1 / 2) 0 0 False)))) \<le> 1
   \<and> fst (createFrom4P exactHost [vec (1 / 2) 0, vec (- (1 / 2)) 0, vec 0 1, vec 0 (- 1)]
          (newEllipse exactHost (ellipseData (vec 0 0) (vec 10 0) (1 / 2) 0 0 False)))
   \<and> 0 < ratio (snd (createFrom4P exactHost [vec (1 / 2) 0, vec (- (1 / 2)) 0, vec 0 1, vec 0 (- 1)]
          (newEllipse exactHost (ellipseData (vec 0 0) (vec 10 0) (1 / 2) 0 0 False))))
   \<and> fst (createFromCenter3Points exactHost [vec 0 0, vec (1 / 2) 0, vec 0 1]
          (newEllipse exactHost (ellipseData (vec 0 0) (vec 10 0) (1 / 2) 0 0 False)))
   \<and> 0 < ratio (snd (createFromCenter3Points exactHost [vec 0 0, vec (1 / 2) 0, vec 0 1]
          (newEllipse exactHost (ellipseData (vec 0 0) (vec 10 0) (1 / 2) 0 0 False))))
   \<and> center3PointsSize [vec 0 0, vec 1 0, vec 0 1, vec 1 1] = 3
   \<and> fst (createFromCenter3Points exactHost [vec 0 0, vec 1 0, vec 0 1, vec 1 1]
          (newEllipse exactHost (ellipseData (vec 0 0) (vec 10 0) (1 / 2) 0 0 False)))
   \<and> ratio (snd (createFromCenter3Points exactHost [vec 0 0, vec 1 0, vec 0 1, vec 1 1]
          (newEllipse exactHost (ellipseData (vec 0 0) (vec 10 0) (1 / 2) 0 0 False)))) \<le> 1
   \<and> fst (createInscribeQuadrilateral exactHost
          [\<lparr>lineStart = vec (- 1) (- 1), lineEnd = vec 1 (- 1)\<rparr>,
           \<lparr>lineStart = vec 1 (- 1), lineEnd = vec 1 1\<rparr>,
           \<lparr>lineStart = vec 1 1, lineEnd = vec (- 1) 1\<rparr>,
           \<lparr>lineStart = vec (- 1) 1, lineEnd = vec (- 1) (- 1)\<rparr>] []
          (newEllipse exactHost (ellipseData (vec 0 0) (vec 10 0) (1 / 2) 0 0 False)))
   \<and> \<not> inscribeIsTrapezoid exactHost
          [\<lparr>lineStart = vec (- 1) (- 1), lineEnd = vec 1 (- 1)\<rparr>,
           \<lparr>lineStart = vec 1 (- 1), lineEnd = vec 1 1\<rparr>,
           \<lparr>lineStart = vec 1 1, lineEnd = vec (- 1) 1\<rparr>,
           \<lparr>lineStart = vec (- 1) 1, lineEnd = vec (- 1) (- 1)\<rparr>] []
   \<and> ratio (snd (snd (createInscribeQuadrilateral exactHost
          [\<lparr>lineStart = vec (- 1) (- 1), lineEnd = vec 1 (- 1)\<rparr>,
           \<lparr>lineStart = vec 1 (- 1), lineEnd = vec 1 1\<rparr>,
           \<lparr>lineStart = vec 1 1, lineEnd = vec (- 1) 1\<rparr>,
           \<lparr>lineStart = vec (- 1) 1, lineEnd = vec (- 1) (- 1)\<rparr>] []
          (newEllipse exactHost (ellipseData (vec 0 0) (vec 10 0) (1 / 2) 0 0 False))))) \<le> 1
   \<and> fst (inscribeTrapezoid exactHost \<lparr>lineStart = vec (- 2) 0, lineEnd = vec 2 0\<rparr>
            \<lparr>lineStart = vec 1 10, lineEnd = vec (- 1) 10\<rparr>
            (newEllipse exactHost (ellipseData (vec 0 0) (vec 10 0) (1 / 2) 0 0 False)))
   \<and> line_getLength exactHost \<lparr>lineStart = vec (- 2) 0, lineEnd = vec 2 0\<rparr> = 4
   \<and> line_getLength exactHost \<lparr>lineStart = vec 1 10, lineEnd = vec (- 1) 10\<rparr> = 2
   \<and> 0 < ratio (snd (inscribeTrapezoid exactHost \<lparr>lineStart = vec (- 2) 0, lineEnd = vec 2 0\<rparr>
            \<lparr>lineStart = vec 1 10, lineEnd = vec (- 1) 10\<rparr>
            (newEllipse exactHost (ellipseData (vec 0 0) (vec 10 0) (1 / 2) 0 0 False))))
   \<and> 1 < ratio (snd (createFrom4P exactHost [vec (1 / 2) 0, vec (- (1 / 2)) 0, vec 0 1, vec 0 (- 1)]
          (newEllipse exactHost (ellipseData (vec 0 0) (vec 10 0) (1 / 2) 0 0 False))))
   \<and> ratio (snd (switchMajorMinor (calculateBorders exactHost)
        (snd (createFrom4P exactHost [vec (1 / 2) 0, vec (- (1 / 2)) 0, vec 0 1, vec 0 (- 1)]
          (newEllipse exactHost (ellipseData (vec 0 0) (vec 10 0) (1 / 2) 0 0 False)))))) = 1 / 2
   \<and> ratio (newEllipse exactHost (ellipseData (vec 0 0) (vec 10 0) (1 / 2) 0 0 False)) = 1 / 2
   \<and> getMajorRadius (newEllipse exactHost (ellipseData (vec 0 0) (vec 10 0) (1 / 2) 0 0 False)) = 10
   \<and> ratio (snd (switchMajorMinor (calculateBorders exactHost)
        (newEllipse exactHost (ellipseData (vec 0 0) (vec 10 0) (1 / 2) 0 0 False)))) = 2
   \<and> 0 < ratio (shearEllipse exactHost
           (newEllipse exactHost (ellipseData (vec 0 0) (vec 10 0) (1 / 2) 0 0 False)) 1)
   \<and> ratio (shearEllipse exactHost
           (newEllipse exactHost (ellipseData (vec 0 0) (vec 10 0) (1 / 2) 0 0 False)) 1) \<le> 1
   \<and> 0 < ratio (moveRef exactHost
           (newEllipse exactHost (ellipseData (vec 0 0) (vec 10 0) (1 / 2) 0 0 False))
           (vec 10 0) (vec 1 0))
   \<and> ratio (moveRef exactHost
           (newEllipse exactHost (ellipseData (vec 0 0) (vec 10 0) (1 / 2) 0 0 False))
           (vec 10 0) (vec 1 0)) \<le> 1
   \<and> 0 < ratio (scaleEllipse exactHost
           (newEllipse exactHost (ellipseData (vec 0 0) (vec 10 0) (1 / 2) 0 0 False))
           (vec 0 0) (vec 2 3))
   \<and> ratio (scaleEllipse exactHost
           (newEllipse exactHost (ellipseData (vec 0 0) (vec 10 0) (1 / 2) 0 0 False))
           (vec 0 0) (vec 2 3)) \<le> 1
   \<and> ratio (scaleEllipse exactHost
           (newEllipse exactHost (ellipseData (vec 0 0) (vec 10 0) (1 / 2) 0 0 False))
           (vec 0 0) (vec 1 0)) = 0
   \<and> list_all (keepsRatio exactHost)
        [Move (vec 1 1), RotateAboutAngle (vec 0 0) 1, Scale (vec 0 0) (vec 2 3),
         Mirror (vec 0 0) (vec 1 0), Shear 1, MoveRef (vec 10 0) (vec 1 0), RevertDirection,
         CreateFromQuadratic [1, 0, 1],
         CreateFromCenter3Points [vec 0 0, vec 1 0, vec 0 1, vec 1 1],
         CreateInscribeQuadrilateral
           [\<lparr>lineStart = vec (- 1) (- 1), lineEnd = vec 1 (- 1)\<rparr>,
            \<lparr>lineStart = vec 1 (- 1), lineEnd = vec 1 1\<rparr>,
            \<lparr>lineStart = vec 1 1, lineEnd = vec (- 1) 1\<rparr>,
            \<lparr>lineStart = vec (- 1) 1, lineEnd = vec (- 1) (- 1)\<rparr>] []]
   \<and> 0 < ratio (mutateAll exactHost
        [Move (vec 1 1), RotateAboutAngle (vec 0 0) 1, Scale (vec 0 0) (vec 2 3),
         Mirror (vec 0 0) (vec 1 0), Shear 1, MoveRef (vec 10 0) (vec 1 0), RevertDirection,
         CreateFromQuadratic [1, 0, 1],
         CreateFromCenter3Points [vec 0 0, vec 1 0, vec 0 1, vec 1 1],
         CreateInscribeQuadrilateral
           [\<lparr>lineStart = vec (- 1) (- 1), lineEnd = vec 1 (- 1)\<rparr>,
            \<lparr>lineStart = vec 1 (- 1), lineEnd = vec 1 1\<rparr>,
            \<lparr>lineStart = vec 1 1, lineEnd = vec (- 1) 1\<rparr>,
            \<lparr>lineStart = vec (- 1) 1, lineEnd = vec (- 1) (- 1)\<rparr>] []]
        (newEllipse exactHost (ellipseData (vec 0 0) (vec 10 0) (1 / 2) 0 0 False)))
   \<and> ratio (mutateAll exactHost
        [Move (vec 1 1), RotateAboutAngle (vec 0 0) 1, Scale (vec 0 0) (vec 2 3),
         Mirror (vec 0 0) (vec 1 0), Shear 1, MoveRef (vec 10 0) (vec 1 0), RevertDirection,
         CreateFromQuadratic [1, 0, 1],
         CreateFromCenter3Points [vec 0 0, vec 1 0, vec 0 1, vec 1 1],
         CreateInscribeQuadrilateral
           [\<lparr>lineStart = vec (- 1) (- 1), lineEnd = vec 1 (- 1)\<rparr>,
            \<lparr>lineStart = vec 1 (- 1), lineEnd = vec 1 1\<rparr>,
            \<lparr>lineStart = vec 1 1, lineEnd = vec (- 1) 1\<rparr>,
            \<lparr>lineStart = vec (- 1) 1, lineEnd = vec (- 1) (- 1)\<rparr>] []]
        (newEllipse exactHost (ellipseData (vec 0 0) (vec 10 0) (1 / 2) 0 0 False))) \<le> 1"
proof -
  let ?e = "newEllipse exactHost (ellipseData (vec 0 0) (vec 10 0) (1 / 2) 0 0 False)"
  let ?q = "\<lparr>isQuadratic = True, quad00 = 1, quad01 = 0, quad11 = 1, linear0 = 0, linear1 = 0,
            constTerm = - 1\<rparr>"
  let ?sol = "[vec (1 / 2) 0, vec (- (1 / 2)) 0, vec 0 1, vec 0 (- 1)]"
  let ?tall = "[vec 0 0, vec (1 / 2) 0, vec 0 1]"
  let ?slanted = "[vec 0 0, vec 1 0, vec 0 1, vec 1 1]"
  let ?square = "[\<lparr>lineStart = vec (- 1) (- 1), lineEnd = vec 1 (- 1)\<rparr>,
           \<lparr>lineStart = vec 1 (- 1), lineEnd = vec 1 1\<rparr>,
           \<lparr>lineStart = vec 1 1, lineEnd = vec (- 1) 1\<rparr>,
           \<lparr>lineStart = vec (- 1) 1, lineEnd = vec (- 1) (- 1)\<rparr>]"
  let ?l0 = "\<lparr>lineStart = vec (- 2) 0, lineEnd = vec 2 0\<rparr>"
  let ?l1 = "\<lparr>lineStart = vec 1 10, lineEnd = vec (- 1) 10\<rparr>"
  let ?ms = "[Move (vec 1 1), RotateAboutAngle (vec 0 0) 1, Scale (vec 0 0) (vec 2 3),
         Mirror (vec 0 0) (vec 1 0), Shear 1, MoveRef (vec 10 0) (vec 1 0), RevertDirection,
         CreateFromQuadratic [1, 0, 1], CreateFromCenter3Points ?slanted,
         CreateInscribeQuadrilateral ?square []]"
  note a = ratio_after_mutations [where dn = "[1, 0, 1]" and e = ?e and h = exactHost
      and q = ?q and sol = ?sol and lines = ?square and tangent = "[]" and ?l0.0 = ?l0
      and ?l1.0 = ?l1 and ref = "vec 10 0" and offset = "vec 1 0" and c = "vec 0 0"
      and factor = "vec 2 3" and k = 1 and ms = ?ms]
  note b = ratio_after_mutations [where e = ?e and h = exactHost and sol = ?tall]
  note c = ratio_after_mutations [where e = ?e and h = exactHost and sol = ?slanted]
  note d = ratio_after_mutations [where e = "snd (createFrom4P exactHost ?sol ?e)"
      and h = exactHost]
  note z = ratio_after_mutations [where e = ?e and h = exactHost and c = "vec 0 0"
      and factor = "vec 1 0"]
  have k: "ratio ?e = 1 / 2"
    by (simp add: newEllipse_def calculateBorders_fields ellipseData_fields)
  have m: "getMajorRadius ?e = 10"
    by (simp add: getMajorRadius_def newEllipse_def calculateBorders_fields ellipseData_fields
        magnitude_10_0)
  have p: "0 < ratio ?e" "ratio ?e \<le> 1" "RS_TOLERANCE \<le> ratio ?e" "ratio ?e < 1"
    "RS_TOLERANCE \<le> getMajorRadius ?e"
    by (simp_all add: k m RS_TOLERANCE_def)
  have q1: "fst (createFromQuadratic [1, 0, 1] ?e)"
    by (simp add: createFromQuadratic_def Let_def hypot_def)
  have q2: "fst (createFromQuadraticForm exactHost ?q ?e)"
    by (rule createFromQuadraticForm_circle)
  have q3: "fst (createFrom4P exactHost ?sol ?e)"
    and r3: "ratio (snd (createFrom4P exactHost ?sol ?e)) = 2"
    by (simp_all add: createFrom4P_tall)
  have q4: "fst (createFromCenter3Points exactHost ?tall ?e)"
    by (simp add: createFromCenter3Points_tall)
  have q5: "center3PointsSize ?slanted = 3" "fst (createFromCenter3Points exactHost ?slanted ?e)"
    by (rule createFromCenter3Points_slanted)+
  have q6: "fst (createInscribeQuadrilateral exactHost ?square [] ?e)"
    "\<not> inscribeIsTrapezoid exactHost ?square []"
    by (rule createInscribeQuadrilateral_square)+
  have q7: "line_getLength exactHost ?l0 = 4" "line_getLength exactHost ?l1 = 2"
  proof -
    have s16: "sqrt 16 = 4" by (rule real_sqrt_unique) simp_all
    show "line_getLength exactHost ?l0 = 4" "line_getLength exactHost ?l1 = 2"
      by (simp_all add: exactHost_def distanceTo_def magnitude_def vminus_def vec_sel s16)
  qed
  have v: "vx (vec 2 3) \<noteq> 0" "vy (vec 2 3) \<noteq> 0" "vx (vec 1 0) \<noteq> 0" "vy (vec 1 0) = 0"
    by (simp_all add: vec_sel)
  have ks: "list_all (keepsRatio exactHost) ?ms"
    using q5(1) q6(2) by (simp add: vec_sel)
  have g1: "ratio (snd (createFromQuadratic [1, 0, 1] ?e)) \<le> 1"
    using a q1 by blast
  have g2: "ratio (snd (createFromQuadraticForm exactHost ?q ?e)) \<le> 1"
    using a q2 by blast
  have g3: "0 < ratio (snd (createFrom4P exactHost ?sol ?e))"
    using a q3 by blast
  have g4: "0 < ratio (snd (createFromCenter3Points exactHost ?tall ?e))"
    using b q4 by blast
  have g5: "ratio (snd (createFromCenter3Points exactHost ?slanted ?e)) \<le> 1"
    using c q5 by blast
  have g6: "ratio (snd (snd (createInscribeQuadrilateral exactHost ?square [] ?e))) \<le> 1"
    using a q6 by blast
  have g7: "fst (inscribeTrapezoid exactHost ?l0 ?l1 ?e)"
    using a by blast
  have "line_getLength exactHost ?l0 \<noteq> line_getLength exactHost ?l1"
    "0 < line_getLength exactHost ?l0 + line_getLength exactHost ?l1"
    by (simp_all add: q7)
  then have g8: "0 < ratio (snd (inscribeTrapezoid exactHost ?l0 ?l1 ?e))"
    using a g7 by blast
  have g9: "1 < ratio (snd (createFrom4P exactHost ?sol ?e))" by (simp add: r3)
  have g10: "ratio (snd (switchMajorMinor (calculateBorders exactHost)
                (snd (createFrom4P exactHost ?sol ?e)))) = 1 / 2"
    using d g9 by (simp add: r3)
  have "ratio (snd (switchMajorMinor (calculateBorders exactHost) ?e)) = 1 / ratio ?e"
    using a p by blast
  then have g11: "ratio (snd (switchMajorMinor (calculateBorders exactHost) ?e)) = 2"
    by (simp add: k)
  have g12: "0 < ratio (shearEllipse exactHost ?e 1)" "ratio (shearEllipse exactHost ?e 1) \<le> 1"
    "0 < ratio (moveRef exactHost ?e (vec 10 0) (vec 1 0))"
    "ratio (moveRef exactHost ?e (vec 10 0) (vec 1 0)) \<le> 1"
    "0 < ratio (scaleEllipse exactHost ?e (vec 0 0) (vec 2 3))"
    "ratio (scaleEllipse exactHost ?e (vec 0 0) (vec 2 3)) \<le> 1"
    "0 < ratio (mutateAll exactHost ?ms ?e)" "ratio (mutateAll exactHost ?ms ?e) \<le> 1"
    using a p v ks by blast+
  have g13: "ratio (scaleEllipse exactHost ?e (vec 0 0) (vec 1 0)) = 0"
    using z p v by blast
  show ?thesis
    by (intro conjI) (rule q1 g1 q2 g2 q3 g3 q4 g4 q5 g5 q6 g6 g7 q7 g8 g9 g10 k m g11 g12 g13 ks)+
qed

theorem createFrom4P_ratio_counterexample:
  "ratio (newEllipse exactHost (ellipseData (vec 0 0) (vec 10 0) (1 / 2) 0 0 False)) = 1 / 2
   \<and> createFrom4P exactHost [vec (1 / 2) 0, vec (- (1 / 2)) 0, vec 0 1, vec 0 (- 1)]
        (newEllipse exactHost (ellipseData (vec 0 0) (vec 10 0) (1 / 2) 0 0 False))
      = (True, (newEllipse exactHost (ellipseData (vec 0 0) (vec 10 0) (1 / 2) 0 0 False))
                 \<lparr>center := vec 0 0, majorP := vec (1 / 2) 0, ratio := 2, angle1 := 0, angle2 := 0\<rparr>)
   \<and> ratio (snd (createFrom4P exactHost [vec (1 / 2) 0, vec (- (1 / 2)) 0, vec 0 1, vec 0 (- 1)]
        (newEllipse exactHost (ellipseData (vec 0 0) (vec 10 0) (1 / 2) 0 0 False)))) = 2"
proof -
  have "ratio (newEllipse exactHost (ellipseData (vec 0 0) (vec 10 0) (1 / 2) 0 0 False)) = 1 / 2"
    by (simp add: newEllipse_def calculateBorders_fields ellipseData_fields)
  then show ?thesis by (simp add: createFrom4P_tall)
qed

subsection \<open>Extremes of a coordinate along an arc\<close>

lemma direction_functional:
  "p * cos t + q * sin t = magnitude (vec p q) * cos (t - angle (vec p q))"
proof (cases "p = 0 \<and> q = 0")
  case True
  then show ?thesis by (simp add: magnitude_def vec_sel)
next
  case False
  then have nz: "p \<noteq> 0 \<or> q \<noteq> 0" by simp
  let ?r = "sqrt (p * p + q * q)"
  have "p * p + q * q \<noteq> 0"
    using nz by (metis add_nonneg_eq_0_iff mult_eq_0_iff zero_le_square)
  then have r: "?r \<noteq> 0" by simp
  have cs: "cos (angle (vec p q)) = p / ?r" "sin (angle (vec p q)) = q / ?r"
    using atan2_cos_sin [OF nz] by (simp_all add: angle_def vec_sel cos_correctAngle sin_correctAngle)
  show ?thesis
    using r by (simp add: magnitude_def vec_sel cos_diff cs field_simps)
qed

lemma magnitude_nonneg: "0 \<le> magnitude v"
  by (simp add: magnitude_def)

lemma cos_between_on_open_turn:
  assumes "0 \<le> lo" and "lo \<le> s" and "s \<le> hi" and "hi \<le> 2 * pi"
  shows "cos s \<le> max (cos lo) (cos hi)"
proof (cases "s \<le> pi")
  case True
  then have "cos s \<le> cos lo"
    using assms by (intro cos_monotone_0_pi_le) simp_all
  then show ?thesis by simp
next
  case False
  have "cos (2 * pi - s) \<le> cos (2 * pi - hi)"
    using assms False by (intro cos_monotone_0_pi_le) simp_all
  moreover have "cos (2 * pi - s) = cos s" "cos (2 * pi - hi) = cos hi"
    by (simp_all add: cos_diff)
  ultimately show ?thesis by simp
qed

lemma cos_off_span:
  assumes u: "correctAngle (b2 - b1) < correctAngle (a - b1)"
    and t: "0 \<le> t" "t \<le> correctAngle (b2 - b1)"
  shows "cos (b1 + t - a) \<le> max (cos (b1 - a)) (cos (b2 - a))"
proof -
  let ?d = "correctAngle (b2 - b1)" and ?u = "correctAngle (a - b1)"
  obtain k :: int where k: "?u = a - b1 + 2 * pi * of_int k"
    using correctAngle_shift by blast
  obtain j :: int where j: "?d = b2 - b1 + 2 * pi * of_int j"
    using correctAngle_shift by blast
  have ru: "0 \<le> ?u" "?u < 2 * pi" using correctAngle_range [of "a - b1"] by simp_all
  have rd: "0 \<le> ?d" using correctAngle_range [of "b2 - b1"] by simp
  have c1: "cos (b1 + s - a) = cos (?u - s)" for s
  proof -
    have "b1 + s - a = - (?u - s) + 2 * pi * of_int k" using k by simp
    then have "cos (b1 + s - a) = cos (- (?u - s))"
      using sin_cos_eq_iff [of "b1 + s - a" "- (?u - s)"] by blast
    also have "\<dots> = cos (?u - s)" by (rule cos_minus)
    finally show ?thesis .
  qed
  have c2: "cos (b1 - a) = cos ?u"
    using c1 [of 0] by simp
  have c3: "cos (b2 - a) = cos (?u - ?d)"
  proof -
    have "b2 - a = - (?u - ?d) + 2 * pi * of_int (k - j)" using k j by (simp add: algebra_simps)
    then have "cos (b2 - a) = cos (- (?u - ?d))"
      using sin_cos_eq_iff [of "b2 - a" "- (?u - ?d)"] by blast
    also have "\<dots> = cos (?u - ?d)" by (rule cos_minus)
    finally show ?thesis .
  qed
  have "cos (?u - t) \<le> max (cos (?u - ?d)) (cos ?u)"
    by (rule cos_between_on_open_turn) (use u t ru rd in simp_all)
  then show ?thesis by (simp add: c1 c2 c3 max.commute)
qed

lemma span_upper:
  fixes p q :: real
  defines "f \<equiv> \<lambda>t. p * cos t + q * sin t"
  assumes nb: "\<not> isAngleBetween (angle (vec p q)) a1 a2 rv"
    and t: "0 \<le> t" "t \<le> getAngleDifference a1 a2 rv"
  shows "f ((if rv then a2 else a1) + t) \<le> max (f a1) (f a2)"
proof -
  let ?b1 = "if rv then a2 else a1" and ?b2 = "if rv then a1 else a2"
  let ?al = "angle (vec p q)" and ?rho = "magnitude (vec p q)"
  have d: "getAngleDifference a1 a2 rv = correctAngle (?b2 - ?b1)"
    by (simp add: getAngleDifference_def)
  have "correctAngle (?b2 - ?b1) + RS_TOLERANCE_ANGLE / 2 < correctAngle (?al - ?b1)"
    using nb by (simp add: isAngleBetween_def Let_def split: if_splits)
  then have u: "correctAngle (?b2 - ?b1) < correctAngle (?al - ?b1)"
    by (simp add: RS_TOLERANCE_ANGLE_def)
  have "cos (?b1 + t - ?al) \<le> max (cos (?b1 - ?al)) (cos (?b2 - ?al))"
    using t unfolding d by (intro cos_off_span [OF u]) simp_all
  then have "?rho * cos (?b1 + t - ?al) \<le> ?rho * max (cos (?b1 - ?al)) (cos (?b2 - ?al))"
    using magnitude_nonneg [of "vec p q"] by (rule mult_left_mono)
  also have "\<dots> = max (?rho * cos (?b1 - ?al)) (?rho * cos (?b2 - ?al))"
    using magnitude_nonneg [of "vec p q"] by (simp add: max_mult_distrib_left)
  also have "\<dots> = max (f ?b1) (f ?b2)"
    by (simp add: f_def direction_functional)
  also have "\<dots> = max (f a1) (f a2)"
    by (simp add: max.commute)
  finally show ?thesis
    by (simp add: f_def direction_functional)
qed

lemma span_lower:
  fixes p q :: real
  defines "f \<equiv> \<lambda>t. p * cos t + q * sin t"
  assumes nb: "\<not> isAngleBetween (angle (vec p q) + pi) a1 a2 rv"
    and t: "0 \<le> t" "t \<le> getAngleDifference a1 a2 rv"
  shows "min (f a1) (f a2) \<le> f ((if rv then a2 else a1) + t)"
proof -
  let ?b1 = "if rv then a2 else a1" and ?b2 = "if rv then a1 else a2"
  let ?al = "angle (vec p q)" and ?rho = "magnitude (vec p q)"
  have d: "getAngleDifference a1 a2 rv = correctAngle (?b2 - ?b1)"
    by (simp add: getAngleDifference_def)
  have "correctAngle (?b2 - ?b1) + RS_TOLERANCE_ANGLE / 2 < correctAngle (?al + pi - ?b1)"
    using nb by (simp add: isAngleBetween_def Let_def split: if_splits)
  then have u: "correctAngle (?b2 - ?b1) < correctAngle (?al + pi - ?b1)"
    by (simp add: RS_TOLERANCE_ANGLE_def)
  have m: "cos (s - (?al + pi)) = - cos (s - ?al)" for s
  proof -
    have "cos (s - (?al + pi)) = cos (s - ?al - pi)" by (simp add: algebra_simps)
    also have "\<dots> = - cos (s - ?al)" by (simp add: cos_diff)
    finally show ?thesis .
  qed
  have "cos (?b1 + t - (?al + pi)) \<le> max (cos (?b1 - (?al + pi))) (cos (?b2 - (?al + pi)))"
    using t unfolding d by (intro cos_off_span [OF u]) simp_all
  then have "min (cos (?b1 - ?al)) (cos (?b2 - ?al)) \<le> cos (?b1 + t - ?al)"
    unfolding m by (simp add: min_def max_def split: if_splits)
  then have "?rho * min (cos (?b1 - ?al)) (cos (?b2 - ?al)) \<le> ?rho * cos (?b1 + t - ?al)"
    using magnitude_nonneg [of "vec p q"] by (rule mult_left_mono)
  moreover have "?rho * min (cos (?b1 - ?al)) (cos (?b2 - ?al))
                 = min (?rho * cos (?b1 - ?al)) (?rho * cos (?b2 - ?al))"
    using magnitude_nonneg [of "vec p q"] by (simp add: min_mult_distrib_left)
  moreover have "min (?rho * cos (?b1 - ?al)) (?rho * cos (?b2 - ?al)) = min (f a1) (f a2)"
    by (simp add: f_def direction_functional min.commute)
  ultimately show ?thesis
    by (simp add: f_def direction_functional)
qed

lemma functional_extremes:
  fixes p q :: real
  shows "p * cos t + q * sin t \<le> p * cos (angle (vec p q)) + q * sin (angle (vec p q))"
    and "p * cos (angle (vec p q) + pi) + q * sin (angle (vec p q) + pi) \<le> p * cos t + q * sin t"
proof -
  let ?al = "angle (vec p q)" and ?rho = "magnitude (vec p q)"
  have r: "0 \<le> ?rho" by (rule magnitude_nonneg)
  have top: "p * cos ?al + q * sin ?al = ?rho"
    using direction_functional [where p = p and q = q and t = ?al] by simp
  have any: "p * cos t + q * sin t = ?rho * cos (t - ?al)"
    by (rule direction_functional)
  have "?rho * cos (t - ?al) \<le> ?rho * 1"
    using r by (intro mult_left_mono) simp_all
  then show "p * cos t + q * sin t \<le> p * cos ?al + q * sin ?al"
    unfolding top any by simp
  have "p * cos (?al + pi) + q * sin (?al + pi) = - (p * cos ?al + q * sin ?al)"
    by simp
  then have bot: "p * cos (?al + pi) + q * sin (?al + pi) = - ?rho"
    unfolding top .
  have "?rho * (- 1) \<le> ?rho * cos (t - ?al)"
    using r by (intro mult_left_mono) simp_all
  then show "p * cos (?al + pi) + q * sin (?al + pi) \<le> p * cos t + q * sin t"
    unfolding bot any by simp
qed

subsection \<open>The bounding box\<close>

lemma merge_covers_new: "covers (merge box p) p"
  by (simp add: covers_def inBox_def merge_def cornerRect_def vec_sel)

lemma merge_covers_old: "covers box q \<Longrightarrow> covers (merge box p) q"
  by (auto simp: covers_def inBox_def merge_def vec_sel)

lemma cornerRect_covers: "covers (cornerRect p q) p" "covers (cornerRect p q) q"
  by (simp_all add: covers_def inBox_def cornerRect_def vec_sel)

lemma mergeBoundingBox_old:
  "covers box q \<Longrightarrow> covers (mergeBoundingBox e box v) q"
  by (simp add: mergeBoundingBox_def Let_def merge_covers_old)

lemma mergeBoundingBox_first:
  "isAngleBetween (angle v) (angle1 e) (angle2 e) (reversed e) \<Longrightarrow>
   covers (mergeBoundingBox e box v) (getEllipsePoint e (angle v))"
  by (simp add: mergeBoundingBox_def Let_def merge_covers_old merge_covers_new)

lemma mergeBoundingBox_second:
  "isAngleBetween (angle v + pi) (angle1 e) (angle2 e) (reversed e) \<Longrightarrow>
   covers (mergeBoundingBox e box v) (getEllipsePoint e (angle v + pi))"
  by (simp add: mergeBoundingBox_def Let_def merge_covers_new)

lemma boundingBoxOf_unfold:
  "boundingBoxOf e =
     mergeBoundingBox e
       (mergeBoundingBox e
          (if isEllipticArc e then cornerRect (getStartpoint e) (getEndpoint e) else emptyRect)
          (vec (vx (majorP e)) (- ratio e * vy (majorP e))))
       (vec (vy (majorP e)) (ratio e * vx (majorP e)))"
  by (simp add: boundingBoxOf_def Let_def)

lemma boundingBoxOf_covers:
  fixes e
  defines "dx \<equiv> vec (vx (majorP e)) (- ratio e * vy (majorP e))"
    and "dy \<equiv> vec (vy (majorP e)) (ratio e * vx (majorP e))"
  shows "isAngleBetween (angle dx) (angle1 e) (angle2 e) (reversed e) \<Longrightarrow>
           covers (boundingBoxOf e) (getEllipsePoint e (angle dx))"
    and "isAngleBetween (angle dx + pi) (angle1 e) (angle2 e) (reversed e) \<Longrightarrow>
           covers (boundingBoxOf e) (getEllipsePoint e (angle dx + pi))"
    and "isAngleBetween (angle dy) (angle1 e) (angle2 e) (reversed e) \<Longrightarrow>
           covers (boundingBoxOf e) (getEllipsePoint e (angle dy))"
    and "isAngleBetween (angle dy + pi) (angle1 e) (angle2 e) (reversed e) \<Longrightarrow>
           covers (boundingBoxOf e) (getEllipsePoint e (angle dy + pi))"
    and "isArc e \<Longrightarrow> covers (boundingBoxOf e) (getEllipsePoint e (angle1 e))"
    and "isArc e \<Longrightarrow> covers (boundingBoxOf e) (getEllipsePoint e (angle2 e))"
  unfolding boundingBoxOf_unfold dx_def dy_def
  by (simp_all add: mergeBoundingBox_old mergeBoundingBox_first mergeBoundingBox_second
      cornerRect_covers isEllipticArc_def getStartpoint_def getEndpoint_def)

lemma covers_bounds:
  assumes "covers box p"
  shows "valid (minP box)" and "vx (minP box) \<le> vx p" and "vx p \<le> vx (maxP box)"
    and "vy (minP box) \<le> vy p" and "vy p \<le> vy (maxP box)"
  using assms by (simp_all add: covers_def inBox_def)

lemma point_x: "vx (getEllipsePoint e t)
    = vx (center e) + (vx (majorP e) * cos t + (- ratio e * vy (majorP e)) * sin t)"
  by (simp add: getEllipsePoint_coords vec_sel)

lemma point_y: "vy (getEllipsePoint e t)
    = vy (center e) + (vy (majorP e) * cos t + (ratio e * vx (majorP e)) * sin t)"
  by (simp add: getEllipsePoint_coords vec_sel)

lemma nearestWhole_unit:
  assumes "0 \<le> q" and "q < 1"
  shows "nearestWhole q = (if q \<le> 1 / 2 then 0 else 1)"
proof -
  have "\<lfloor>q\<rfloor> = 0" using assms by (intro floor_unique) simp_all
  then show ?thesis by (simp add: nearestWhole_def Let_def)
qed

lemma remainder_turn:
  assumes "0 \<le> x" and "x < 2 * pi"
  shows "remainder x (2 * pi) = (if x \<le> pi then x else x - 2 * pi)"
proof -
  have q: "0 \<le> x / (2 * pi)" "x / (2 * pi) < 1"
    using assms by simp_all
  have "(x / (2 * pi) \<le> 1 / 2) = (x \<le> pi)"
    by (simp add: field_simps)
  then show ?thesis
    by (simp add: remainder_def nearestWhole_unit [OF q])
qed

lemma tolerance_angle_small: "0 < RS_TOLERANCE_ANGLE" "RS_TOLERANCE_ANGLE < 1"
  by (simp_all add: RS_TOLERANCE_ANGLE_def)

lemma remainder_turn_small:
  assumes "0 \<le> x" and "x < 2 * pi"
  shows "(\<bar>remainder x (2 * pi)\<bar> < RS_TOLERANCE_ANGLE)
         = (x < RS_TOLERANCE_ANGLE \<or> 2 * pi - x < RS_TOLERANCE_ANGLE)"
proof -
  have p: "2 \<le> pi" by (rule pi_ge_two)
  show ?thesis
    using assms p tolerance_angle_small
    by (auto simp: remainder_turn [OF assms])
qed

lemma getAngleLength_cases:
  "getAngleLength e =
     (if getAngleDifference (angle1 e) (angle2 e) (reversed e) < RS_TOLERANCE_ANGLE
         \<or> 2 * pi - getAngleDifference (angle1 e) (angle2 e) (reversed e) < RS_TOLERANCE_ANGLE
      then 2 * pi
      else getAngleDifference (angle1 e) (angle2 e) (reversed e))"
proof -
  let ?d = "correctAngle ((if reversed e then angle1 e else angle2 e)
                          - (if reversed e then angle2 e else angle1 e))"
  have d: "getAngleDifference (angle1 e) (angle2 e) (reversed e) = ?d"
    by (simp add: getAngleDifference_def)
  have r: "0 \<le> ?d" "?d < 2 * pi"
    using correctAngle_range by simp_all
  show ?thesis
    unfolding d getAngleLength_def Let_def remainder_turn_small [OF r] by (rule refl)
qed

lemma getAngleLength_bounds:
  "getAngleDifference (angle1 e) (angle2 e) (reversed e) \<le> getAngleLength e"
  "getAngleLength e \<le> 2 * pi"
proof -
  have "getAngleDifference (angle1 e) (angle2 e) (reversed e) < 2 * pi"
    using correctAngle_range by (simp add: getAngleDifference_def)
  then show "getAngleDifference (angle1 e) (angle2 e) (reversed e) \<le> getAngleLength e"
    and "getAngleLength e \<le> 2 * pi"
    by (simp_all add: getAngleLength_cases)
qed

lemma isAngleBetween_coincident:
  assumes "getAngleDifference a1 a2 rv < RS_TOLERANCE_ANGLE
           \<or> 2 * pi - getAngleDifference a1 a2 rv < RS_TOLERANCE_ANGLE"
  shows "isAngleBetween a a1 a2 rv"
  using assms by (auto simp: isAngleBetween_def getAngleDifference_def Let_def split: if_splits)

text \<open>The curve parameter \<open>s\<close> is on the kept span: any \<open>s\<close> when every direction is kept,
  and \<open>start + t\<close> with \<open>t\<close> from zero to the angular difference for an arc.\<close>

lemma boundingBoxOf_contains:
  assumes "(\<forall>a. isAngleBetween a (angle1 e) (angle2 e) (reversed e))
           \<or> isArc e \<and> s = (if reversed e then angle2 e else angle1 e) + t \<and> 0 \<le> t
              \<and> t \<le> getAngleDifference (angle1 e) (angle2 e) (reversed e)"
  shows "inBox (getEllipsePoint e s) (minP (boundingBoxOf e)) (maxP (boundingBoxOf e))"
proof -
  let ?B = "boundingBoxOf e"
  let ?px = "vx (majorP e)" and ?qx = "- ratio e * vy (majorP e)"
  let ?py = "vy (majorP e)" and ?qy = "ratio e * vx (majorP e)"
  let ?a1 = "angle1 e" and ?a2 = "angle2 e" and ?rv = "reversed e"
  note cv = boundingBoxOf_covers [of e]
  have arc: "s = (if ?rv then ?a2 else ?a1) + t" "0 \<le> t" "t \<le> getAngleDifference ?a1 ?a2 ?rv"
    if "\<not> isAngleBetween a ?a1 ?a2 ?rv" for a
    using assms that by auto
  have ends: "covers ?B (getEllipsePoint e ?a1)" "covers ?B (getEllipsePoint e ?a2)"
    if "\<not> isAngleBetween a ?a1 ?a2 ?rv" for a
    using cv(5,6) assms that by auto
  have xu: "vx (getEllipsePoint e s) \<le> vx (maxP ?B)"
  proof (cases "isAngleBetween (angle (vec ?px ?qx)) ?a1 ?a2 ?rv")
    case True
    have "vx (getEllipsePoint e s) \<le> vx (getEllipsePoint e (angle (vec ?px ?qx)))"
      unfolding point_x using functional_extremes(1) [of ?px s ?qx] by simp
    also have "\<dots> \<le> vx (maxP ?B)"
      using covers_bounds(3) [OF cv(1) [OF True]] .
    finally show ?thesis .
  next
    case False
    have "?px * cos s + ?qx * sin s \<le> max (?px * cos ?a1 + ?qx * sin ?a1) (?px * cos ?a2 + ?qx * sin ?a2)"
      using span_upper [OF False arc(2,3) [OF False]] arc(1) [OF False] by simp
    then have "vx (getEllipsePoint e s)
               \<le> max (vx (getEllipsePoint e ?a1)) (vx (getEllipsePoint e ?a2))"
      unfolding point_x by simp
    also have "\<dots> \<le> vx (maxP ?B)"
      using covers_bounds(3) [OF ends(1) [OF False]] covers_bounds(3) [OF ends(2) [OF False]]
      by simp
    finally show ?thesis .
  qed
  have xl: "vx (minP ?B) \<le> vx (getEllipsePoint e s)"
  proof (cases "isAngleBetween (angle (vec ?px ?qx) + pi) ?a1 ?a2 ?rv")
    case True
    have "vx (minP ?B) \<le> vx (getEllipsePoint e (angle (vec ?px ?qx) + pi))"
      using covers_bounds(2) [OF cv(2) [OF True]] .
    also have "\<dots> \<le> vx (getEllipsePoint e s)"
      unfolding point_x using functional_extremes(2) [of ?px ?qx s] by simp
    finally show ?thesis .
  next
    case False
    have "min (?px * cos ?a1 + ?qx * sin ?a1) (?px * cos ?a2 + ?qx * sin ?a2) \<le> ?px * cos s + ?qx * sin s"
      using span_lower [OF False arc(2,3) [OF False]] arc(1) [OF False] by simp
    then have m: "min (vx (getEllipsePoint e ?a1)) (vx (getEllipsePoint e ?a2))
               \<le> vx (getEllipsePoint e s)"
      unfolding point_x by simp
    have "vx (minP ?B) \<le> min (vx (getEllipsePoint e ?a1)) (vx (getEllipsePoint e ?a2))"
      using covers_bounds(2) [OF ends(1) [OF False]] covers_bounds(2) [OF ends(2) [OF False]]
      by simp
    also note m
    finally show ?thesis .
  qed
  have yu: "vy (getEllipsePoint e s) \<le> vy (maxP ?B)"
  proof (cases "isAngleBetween (angle (vec ?py ?qy)) ?a1 ?a2 ?rv")
    case True
    have "vy (getEllipsePoint e s) \<le> vy (getEllipsePoint e (angle (vec ?py ?qy)))"
      unfolding point_y using functional_extremes(1) [of ?py s ?qy] by simp
    also have "\<dots> \<le> vy (maxP ?B)"
      using covers_bounds(5) [OF cv(3) [OF True]] .
    finally show ?thesis .
  next
    case False
    have "?py * cos s + ?qy * sin s \<le> max (?py * cos ?a1 + ?qy * sin ?a1) (?py * cos ?a2 + ?qy * sin ?a2)"
      using span_upper [OF False arc(2,3) [OF False]] arc(1) [OF False] by simp
    then have "vy (getEllipsePoint e s)
               \<le> max (vy (getEllipsePoint e ?a1)) (vy (getEllipsePoint e ?a2))"
      unfolding point_y by simp
    also have "\<dots> \<le> vy (maxP ?B)"
      using covers_bounds(5) [OF ends(1) [OF False]] covers_bounds(5) [OF ends(2) [OF False]]
      by simp
    finally show ?thesis .
  qed
  have yl: "vy (minP ?B) \<le> vy (getEllipsePoint e s)"
  proof (cases "isAngleBetween (angle (vec ?py ?qy) + pi) ?a1 ?a2 ?rv")
    case True
    have "vy (minP ?B) \<le> vy (getEllipsePoint e (angle (vec ?py ?qy) + pi))"
      using covers_bounds(4) [OF cv(4) [OF True]] .
    also have "\<dots> \<le> vy (getEllipsePoint e s)"
      unfolding point_y using functional_extremes(2) [of ?py ?qy s] by simp
    finally show ?thesis .
  next
    case False
    have "min (?py * cos ?a1 + ?qy * sin ?a1) (?py * cos ?a2 + ?qy * sin ?a2) \<le> ?py * cos s + ?qy * sin s"
      using span_lower [OF False arc(2,3) [OF False]] arc(1) [OF False] by simp
    then have m: "min (vy (getEllipsePoint e ?a1)) (vy (getEllipsePoint e ?a2))
               \<le> vy (getEllipsePoint e s)"
      unfolding point_y by simp
    have "vy (minP ?B) \<le> min (vy (getEllipsePoint e ?a1)) (vy (getEllipsePoint e ?a2))"
      using covers_bounds(4) [OF ends(1) [OF False]] covers_bounds(4) [OF ends(2) [OF False]]
      by simp
    also note m
    finally show ?thesis .
  qed
  show ?thesis
    using xl xu yl yu by (simp add: inBox_def)
qed

lemma boundingBoxOf_contains_span:
  assumes "isArc e" and "0 \<le> t" and "t \<le> getAngleLength e"
  shows "inBox (getEllipsePoint e ((if reversed e then angle2 e else angle1 e) + t))
           (minP (boundingBoxOf e)) (maxP (boundingBoxOf e))"
proof (cases "getAngleDifference (angle1 e) (angle2 e) (reversed e) < RS_TOLERANCE_ANGLE
              \<or> 2 * pi - getAngleDifference (angle1 e) (angle2 e) (reversed e) < RS_TOLERANCE_ANGLE")
  case True
  then have "\<forall>a. isAngleBetween a (angle1 e) (angle2 e) (reversed e)"
    using isAngleBetween_coincident by blast
  then show ?thesis by (intro boundingBoxOf_contains) simp
next
  case False
  then have "getAngleLength e = getAngleDifference (angle1 e) (angle2 e) (reversed e)"
    by (simp add: getAngleLength_cases)
  then show ?thesis
    using assms by (intro boundingBoxOf_contains [where t = t]) simp
qed

lemma boundingBoxOf_contains_turn:
  assumes "getAngleLength e = 2 * pi"
  shows "inBox (getEllipsePoint e s) (minP (boundingBoxOf e)) (maxP (boundingBoxOf e))"
proof -
  have "getAngleDifference (angle1 e) (angle2 e) (reversed e) < 2 * pi"
    using correctAngle_range by (simp add: getAngleDifference_def)
  then have "getAngleDifference (angle1 e) (angle2 e) (reversed e) < RS_TOLERANCE_ANGLE
      \<or> 2 * pi - getAngleDifference (angle1 e) (angle2 e) (reversed e) < RS_TOLERANCE_ANGLE"
    using assms by (simp add: getAngleLength_cases split: if_splits)
  then have "\<forall>a. isAngleBetween a (angle1 e) (angle2 e) (reversed e)"
    using isAngleBetween_coincident by blast
  then show ?thesis by (intro boundingBoxOf_contains) simp
qed

lemma getAngleLength_borders:
  "getAngleLength (calculateBorders h e) = getAngleLength (bordersAngles e)"
  by (simp add: getAngleLength_def calculateBorders_fields bordersAngles_fields)

lemma boundingBoxOf_valid:
  assumes "\<not> isArc e \<and> angle1 e = 0 \<and> angle2 e = 0 \<or> isArc e"
  shows "valid (minP (boundingBoxOf e))"
proof (cases "isArc e")
  case True
  then show ?thesis
    using covers_bounds(1) [OF boundingBoxOf_covers(5)] by simp
next
  case False
  then have "isAngleBetween (angle (vec (vx (majorP e)) (- ratio e * vy (majorP e))))
               (angle1 e) (angle2 e) (reversed e)"
    using assms isAngleBetween_whole by auto
  then show ?thesis
    using covers_bounds(1) [OF boundingBoxOf_covers(1)] by simp
qed

text \<open>
  C6. After \<^verbatim>\<open>calculateBorders\<close> every point of the kept curve lies in the box from \<open>minV\<close>
  to \<open>maxV\<close>, borders included: for a whole ellipse \<^verbatim>\<open>getEllipsePoint(s)\<close> for every \<open>s\<close>, and
  for an arc \<^verbatim>\<open>getEllipsePoint(start + t)\<close> for every \<open>t\<close> from zero to \<^verbatim>\<open>getAngleLength()\<close>,
  where the start is \<open>angle1\<close>, or \<open>angle2\<close> for a reversed arc. \<^verbatim>\<open>getAngleLength()\<close> is at
  least the angular difference of the two angles and at most the whole turn, and when it
  is the whole turn (the angles coincide up to the tolerance, or differ by \<open>2\<pi>\<close>) the box
  holds \<^verbatim>\<open>getEllipsePoint(s)\<close> for every \<open>s\<close>. The box is the seed (the
  rectangle of the start and the end point for an arc, the empty rectangle for a whole
  ellipse) merged by \<^verbatim>\<open>mergeBoundingBox\<close> first with the direction of the extreme \<open>x\<close> and
  then with the direction of the extreme \<open>y\<close>; \<^verbatim>\<open>mergeBoundingBox\<close> merges the ellipse point
  of a direction, and then of its opposite, only when \<^verbatim>\<open>isAngleBetween\<close> accepts that angle.
\<close>

theorem calculateBorders_box_contains_curve:
  "(\<not> isArc (calculateBorders h e) \<longrightarrow>
      inBox (getEllipsePoint (calculateBorders h e) s)
        (minV (calculateBorders h e)) (maxV (calculateBorders h e)))
   \<and> (isArc (calculateBorders h e) \<and> 0 \<le> t \<and> t \<le> getAngleLength (calculateBorders h e) \<longrightarrow>
        inBox (getEllipsePoint (calculateBorders h e)
                 ((if reversed (calculateBorders h e) then angle2 (calculateBorders h e)
                   else angle1 (calculateBorders h e)) + t))
          (minV (calculateBorders h e)) (maxV (calculateBorders h e)))
   \<and> (getAngleLength (calculateBorders h e) = 2 * pi \<longrightarrow>
        inBox (getEllipsePoint (calculateBorders h e) s)
          (minV (calculateBorders h e)) (maxV (calculateBorders h e)))
   \<and> getAngleDifference (angle1 (calculateBorders h e)) (angle2 (calculateBorders h e))
        (reversed (calculateBorders h e)) \<le> getAngleLength (calculateBorders h e)
   \<and> getAngleLength (calculateBorders h e) \<le> 2 * pi
   \<and> valid (minV (calculateBorders h e))
   \<and> minV (calculateBorders h e) = minP (boundingBoxOf (bordersAngles e))
   \<and> maxV (calculateBorders h e) = maxP (boundingBoxOf (bordersAngles e))
   \<and> boundingBoxOf (bordersAngles e) =
       mergeBoundingBox (bordersAngles e)
         (mergeBoundingBox (bordersAngles e)
            (if isArc (calculateBorders h e)
             then cornerRect (getStartpoint (bordersAngles e)) (getEndpoint (bordersAngles e))
             else emptyRect)
            (vec (vx (majorP e)) (- ratio e * vy (majorP e))))
         (vec (vy (majorP e)) (ratio e * vx (majorP e)))
   \<and> mergeBoundingBox (bordersAngles e) box v =
       (let box1 = (if isAngleBetween (angle v) (angle1 (calculateBorders h e))
                         (angle2 (calculateBorders h e)) (reversed e)
                    then merge box (getEllipsePoint e (angle v)) else box)
        in if isAngleBetween (angle v + pi) (angle1 (calculateBorders h e))
                (angle2 (calculateBorders h e)) (reversed e)
           then merge box1 (getEllipsePoint e (angle v + pi)) else box1)"
proof -
  let ?b = "bordersAngles e" and ?c = "calculateBorders h e"
  have pt: "getEllipsePoint ?c u = getEllipsePoint ?b u" "getEllipsePoint ?b u = getEllipsePoint e u" for u
    by (simp_all add: getEllipsePoint_coords calculateBorders_fields bordersAngles_fields)
  have fl: "isArc ?c = isArc ?b" "angle1 ?c = angle1 ?b" "angle2 ?c = angle2 ?b"
    "reversed ?c = reversed ?b" "minV ?c = minP (boundingBoxOf ?b)"
    "maxV ?c = maxP (boundingBoxOf ?b)"
    by (simp_all add: calculateBorders_fields bordersAngles_fields)
  have gl: "getAngleLength ?c = getAngleLength ?b" by (rule getAngleLength_borders)
  have z: "angle1 ?b = 0 \<and> angle2 ?b = 0" if "\<not> isArc ?b"
    using that bordersAngles_fields(5) [of e] by simp
  have 1: "inBox (getEllipsePoint ?c s) (minV ?c) (maxV ?c)" if "\<not> isArc ?c"
  proof -
    have "angle1 ?b = 0 \<and> angle2 ?b = 0"
      using that z by (simp add: fl)
    then have "\<forall>a. isAngleBetween a (angle1 ?b) (angle2 ?b) (reversed ?b)"
      using isAngleBetween_whole by simp
    then show ?thesis
      unfolding pt(1) fl by (intro boundingBoxOf_contains) simp
  qed
  have 2: "inBox (getEllipsePoint ?c ((if reversed ?c then angle2 ?c else angle1 ?c) + t))
             (minV ?c) (maxV ?c)"
    if "isArc ?c \<and> 0 \<le> t \<and> t \<le> getAngleLength ?c"
    using that unfolding pt(1) fl gl by (intro boundingBoxOf_contains_span) simp_all
  have 3: "inBox (getEllipsePoint ?c s) (minV ?c) (maxV ?c)" if "getAngleLength ?c = 2 * pi"
    using that unfolding pt(1) fl gl by (intro boundingBoxOf_contains_turn)
  have 4: "getAngleDifference (angle1 ?c) (angle2 ?c) (reversed ?c) \<le> getAngleLength ?c"
    "getAngleLength ?c \<le> 2 * pi"
    by (rule getAngleLength_bounds)+
  have 5: "valid (minV ?c)"
    unfolding fl using z by (intro boundingBoxOf_valid) auto
  have 6: "boundingBoxOf ?b =
       mergeBoundingBox ?b
         (mergeBoundingBox ?b
            (if isArc ?c then cornerRect (getStartpoint ?b) (getEndpoint ?b) else emptyRect)
            (vec (vx (majorP e)) (- ratio e * vy (majorP e))))
         (vec (vy (majorP e)) (ratio e * vx (majorP e)))"
    by (simp add: boundingBoxOf_unfold fl isEllipticArc_def bordersAngles_fields)
  have 7: "mergeBoundingBox ?b box v =
       (let box1 = (if isAngleBetween (angle v) (angle1 ?c) (angle2 ?c) (reversed e)
                    then merge box (getEllipsePoint e (angle v)) else box)
        in if isAngleBetween (angle v + pi) (angle1 ?c) (angle2 ?c) (reversed e)
           then merge box1 (getEllipsePoint e (angle v + pi)) else box1)"
    by (simp add: mergeBoundingBox_def Let_def fl pt(2) bordersAngles_fields)
  from 1 2 3 4 5 fl(5) fl(6) 6 7 show ?thesis by blast
qed


lemma correctAngle_turn: "correctAngle (2 * pi) = 0"
  using correctAngle_period [of 0 1] correctAngle_id [of 0] by simp

lemma newEllipse_arc_turn:
  "isArc (newEllipse h (ellipseData c m k 1 (1 + 2 * pi) False))"
  "getAngleLength (newEllipse h (ellipseData c m k 1 (1 + 2 * pi) False)) = 2 * pi"
proof -
  let ?d = "ellipseData c m k 1 (1 + 2 * pi) False"
  have n: "\<not> (\<bar>angle1 ?d\<bar> < RS_TOLERANCE_ANGLE \<and> \<bar>angle2 ?d\<bar> < RS_TOLERANCE_ANGLE)"
    by (simp add: ellipseData_fields RS_TOLERANCE_ANGLE_def)
  note b = bordersAngles_arc [OF n]
  show "isArc (newEllipse h ?d)"
    using b by (simp add: newEllipse_def calculateBorders_fields)
  have z: "getAngleDifference (angle1 (bordersAngles ?d)) (angle2 (bordersAngles ?d))
          (reversed (bordersAngles ?d)) = 0"
    by (simp add: b bordersAngles_fields ellipseData_fields getAngleDifference_def correctAngle_turn)
  have "getAngleLength (newEllipse h ?d) = getAngleLength (bordersAngles ?d)"
    by (simp only: newEllipse_def getAngleLength_borders)
  also have "\<dots> = 2 * pi"
    unfolding getAngleLength_cases [of "bordersAngles ?d"] z
    by (simp add: RS_TOLERANCE_ANGLE_def)
  finally show "getAngleLength (newEllipse h ?d) = 2 * pi" .
qed

theorem calculateBorders_box_contains_curve_witness:
  "inBox (getEllipsePoint (calculateBorders exactHost (ellipseData (vec 0 0) (vec 10 0) (1 / 2) 0 0 False)) 2)
     (minV (calculateBorders exactHost (ellipseData (vec 0 0) (vec 10 0) (1 / 2) 0 0 False)))
     (maxV (calculateBorders exactHost (ellipseData (vec 0 0) (vec 10 0) (1 / 2) 0 0 False)))
   \<and> isArc (calculateBorders exactHost (ellipseData (vec 0 0) (vec 10 0) (1 / 2) 0 1 False))
   \<and> getAngleLength (calculateBorders exactHost (ellipseData (vec 0 0) (vec 10 0) (1 / 2) 0 1 False)) = 1
   \<and> inBox (getEllipsePoint (calculateBorders exactHost (ellipseData (vec 0 0) (vec 10 0) (1 / 2) 0 1 False))
              (0 + 1 / 2))
       (minV (calculateBorders exactHost (ellipseData (vec 0 0) (vec 10 0) (1 / 2) 0 1 False)))
       (maxV (calculateBorders exactHost (ellipseData (vec 0 0) (vec 10 0) (1 / 2) 0 1 False)))
   \<and> isArc (calculateBorders exactHost (ellipseData (vec 0 0) (vec 10 0) (1 / 2) 1 (1 + 2 * pi) False))
   \<and> getAngleLength (calculateBorders exactHost
        (ellipseData (vec 0 0) (vec 10 0) (1 / 2) 1 (1 + 2 * pi) False)) = 2 * pi
   \<and> inBox (getEllipsePoint (calculateBorders exactHost
               (ellipseData (vec 0 0) (vec 10 0) (1 / 2) 1 (1 + 2 * pi) False)) 4)
       (minV (calculateBorders exactHost (ellipseData (vec 0 0) (vec 10 0) (1 / 2) 1 (1 + 2 * pi) False)))
       (maxV (calculateBorders exactHost (ellipseData (vec 0 0) (vec 10 0) (1 / 2) 1 (1 + 2 * pi) False)))"
proof -
  let ?w = "ellipseData (vec 0 0) (vec 10 0) (1 / 2) 0 0 False"
  let ?a = "ellipseData (vec 0 0) (vec 10 0) (1 / 2) 0 1 False"
  let ?f = "ellipseData (vec 0 0) (vec 10 0) (1 / 2) 1 (1 + 2 * pi) False"
  have w: "\<not> isArc (calculateBorders exactHost ?w)"
    using newEllipse_whole(1) [of exactHost] by (simp add: newEllipse_def)
  have a: "isArc (calculateBorders exactHost ?a)" "angle1 (calculateBorders exactHost ?a) = 0"
    "angle2 (calculateBorders exactHost ?a) = 1"
    using newEllipse_arc_0_1 [of exactHost] by (simp_all add: newEllipse_def)
  have r: "\<not> reversed (calculateBorders exactHost ?a)"
    by (simp add: calculateBorders_fields ellipseData_fields)
  have "(1::real) < 2 * pi" using pi_ge_two by linarith
  then have "correctAngle 1 = 1" by (simp add: correctAngle_id)
  then have d: "getAngleDifference 0 1 False = 1"
    by (simp add: getAngleDifference_def)
  have "\<not> 2 * pi - 1 < RS_TOLERANCE_ANGLE"
    using pi_ge_two by (simp add: RS_TOLERANCE_ANGLE_def)
  then have g: "getAngleLength (calculateBorders exactHost ?a) = 1"
    using a r d by (simp add: getAngleLength_cases RS_TOLERANCE_ANGLE_def)
  have f: "isArc (calculateBorders exactHost ?f)"
    "getAngleLength (calculateBorders exactHost ?f) = 2 * pi"
    using newEllipse_arc_turn [of exactHost] by (simp_all add: newEllipse_def)
  have 1: "inBox (getEllipsePoint (calculateBorders exactHost ?w) 2)
             (minV (calculateBorders exactHost ?w)) (maxV (calculateBorders exactHost ?w))"
    using calculateBorders_box_contains_curve
            [where h = exactHost and e = ?w and s = 2, THEN conjunct1] w
    by blast
  have 2: "inBox (getEllipsePoint (calculateBorders exactHost ?a) (0 + 1 / 2))
             (minV (calculateBorders exactHost ?a)) (maxV (calculateBorders exactHost ?a))"
    using calculateBorders_box_contains_curve
            [where h = exactHost and e = ?a and t = "1 / 2", THEN conjunct2, THEN conjunct1]
          a r g
    by simp
  have 3: "inBox (getEllipsePoint (calculateBorders exactHost ?f) 4)
             (minV (calculateBorders exactHost ?f)) (maxV (calculateBorders exactHost ?f))"
    using calculateBorders_box_contains_curve
            [where h = exactHost and e = ?f and s = 4, THEN conjunct2, THEN conjunct2, THEN conjunct1]
          f
    by blast
  from 1 a(1) g 2 f 3 show ?thesis by (intro conjI)
qed

end
